theory Spec2Isabelle
  imports Main
begin

section \<open>Text primitives of the notebook\<close>

text \<open>
  The notebook \<^verbatim>\<open>geometry_scanner.ipynb\<close> works on text files that it reads with
  \<^verbatim>\<open>readlines()\<close>. A file is modelled as the list of its lines, each line a
  \<^typ>\<open>string\<close> that still carries its terminating newline (the last line of a file
  may lack it). A \<^typ>\<open>char\<close> is one of the code points \<open>0\<close> to \<open>255\<close>. The whitespace
  characters are those of them for which Python's \<^verbatim>\<open>str.isspace\<close> holds, which are also
  those that \<^verbatim>\<open>strip()\<close> and \<^verbatim>\<open>split()\<close> remove and that \<^verbatim>\<open>\s\<close> matches: the ASCII ones,
  the next-line character \<^verbatim>\<open>U+0085\<close> and the no-break space \<^verbatim>\<open>U+00A0\<close>. The decimal digits
  among them are \<^verbatim>\<open>0\<close> to \<^verbatim>\<open>9\<close>.
\<close>

definition is_space :: "char \<Rightarrow> bool" where
  "is_space c = (c \<in> set [CHR 0x09, CHR 0x0A, CHR 0x0B, CHR 0x0C, CHR 0x0D,
                            CHR 0x1C, CHR 0x1D, CHR 0x1E, CHR 0x1F, CHR 0x20,
                            CHR 0x85, CHR 0xA0])"

definition is_digit :: "char \<Rightarrow> bool" where
  "is_digit c = (c \<in> set ''0123456789'')"

text \<open>\<^verbatim>\<open>s.strip()\<close>: whitespace removed at both ends.\<close>

definition lstrip :: "string \<Rightarrow> string" where
  "lstrip s = dropWhile is_space s"

definition rstrip :: "string \<Rightarrow> string" where
  "rstrip s = rev (dropWhile is_space (rev s))"

definition strip :: "string \<Rightarrow> string" where
  "strip s = rstrip (lstrip s)"

text \<open>\<^verbatim>\<open>s.startswith(p)\<close>.\<close>

fun startswith :: "string \<Rightarrow> string \<Rightarrow> bool" where
  "startswith s [] = True"
| "startswith [] (p # ps) = False"
| "startswith (c # cs) (p # ps) = (c = p \<and> startswith cs ps)"

text \<open>\<^verbatim>\<open>p in s\<close>: \<open>p\<close> occurs in \<open>s\<close> as a contiguous substring.\<close>

fun contains :: "string \<Rightarrow> string \<Rightarrow> bool" where
  "contains [] p = (p = [])"
| "contains (c # cs) p = (startswith (c # cs) p \<or> contains cs p)"

text \<open>
  \<^verbatim>\<open>s.split()\<close>: the maximal runs of non-whitespace characters, in order. The
  accumulator \<open>w\<close> holds the current run, reversed.
\<close>

fun split_from :: "string \<Rightarrow> string \<Rightarrow> string list" where
  "split_from w [] = (if w = [] then [] else [rev w])"
| "split_from w (c # cs) =
     (if is_space c then (if w = [] then split_from [] cs else rev w # split_from [] cs)
      else split_from (c # w) cs)"

definition split_ws :: "string \<Rightarrow> string list" where
  "split_ws s = split_from [] s"

text \<open>\<^verbatim>\<open>s.replace(c, r)\<close> for a one-character pattern \<open>c\<close>.\<close>

definition replace_char :: "char \<Rightarrow> string \<Rightarrow> string \<Rightarrow> string" where
  "replace_char c r s = concat (map (\<lambda>x. if x = c then r else [x]) s)"

section \<open>Errors\<close>

text \<open>
  Every \<^verbatim>\<open>raise\<close> of the notebook, and every exception of a Python primitive that
  the notebook can meet, is a value of this type. \<open>ValueError\<close> carries the message of
  a \<^verbatim>\<open>raise ValueError(...)\<close> of the notebook; \<open>LiteralError\<close> is the
  \<^verbatim>\<open>ValueError\<close> of \<^verbatim>\<open>float(s)\<close> or \<^verbatim>\<open>int(s)\<close> on a text \<open>s\<close> that is no
  number, and carries \<open>s\<close>.
\<close>

datatype error =
    ValueError string
  | LiteralError string
  | RuntimeError string
  | IndexError
  | TypeError
  | ZeroDivisionError
  | OverflowError
  | FileNotFoundError

section \<open>Python numbers\<close>

subsection \<open>Binary64 values\<close>

text \<open>
  A Python \<^verbatim>\<open>float\<close> is an IEEE 754 binary64 value. \<open>Finite s m e\<close> stands for
  \<^verbatim>\<open>m * 2**e\<close>, negated when the sign bit \<open>s\<close> is set. The values of the format are
  those with \<^verbatim>\<open>2**52 <= m < 2**53\<close> and \<^verbatim>\<open>-1074 <= e <= 971\<close> (normal), or with
  \<^verbatim>\<open>m < 2**52\<close> and \<^verbatim>\<open>e = -1074\<close> (subnormal and the two zeros); the operations
  below return that form. Values are computed exactly in integers and rounded once.
\<close>

datatype pyfloat = Finite bool nat int | Infinity bool | NaN

text \<open>The number of digits of \<open>n\<close> to base \<open>b\<close> (\<open>0\<close> has none).\<close>

function digit_length :: "nat \<Rightarrow> nat \<Rightarrow> nat" where
  "digit_length b n = (if n = 0 \<or> b < 2 then 0 else Suc (digit_length b (n div b)))"
  by pat_completeness auto
termination
  by (relation "measure snd") auto

declare digit_length.simps [simp del]

text \<open>The ratio \<open>n / d\<close> divided by \<open>b\<close> to the \<open>p\<close>, as a ratio of naturals.\<close>

definition shift_ratio :: "nat \<Rightarrow> nat \<Rightarrow> nat \<Rightarrow> int \<Rightarrow> nat \<times> nat" where
  "shift_ratio b n d p = (if 0 \<le> p then (n, d * b ^ nat p) else (n * b ^ nat (- p), d))"

text \<open>The logarithm of \<open>n / d\<close> to base \<open>b\<close>, rounded down, for positive \<open>n\<close> and \<open>d\<close>.\<close>

definition ilog :: "nat \<Rightarrow> nat \<Rightarrow> nat \<Rightarrow> int" where
  "ilog b n d =
     (let e0 = int (digit_length b n) - int (digit_length b d);
          (a, c) = shift_ratio b n d e0
      in if c \<le> a then e0 else e0 - 1)"

text \<open>The integer nearest to \<open>n / d\<close>, the even one of two at the same distance.\<close>

definition round_half_even :: "nat \<Rightarrow> nat \<Rightarrow> nat" where
  "round_half_even n d =
     (let q = n div d; r = n mod d
      in if 2 * r < d then q else if d < 2 * r then q + 1 else if even q then q else q + 1)"

text \<open>
  The binary64 value nearest to \<open>n / d\<close> with sign bit \<open>s\<close>: round to nearest, ties to
  even; a magnitude that rounds to \<^verbatim>\<open>2**1024\<close> or more overflows to infinity.
\<close>

definition round64 :: "bool \<Rightarrow> nat \<Rightarrow> nat \<Rightarrow> pyfloat" where
  "round64 s n d =
     (if n = 0 then Finite s 0 (- 1074) else
      let p = max (ilog 2 n d - 52) (- 1074);
          (a, c) = shift_ratio 2 n d p;
          m = round_half_even a c;
          (m, p) = (if m = 2 ^ 53 then (2 ^ 52, p + 1) else (m, p))
      in if 971 < p then Infinity s else Finite s m p)"

text \<open>\<^verbatim>\<open>m * 2**e\<close> as a ratio of naturals, and its rounding.\<close>

definition dyadic :: "nat \<Rightarrow> int \<Rightarrow> nat \<times> nat" where
  "dyadic m e = shift_ratio 2 m 1 (- e)"

definition round_dyadic :: "bool \<Rightarrow> nat \<Rightarrow> int \<Rightarrow> pyfloat" where
  "round_dyadic s m e = (let (n, d) = dyadic m e in round64 s n d)"

subsection \<open>Arithmetic\<close>

definition float_neg :: "pyfloat \<Rightarrow> pyfloat" where
  "float_neg x = (case x of Finite s m e \<Rightarrow> Finite (\<not> s) m e | Infinity s \<Rightarrow> Infinity (\<not> s) | NaN \<Rightarrow> NaN)"

text \<open>\<^verbatim>\<open>x * y\<close> on floats.\<close>

fun float_mul :: "pyfloat \<Rightarrow> pyfloat \<Rightarrow> pyfloat" where
  "float_mul NaN y = NaN"
| "float_mul x NaN = NaN"
| "float_mul (Infinity s) (Infinity t) = Infinity (s \<noteq> t)"
| "float_mul (Infinity s) (Finite t m e) = (if m = 0 then NaN else Infinity (s \<noteq> t))"
| "float_mul (Finite s m e) (Infinity t) = (if m = 0 then NaN else Infinity (s \<noteq> t))"
| "float_mul (Finite s m e) (Finite t n f) = round_dyadic (s \<noteq> t) (m * n) (e + f)"

text \<open>
  \<^verbatim>\<open>x + y\<close> on floats. The exact sum of two finite values is an integer multiple of
  \<open>2\<close> to the smaller exponent; a sum that is exactly zero is \<open>-0.0\<close> only when both
  operands are negative.
\<close>

definition signed_mantissa :: "bool \<Rightarrow> nat \<Rightarrow> int" where
  "signed_mantissa s m = (if s then - int m else int m)"

fun float_add :: "pyfloat \<Rightarrow> pyfloat \<Rightarrow> pyfloat" where
  "float_add NaN y = NaN"
| "float_add x NaN = NaN"
| "float_add (Infinity s) (Infinity t) = (if s = t then Infinity s else NaN)"
| "float_add (Infinity s) (Finite t m e) = Infinity s"
| "float_add (Finite s m e) (Infinity t) = Infinity t"
| "float_add (Finite s m e) (Finite t n f) =
     (let g = min e f;
          v = signed_mantissa s m * 2 ^ nat (e - g) + signed_mantissa t n * 2 ^ nat (f - g)
      in if v = 0 then Finite (s \<and> t) 0 (- 1074) else round_dyadic (v < 0) (nat \<bar>v\<bar>) g)"

definition float_sub :: "pyfloat \<Rightarrow> pyfloat \<Rightarrow> pyfloat" where
  "float_sub x y = float_add x (float_neg y)"


text \<open>
  \<^verbatim>\<open>x / y\<close> on floats: Python raises \<^verbatim>\<open>ZeroDivisionError\<close> for a zero divisor of
  either sign, whatever the dividend.
\<close>

fun float_truediv :: "pyfloat \<Rightarrow> pyfloat \<Rightarrow> error + pyfloat" where
  "float_truediv x (Finite t n f) =
     (if n = 0 then Inl ZeroDivisionError else
      case x of
        NaN \<Rightarrow> Inr NaN
      | Infinity s \<Rightarrow> Inr (Infinity (s \<noteq> t))
      | Finite s m e \<Rightarrow>
          (let (a, c) = shift_ratio 2 m n (f - e) in Inr (round64 (s \<noteq> t) a c)))"
| "float_truediv x NaN = Inr NaN"
| "float_truediv x (Infinity t) =
     (case x of
        NaN \<Rightarrow> Inr NaN
      | Infinity s \<Rightarrow> Inr NaN
      | Finite s m e \<Rightarrow> Inr (Finite (s \<noteq> t) 0 (- 1074)))"

text \<open>
  The conversion of an \<^verbatim>\<open>int\<close> operand of a mixed operation: the nearest float, or
  \<^verbatim>\<open>OverflowError\<close> when it is out of range.
\<close>

definition float_of_int :: "int \<Rightarrow> error + pyfloat" where
  "float_of_int i =
     (case round64 (i < 0) (nat \<bar>i\<bar>) 1 of
        Infinity s \<Rightarrow> Inl OverflowError
      | x \<Rightarrow> Inr x)"

text \<open>A number of the notebook is an \<^verbatim>\<open>int\<close> or a \<^verbatim>\<open>float\<close>.\<close>

datatype pynum = PyInt int | PyFloat pyfloat

definition as_float :: "pynum \<Rightarrow> error + pyfloat" where
  "as_float x = (case x of PyInt i \<Rightarrow> float_of_int i | PyFloat f \<Rightarrow> Inr f)"

text \<open>\<^verbatim>\<open>int(x)\<close>: a float is truncated towards zero.\<close>

definition py_int :: "pynum \<Rightarrow> error + int" where
  "py_int x =
     (case x of
        PyInt i \<Rightarrow> Inr i
      | PyFloat NaN \<Rightarrow> Inl (ValueError ''cannot convert float NaN to integer'')
      | PyFloat (Infinity s) \<Rightarrow> Inl OverflowError
      | PyFloat (Finite s m e) \<Rightarrow>
          Inr (let (n, d) = dyadic m e in if s then - int (n div d) else int (n div d)))"

text \<open>
  Comparison is exact, also between an \<^verbatim>\<open>int\<close> and a \<^verbatim>\<open>float\<close>; every
  comparison with NaN is false. \<open>num_cmp x y\<close> is the sign of \<open>x - y\<close>.
\<close>

datatype extended = MinusInfinity | Dyadic int int | PlusInfinity

definition extended_of :: "pynum \<Rightarrow> extended option" where
  "extended_of x =
     (case x of
        PyInt i \<Rightarrow> Some (Dyadic i 0)
      | PyFloat NaN \<Rightarrow> None
      | PyFloat (Infinity s) \<Rightarrow> Some (if s then MinusInfinity else PlusInfinity)
      | PyFloat (Finite s m e) \<Rightarrow> Some (Dyadic (signed_mantissa s m) e))"

fun extended_le :: "extended \<Rightarrow> extended \<Rightarrow> bool" where
  "extended_le MinusInfinity y = True"
| "extended_le x PlusInfinity = True"
| "extended_le PlusInfinity y = False"
| "extended_le x MinusInfinity = False"
| "extended_le (Dyadic i e) (Dyadic j f) =
     (let g = min e f in i * 2 ^ nat (e - g) \<le> j * 2 ^ nat (f - g))"

definition num_le :: "pynum \<Rightarrow> pynum \<Rightarrow> bool" where
  "num_le x y =
     (case (extended_of x, extended_of y) of
        (Some a, Some b) \<Rightarrow> extended_le a b
      | _ \<Rightarrow> False)"

subsection \<open>Text of a number\<close>

definition digit_char :: "nat \<Rightarrow> char" where
  "digit_char n = ''0123456789'' ! (n mod 10)"

function str_nat :: "nat \<Rightarrow> string" where
  "str_nat n = (if n < 10 then [digit_char n] else str_nat (n div 10) @ [digit_char n])"
  by pat_completeness auto
termination
  by (relation "measure id") auto

declare str_nat.simps [simp del]

text \<open>\<^verbatim>\<open>str(i)\<close> for an \<^verbatim>\<open>int\<close>.\<close>

definition str_int :: "int \<Rightarrow> string" where
  "str_int i = (if i < 0 then ''-'' @ str_nat (nat (- i)) else str_nat (nat i))"

text \<open>\<open>n\<close> in at least \<open>w\<close> digits, zeros in front.\<close>

definition zero_padded :: "nat \<Rightarrow> nat \<Rightarrow> string" where
  "zero_padded w n = replicate (w - length (str_nat n)) CHR ''0'' @ str_nat n"

text \<open>
  \<^verbatim>\<open>f"{x:.8f}"\<close>: the exact value rounded to eight decimals (ties to even), the sign
  kept also when the digits are all zero.
\<close>

definition format_8f :: "pyfloat \<Rightarrow> string" where
  "format_8f x =
     (case x of
        NaN \<Rightarrow> ''nan''
      | Infinity s \<Rightarrow> (if s then ''-inf'' else ''inf'')
      | Finite s m e \<Rightarrow>
          (let (n, d) = dyadic m e;
               r = round_half_even (n * 10 ^ 8) d
           in (if s then ''-'' else []) @ str_nat (r div 10 ^ 8) @ ''.'' @ zero_padded 8 (r mod 10 ^ 8)))"

text \<open>
  \<^verbatim>\<open>repr(x)\<close>, which is also \<^verbatim>\<open>str(x)\<close> and what an f-string without a format
  prints: the shortest decimal that \<^verbatim>\<open>float\<close> reads back as \<open>x\<close>, and of those
  the nearest to \<open>x\<close>. For the value \<^verbatim>\<open>m * 2**e\<close> with decimal exponent \<open>e10\<close>,
  \<open>digits_at m e e10 k\<close> tries \<open>k\<close> significant digits: with \<open>x = e10 - k + 1\<close>, the
  two \<open>k\<close>-digit decimals around the value are \<open>lo\<close> and \<open>lo + 1\<close> times \<open>10\<close> to
  the \<open>x\<close>, where \<open>lo\<close> is the value divided by \<open>10\<close> to the \<open>x\<close>, rounded down
  (\<open>scaled\<close> is that quotient as a ratio \<open>a / c\<close>). \<open>reads_back\<close> says that a decimal
  is read as the value; \<open>nearer_low\<close> says that \<open>lo\<close> is the nearer of the two, or the
  even one at the same distance.
\<close>

definition round_decimal :: "nat \<Rightarrow> int \<Rightarrow> pyfloat" where
  "round_decimal c x = (let (n, d) = shift_ratio 10 c 1 (- x) in round64 False n d)"

definition reads_back :: "nat \<Rightarrow> int \<Rightarrow> nat \<Rightarrow> int \<Rightarrow> bool" where
  "reads_back m e c x = (round_decimal c x = Finite False m e)"

definition decimal_exponent :: "nat \<Rightarrow> int \<Rightarrow> int" where
  "decimal_exponent m e = ilog 10 (fst (dyadic m e)) (snd (dyadic m e))"

definition scaled :: "nat \<Rightarrow> int \<Rightarrow> int \<Rightarrow> nat \<times> nat" where
  "scaled m e x = shift_ratio 10 (fst (dyadic m e)) (snd (dyadic m e)) x"

definition nearer_low :: "nat \<Rightarrow> nat \<Rightarrow> bool" where
  "nearer_low a c = (2 * (a mod c) < c \<or> (2 * (a mod c) = c \<and> even (a div c)))"

definition choose_digits :: "bool \<Rightarrow> bool \<Rightarrow> bool \<Rightarrow> nat \<Rightarrow> int \<Rightarrow> (nat \<times> int) option" where
  "choose_digits ok_lo ok_hi low lo x =
     (if ok_lo \<and> (low \<or> \<not> ok_hi) then Some (lo, x)
      else if ok_hi then Some (lo + 1, x)
      else None)"

definition digits_near :: "nat \<Rightarrow> int \<Rightarrow> int \<Rightarrow> nat \<times> nat \<Rightarrow> (nat \<times> int) option" where
  "digits_near m e x ac =
     choose_digits (reads_back m e (fst ac div snd ac) x) (reads_back m e (fst ac div snd ac + 1) x)
       (nearer_low (fst ac) (snd ac)) (fst ac div snd ac) x"

definition digits_at :: "nat \<Rightarrow> int \<Rightarrow> int \<Rightarrow> nat \<Rightarrow> (nat \<times> int) option" where
  "digits_at m e e10 k = digits_near m e (e10 - int k + 1) (scaled m e (e10 - int k + 1))"

text \<open>
  The digits for the first of the given digit counts that has any. Seventeen digits
  always do; the last equation, the value rounded to seventeen digits, makes the
  function total.
\<close>

fun first_digits :: "nat \<Rightarrow> int \<Rightarrow> int \<Rightarrow> nat list \<Rightarrow> nat \<times> int" where
  "first_digits m e e10 [] =
     (round_half_even (fst (scaled m e (e10 - 16))) (snd (scaled m e (e10 - 16))), e10 - 16)"
| "first_digits m e e10 (k # ks) =
     (case digits_at m e e10 k of Some r \<Rightarrow> r | None \<Rightarrow> first_digits m e e10 ks)"

definition shortest_digits :: "nat \<Rightarrow> int \<Rightarrow> nat \<times> int" where
  "shortest_digits m e =
     first_digits m e (decimal_exponent m e)
       [1, 2, 3, 4, 5, 6, 7, 8, 9, 10, 11, 12, 13, 14, 15, 16, 17]"

text \<open>
  The digits \<open>ds\<close> with the decimal point after the first \<open>decpt\<close> of them, in Python's
  layout: exponent notation when \<open>decpt > 16\<close> or \<open>decpt \<le> -4\<close>.
\<close>

definition layout_repr :: "string \<Rightarrow> int \<Rightarrow> string" where
  "layout_repr ds decpt =
     (let nd = int (length ds) in
      if 16 < decpt \<or> decpt \<le> - 4 then
        take 1 ds @ (if 1 < nd then ''.'' @ drop 1 ds else []) @ ''e''
          @ (if decpt - 1 < 0 then ''-'' else ''+'') @ zero_padded 2 (nat \<bar>decpt - 1\<bar>)
      else if decpt \<le> 0 then ''0.'' @ replicate (nat (- decpt)) CHR ''0'' @ ds
      else if decpt < nd then take (nat decpt) ds @ ''.'' @ drop (nat decpt) ds
      else ds @ replicate (nat (decpt - nd)) CHR ''0'' @ ''.0'')"

function strip_zeros :: "nat \<Rightarrow> int \<Rightarrow> nat \<times> int" where
  "strip_zeros c x = (if c \<noteq> 0 \<and> c mod 10 = 0 then strip_zeros (c div 10) (x + 1) else (c, x))"
  by pat_completeness auto
termination
  by (relation "measure fst") auto

declare strip_zeros.simps [simp del]

definition float_repr :: "pyfloat \<Rightarrow> string" where
  "float_repr x =
     (case x of
        NaN \<Rightarrow> ''nan''
      | Infinity s \<Rightarrow> (if s then ''-inf'' else ''inf'')
      | Finite s m e \<Rightarrow>
          (if s then ''-'' else []) @
          (if m = 0 then ''0.0'' else
           let (c, x) = shortest_digits m e; (c, x) = strip_zeros c x; ds = str_nat c
           in layout_repr ds (x + int (length ds))))"

subsection \<open>Reading a number\<close>

text \<open>
  \<^verbatim>\<open>float(s)\<close> and \<^verbatim>\<open>int(s)\<close> on a string: surrounding whitespace is dropped, an
  underscore may stand between two digits, the whole text must be a number. \<open>None\<close>
  is Python's \<^verbatim>\<open>ValueError\<close>. The whitespace that the two drop is narrower than that of
  \<^verbatim>\<open>strip()\<close>: the separators \<^verbatim>\<open>U+001C\<close> to \<^verbatim>\<open>U+001F\<close> are not dropped, and a text
  that has one is rejected.
\<close>

definition is_number_space :: "char \<Rightarrow> bool" where
  "is_number_space c = (c \<in> set [CHR 0x09, CHR 0x0A, CHR 0x0B, CHR 0x0C, CHR 0x0D, CHR 0x20,
                                   CHR 0x85, CHR 0xA0])"

definition strip_number :: "string \<Rightarrow> string" where
  "strip_number s = rev (dropWhile is_number_space (rev (dropWhile is_number_space s)))"

fun underscores_ok :: "char option \<Rightarrow> string \<Rightarrow> bool" where
  "underscores_ok prev [] = True"
| "underscores_ok prev (c # cs) =
     (if c = CHR ''_''
      then (case prev of Some p \<Rightarrow> is_digit p | None \<Rightarrow> False)
         \<and> (case cs of d # ds \<Rightarrow> is_digit d | [] \<Rightarrow> False)
         \<and> underscores_ok (Some c) cs
      else underscores_ok (Some c) cs)"

definition digit_val :: "char \<Rightarrow> nat" where
  "digit_val c = of_char c - 48"

definition nat_of_digits :: "string \<Rightarrow> nat" where
  "nat_of_digits ds = foldl (\<lambda>acc c. acc * 10 + digit_val c) 0 ds"

definition split_sign :: "string \<Rightarrow> bool \<times> string" where
  "split_sign s =
     (case s of
        c # r \<Rightarrow> if c = CHR ''-'' then (True, r) else if c = CHR ''+'' then (False, r) else (False, s)
      | [] \<Rightarrow> (False, []))"

definition int_of_string :: "string \<Rightarrow> int option" where
  "int_of_string s0 =
     (let (neg, u) = split_sign (strip_number s0);
          ds = filter (\<lambda>c. c \<noteq> CHR ''_'') u
      in if underscores_ok None u \<and> ds \<noteq> [] \<and> list_all is_digit ds
         then Some (if neg then - int (nat_of_digits ds) else int (nat_of_digits ds))
         else None)"

definition to_lower :: "char \<Rightarrow> char" where
  "to_lower c =
     (if (65::nat) \<le> of_char c \<and> of_char c \<le> (90::nat) then char_of (of_char c + (32::nat)) else c)"

text \<open>The exponent part: empty, or \<^verbatim>\<open>e\<close> or \<^verbatim>\<open>E\<close>, an optional sign and digits.\<close>

definition exponent_of :: "string \<Rightarrow> int option" where
  "exponent_of s =
     (case s of
        [] \<Rightarrow> Some 0
      | c # r \<Rightarrow>
          if c = CHR ''e'' \<or> c = CHR ''E'' then
            (let (neg, ds) = split_sign r
             in if ds \<noteq> [] \<and> list_all is_digit ds
                then Some (if neg then - int (nat_of_digits ds) else int (nat_of_digits ds))
                else None)
          else None)"

definition decimal_of_string :: "bool \<Rightarrow> string \<Rightarrow> pyfloat option" where
  "decimal_of_string neg u =
     (let ip = takeWhile is_digit u; r1 = dropWhile is_digit u;
          (fp, r2) = (case r1 of
                        c # r \<Rightarrow> if c = CHR ''.'' then (takeWhile is_digit r, dropWhile is_digit r)
                                 else ([], r1)
                      | [] \<Rightarrow> ([], []))
      in if ip = [] \<and> fp = [] then None
         else case exponent_of r2 of
                None \<Rightarrow> None
              | Some x \<Rightarrow>
                  (let (n, d) = shift_ratio 10 (nat_of_digits (ip @ fp)) 1 (int (length fp) - x)
                   in Some (round64 neg n d)))"

definition float_of_string :: "string \<Rightarrow> pyfloat option" where
  "float_of_string s0 =
     (let s = strip_number s0 in
      if \<not> underscores_ok None s then None else
      let (neg, u) = split_sign (filter (\<lambda>c. c \<noteq> CHR ''_'') s);
          l = map to_lower u
      in if l = ''inf'' \<or> l = ''infinity'' then Some (Infinity neg)
         else if l = ''nan'' then Some NaN
         else decimal_of_string neg u)"


section \<open>The functions of the notebook\<close>

text \<open>
  The cells of \<^verbatim>\<open>geometry_scanner.ipynb\<close>, in the order of the notebook. A function
  that reads a file takes the lines \<^verbatim>\<open>readlines()\<close> gave; a function that reads a
  global variable of the notebook takes it as an argument of the same name.
\<close>

definition apostrophe :: string where
  "apostrophe = [CHR 0x27]"

subsection \<open>The scanned bond must exist in the geometry file\<close>

text \<open>
  \<^verbatim>\<open>
  for i, line in enumerate(lines):
      if line.strip().startswith(f"{scan_bond} "):
          parts = line.split()
          if len(parts) == 2:
              break
  else:
      raise ValueError(f"Error: Could not find the line starting with '{scan_bond}'.\n Please provide a valid bond to be scanned.")
  \<close>
\<close>

fun bond_in_geometry :: "string \<Rightarrow> string list \<Rightarrow> bool" where
  "bond_in_geometry scan_bond [] = False"
| "bond_in_geometry scan_bond (line # lines) =
     (if startswith (strip line) (scan_bond @ '' '') \<and> length (split_ws line) = 2 then True
      else bond_in_geometry scan_bond lines)"

definition check_scan_bond :: "string \<Rightarrow> string list \<Rightarrow> error + unit" where
  "check_scan_bond scan_bond lines =
     (if bond_in_geometry scan_bond lines then Inr ()
      else Inl (ValueError (''Error: Could not find the line starting with '' @ apostrophe
             @ scan_bond @ apostrophe
             @ ''.\<newline> Please provide a valid bond to be scanned.'')))"

subsection \<open>Validation of the scan parameters\<close>

text \<open>
  \<^verbatim>\<open>
  def validate_parameters(lower_bound, upper_bound, scan_step_number):
      if lower_bound <= 0:
          raise ValueError("lower_bound must be positive")
      if upper_bound <= 0:
          raise ValueError("upper_bound must be positive")
      if upper_bound <= lower_bound:
          raise ValueError("upper_bound must be larger than lower_bound")
      if not isinstance(scan_step_number, int) or scan_step_number <= 0:
          raise ValueError("scan_step_number must be a positive integer")
  \<close>
\<close>

definition isinstance_int :: "pynum \<Rightarrow> bool" where
  "isinstance_int x = (case x of PyInt i \<Rightarrow> True | PyFloat f \<Rightarrow> False)"

definition validate_parameters :: "pynum \<Rightarrow> pynum \<Rightarrow> pynum \<Rightarrow> error + unit" where
  "validate_parameters lower_bound upper_bound scan_step_number =
     (if num_le lower_bound (PyInt 0) then Inl (ValueError ''lower_bound must be positive'')
      else if num_le upper_bound (PyInt 0) then Inl (ValueError ''upper_bound must be positive'')
      else if num_le upper_bound lower_bound
        then Inl (ValueError ''upper_bound must be larger than lower_bound'')
      else if \<not> isinstance_int scan_step_number \<or> num_le scan_step_number (PyInt 0)
        then Inl (ValueError ''scan_step_number must be a positive integer'')
      else Inr ())"

text \<open>
  The cell calls it under \<^verbatim>\<open>try\<close>, and on a \<^verbatim>\<open>ValueError\<close> only prints:
  \<^verbatim>\<open>
  try:
      validate_parameters(lower_bound, upper_bound, scan_step_number)
  except ValueError as e:
      print(f"Parameter validation error: {e}")
  \<close>
  The result is what the cell prints, or the exception it lets through.
\<close>

definition validation_cell :: "pynum \<Rightarrow> pynum \<Rightarrow> pynum \<Rightarrow> error + string list" where
  "validation_cell lower_bound upper_bound scan_step_number =
     (case validate_parameters lower_bound upper_bound scan_step_number of
        Inr u \<Rightarrow> Inr []
      | Inl (ValueError e) \<Rightarrow> Inr [''Parameter validation error: '' @ e]
      | Inl other \<Rightarrow> Inl other)"

subsection \<open>The header lines of the two decks\<close>

definition opt_header :: "string \<Rightarrow> int \<Rightarrow> int \<Rightarrow> string \<Rightarrow> string \<Rightarrow> string list" where
  "opt_header molecule_name memory n_cpus method_name title_card =
     [''%chk='' @ molecule_name @ ''.chk\<newline>'',
      ''%mem='' @ str_int memory @ ''GB\<newline>'',
      ''%nprocshared='' @ str_int n_cpus @ ''\<newline>'',
      ''# '' @ method_name
        @ ''/gen pseudo=read guess=mix scf=(maxcycle=500, yqc, tight) OPT(maxcycles=1000)\<newline>'',
      ''\<newline>'',
      title_card @ ''\<newline>'',
      ''\<newline>'']"

definition scan_header :: "string \<Rightarrow> int \<Rightarrow> int \<Rightarrow> string \<Rightarrow> string \<Rightarrow> string list" where
  "scan_header molecule_name memory n_cpus method_name title_card =
     [''%chk='' @ molecule_name @ ''.chk\<newline>'',
      ''%mem='' @ str_int memory @ ''GB\<newline>'',
      ''%nprocshared='' @ str_int n_cpus @ ''\<newline>'',
      ''# scan '' @ method_name
        @ ''/gen pseudo=read guess=mix scf=(maxcycle=500, yqc, tight)\<newline>'',
      ''\<newline>'',
      title_card @ ''\<newline>'',
      ''\<newline>'']"

subsection \<open>Reading the geometry\<close>

text \<open>
  \<^verbatim>\<open>read_geometry_block\<close> walks an index over the lines in four loops: over the
  blank lines at the start; over one line; up to and over the second blank line after
  it; and, collecting, up to and over the second blank line of the block. The blank
  lines at the end of what it collected are popped.
\<close>

fun skip_two_blank :: "nat \<Rightarrow> string list \<Rightarrow> string list" where
  "skip_two_blank empty_line_count [] = []"
| "skip_two_blank empty_line_count (line # lines) =
     (if empty_line_count < 2
      then skip_two_blank (if strip line = [] then Suc empty_line_count else empty_line_count) lines
      else line # lines)"

fun take_block :: "nat \<Rightarrow> string list \<Rightarrow> string list" where
  "take_block empty_line_count [] = []"
| "take_block empty_line_count (line # lines) =
     (if empty_line_count < 2
      then line # take_block (if strip line = [] then Suc empty_line_count else empty_line_count) lines
      else [])"

function pop_trailing_blank :: "string list \<Rightarrow> string list" where
  "pop_trailing_blank ls =
     (if ls \<noteq> [] \<and> strip (last ls) = [] then pop_trailing_blank (butlast ls) else ls)"
  by pat_completeness auto
termination
  by (relation "measure length") auto

declare pop_trailing_blank.simps [simp del]

definition read_geometry_block :: "string list \<Rightarrow> string list" where
  "read_geometry_block lines =
     (let after_blank = dropWhile (\<lambda>line. strip line = []) lines;
          after_title = drop 1 after_blank;
          after_two = skip_two_blank 0 after_title;
          geometry_block = take_block 0 after_two
      in pop_trailing_blank geometry_block)"

subsection \<open>Reading the basis set\<close>

text \<open>
  \<^verbatim>\<open>
  def read_basis_set(file_path):
      with open(file_path, 'r') as file:
          basisset = file.readlines()
      while basisset and basisset[0].strip() == "":
          basisset.pop(0)
      while basisset and basisset[-1].strip() == "":
          basisset.pop()
      basisset.insert(0, "\n")
      basisset.append("\n")
      return basisset
  \<close>
  The two loops are \<open>pop_leading_blank\<close> and \<open>pop_trailing_blank\<close>.
\<close>

fun pop_leading_blank :: "string list \<Rightarrow> string list" where
  "pop_leading_blank [] = []"
| "pop_leading_blank (l # ls) = (if strip l = [] then pop_leading_blank ls else l # ls)"

definition read_basis_set :: "string list \<Rightarrow> string list" where
  "read_basis_set file =
     (let basisset = pop_leading_blank file;
          basisset = pop_trailing_blank basisset
      in ''\<newline>'' # basisset @ [''\<newline>''])"

subsection \<open>Did the engine terminate normally\<close>

text \<open>
  The same check follows each of the two engine runs, with its own messages:
  \<^verbatim>\<open>
  lines = file.readlines()
  if lines and lines[-1].strip().startswith("Normal termination"):
      print("Geometry optimization completed successfully.")
  else:
      raise RuntimeError("Error: Geometry optimization didn't terminate properly.")
  \<close>
\<close>

definition normal_termination :: "string list \<Rightarrow> bool" where
  "normal_termination lines = (lines \<noteq> [] \<and> startswith (strip (last lines)) ''Normal termination'')"

definition check_opt_termination :: "string list \<Rightarrow> error + string" where
  "check_opt_termination lines =
     (if normal_termination lines then Inr ''Geometry optimization completed successfully.''
      else Inl (RuntimeError (''Error: Geometry optimization didn'' @ apostrophe
             @ ''t terminate properly.'')))"

definition check_scan_termination :: "string list \<Rightarrow> error + string" where
  "check_scan_termination lines =
     (if normal_termination lines then Inr ''Bond scan completed successfully.''
      else Inl (RuntimeError (''Error: Bond scan didn'' @ apostrophe
             @ ''t terminate properly.'')))"

subsection \<open>The converged geometry\<close>

text \<open>
  \<^verbatim>\<open>
  start_index = None
  for i, line in enumerate(lines):
      if "Final structure in terms of initial Z-matrix:" in line:
          start_index = i + 1
          break
  if start_index is None:
      raise RuntimeError("Error: Could not find the start of the geometry block.")
  geometry_block = []
  for line in lines[start_index:]:
      if re.match(r'^\d', line.strip()):
          break
      if "Variables:" in line:
          geometry_block.append("\n")
      else:
          modified_line = line.replace(",", "   ")
          modified_line = re.sub(r'=', '   ', modified_line)
          geometry_block.append(modified_line)
  return geometry_block
  \<close>
  \<open>after_marker\<close> is the first loop: the lines from \<open>start_index\<close> on.
\<close>

fun after_marker :: "string list \<Rightarrow> string list option" where
  "after_marker [] = None"
| "after_marker (line # lines) =
     (if contains line ''Final structure in terms of initial Z-matrix:'' then Some lines
      else after_marker lines)"

definition starts_with_digit :: "string \<Rightarrow> bool" where
  "starts_with_digit s = (case s of [] \<Rightarrow> False | c # cs \<Rightarrow> is_digit c)"

definition modified_line :: "string \<Rightarrow> string" where
  "modified_line line = replace_char CHR ''='' ''   '' (replace_char CHR '','' ''   '' line)"

fun copy_geometry :: "string list \<Rightarrow> string list" where
  "copy_geometry [] = []"
| "copy_geometry (line # lines) =
     (if starts_with_digit (strip line) then []
      else (if contains line ''Variables:'' then ''\<newline>'' else modified_line line)
             # copy_geometry lines)"

definition extract_optimized_structure :: "string list \<Rightarrow> error + string list" where
  "extract_optimized_structure lines =
     (case after_marker lines of
        None \<Rightarrow> Inl (RuntimeError ''Error: Could not find the start of the geometry block.'')
      | Some rest \<Rightarrow> Inr (copy_geometry rest))"

subsection \<open>The scan directive\<close>

text \<open>
  \<^verbatim>\<open>
  def update_scan_bond(scan_file_path, scan_bond):
      global minimum_dist, step_size
      with open(scan_file_path, "r") as file:
          lines = file.readlines()
      for i, line in enumerate(lines):
          if line.strip().startswith(scan_bond):
              parts = line.split()
              if len(parts) == 2:
                  equilibrium_dist = float(parts[1])
                  minimum_dist = equilibrium_dist * lower_bound
                  maximum_dist = equilibrium_dist * upper_bound
                  scan_distance = maximum_dist - minimum_dist
                  step_size = scan_distance / (scan_step_number)
                  new_line = f" {scan_bond}   {minimum_dist:.8f}   {int(scan_step_number)}   {step_size}\n"
                  lines[i] = new_line
                  break
      else:
          raise ValueError(f"Error: Could not find the line starting with '{scan_bond}'.")
      with open(scan_file_path, "w") as file:
          file.writelines(lines)
  \<close>
  \<open>find_scan_line\<close> is the search of the loop: the index of the first line that passes
  both tests, with its second field. The function reads the globals
  \<^verbatim>\<open>lower_bound\<close>, \<^verbatim>\<open>upper_bound\<close> and \<^verbatim>\<open>scan_step_number\<close> and assigns the
  globals \<^verbatim>\<open>minimum_dist\<close> and \<^verbatim>\<open>step_size\<close>, both \<^verbatim>\<open>None\<close> before the call. The
  result is the value of the two after the call, and the lines written back or the
  exception.
\<close>

fun find_scan_line :: "string \<Rightarrow> string list \<Rightarrow> nat \<Rightarrow> (nat \<times> string) option" where
  "find_scan_line scan_bond [] i = None"
| "find_scan_line scan_bond (line # lines) i =
     (if startswith (strip line) scan_bond \<and> length (split_ws line) = 2
      then Some (i, split_ws line ! 1)
      else find_scan_line scan_bond lines (Suc i))"

text \<open>A float times, or divided by, a number of either kind.\<close>

definition float_mul_num :: "pyfloat \<Rightarrow> pynum \<Rightarrow> error + pyfloat" where
  "float_mul_num x y = (case as_float y of Inl e \<Rightarrow> Inl e | Inr f \<Rightarrow> Inr (float_mul x f))"

definition float_truediv_num :: "pyfloat \<Rightarrow> pynum \<Rightarrow> error + pyfloat" where
  "float_truediv_num x y = (case as_float y of Inl e \<Rightarrow> Inl e | Inr f \<Rightarrow> float_truediv x f)"

definition scan_line :: "string \<Rightarrow> pyfloat \<Rightarrow> int \<Rightarrow> pyfloat \<Rightarrow> string" where
  "scan_line scan_bond minimum_dist steps step_size =
     '' '' @ scan_bond @ ''   '' @ format_8f minimum_dist @ ''   '' @ str_int steps
       @ ''   '' @ float_repr step_size @ ''\<newline>''"

definition update_scan_bond ::
  "string list \<Rightarrow> string \<Rightarrow> pynum \<Rightarrow> pynum \<Rightarrow> pynum
     \<Rightarrow> pyfloat option \<times> pyfloat option \<times> (error + string list)" where
  "update_scan_bond lines scan_bond lower_bound upper_bound scan_step_number =
     (case find_scan_line scan_bond lines 0 of
        None \<Rightarrow>
          (None, None,
           Inl (ValueError (''Error: Could not find the line starting with '' @ apostrophe
                  @ scan_bond @ apostrophe @ ''.'')))
      | Some (i, field) \<Rightarrow>
     (case float_of_string field of
        None \<Rightarrow> (None, None, Inl (LiteralError field))
      | Some equilibrium_dist \<Rightarrow>
     (case float_mul_num equilibrium_dist lower_bound of
        Inl e \<Rightarrow> (None, None, Inl e)
      | Inr minimum_dist \<Rightarrow>
     (case float_mul_num equilibrium_dist upper_bound of
        Inl e \<Rightarrow> (Some minimum_dist, None, Inl e)
      | Inr maximum_dist \<Rightarrow>
     (case float_truediv_num (float_sub maximum_dist minimum_dist) scan_step_number of
        Inl e \<Rightarrow> (Some minimum_dist, None, Inl e)
      | Inr step_size \<Rightarrow>
     (case py_int scan_step_number of
        Inl e \<Rightarrow> (Some minimum_dist, Some step_size, Inl e)
      | Inr steps \<Rightarrow>
          (Some minimum_dist, Some step_size,
           Inr (lines[i := scan_line scan_bond minimum_dist steps step_size]))))))))"

subsection \<open>The trajectory\<close>

definition periodic_table :: "(int \<times> string) list" where
  "periodic_table =
     [(1, ''H''), (2, ''He''), (3, ''Li''), (4, ''Be''), (5, ''B''), (6, ''C''),
      (7, ''N''), (8, ''O''), (9, ''F''), (10, ''Ne''), (11, ''Na''), (12, ''Mg''),
      (13, ''Al''), (14, ''Si''), (15, ''P''), (16, ''S''), (17, ''Cl''), (18, ''Ar''),
      (19, ''K''), (20, ''Ca''), (21, ''Sc''), (22, ''Ti''), (23, ''V''), (24, ''Cr''),
      (25, ''Mn''), (26, ''Fe''), (27, ''Co''), (28, ''Ni''), (29, ''Cu''), (30, ''Zn''),
      (31, ''Ga''), (32, ''Ge''), (33, ''As''), (34, ''Se''), (35, ''Br''), (36, ''Kr''),
      (37, ''Rb''), (38, ''Sr''), (39, ''Y''), (40, ''Zr''), (41, ''Nb''), (42, ''Mo''),
      (43, ''Tc''), (44, ''Ru''), (45, ''Rh''), (46, ''Pd''), (47, ''Ag''), (48, ''Cd''),
      (49, ''In''), (50, ''Sn''), (51, ''Sb''), (52, ''Te''), (53, ''I''), (54, ''Xe''),
      (55, ''Cs''), (56, ''Ba''), (57, ''La''), (58, ''Ce''), (59, ''Pr''), (60, ''Nd''),
      (61, ''Pm''), (62, ''Sm''), (63, ''Eu''), (64, ''Gd''), (65, ''Tb''), (66, ''Dy''),
      (67, ''Ho''), (68, ''Er''), (69, ''Tm''), (70, ''Yb''), (71, ''Lu''), (72, ''Hf''),
      (73, ''Ta''), (74, ''W''), (75, ''Re''), (76, ''Os''), (77, ''Ir''), (78, ''Pt''),
      (79, ''Au''), (80, ''Hg''), (81, ''Tl''), (82, ''Pb''), (83, ''Bi''), (84, ''Po''),
      (85, ''At''), (86, ''Rn''), (87, ''Fr''), (88, ''Ra''), (89, ''Ac''), (90, ''Th''),
      (91, ''Pa''), (92, ''U''), (93, ''Np''), (94, ''Pu''), (95, ''Am''), (96, ''Cm''),
      (97, ''Bk''), (98, ''Cf''), (99, ''Es''), (100, ''Fm''), (101, ''Md''), (102, ''No''),
      (103, ''Lr''), (104, ''Rf''), (105, ''Db''), (106, ''Sg''), (107, ''Bh''), (108, ''Hs''),
      (109, ''Mt''), (110, ''Ds''), (111, ''Rg''), (112, ''Cn''), (113, ''Nh''), (114, ''Fl''),
      (115, ''Mc''), (116, ''Lv''), (117, ''Ts''), (118, ''Og'')]"

text \<open>
  \<^verbatim>\<open>
  all_blocks = []
  for i, line in enumerate(lines):
      if "Standard orientation:" in line:
          start_index = i + 5
          block_data = []
          while start_index < len(lines) and not lines[start_index].strip().startswith('-'):
              parts = lines[start_index].split()
              if len(parts) >= 6:
                  atomic_number = int(parts[1])
                  element = periodic_table.get(atomic_number, "X")
                  x = parts[3]
                  y = parts[4]
                  z = parts[5]
                  block_data.append(f"{element} {x} {y} {z}")
              start_index += 1
          if block_data:
              all_blocks.append(f"{len(block_data)}\n\n" + "\n".join(block_data))
  with open(output_file_path, "w") as file:
      for block in all_blocks:
          file.write(block + "\n")
  \<close>
  \<open>read_table\<close> is the inner loop, on the lines from \<open>start_index\<close>; \<open>scan_tables\<close>
  is the outer loop and gives \<open>all_blocks\<close>, each block as its list \<open>block_data\<close>.
\<close>

definition element :: "int \<Rightarrow> string" where
  "element atomic_number = (case map_of periodic_table atomic_number of Some symbol \<Rightarrow> symbol | None \<Rightarrow> ''X'')"

fun read_table :: "string list \<Rightarrow> error + string list" where
  "read_table [] = Inr []"
| "read_table (line # lines) =
     (if startswith (strip line) ''-'' then Inr []
      else let parts = split_ws line in
        if 6 \<le> length parts then
          (case int_of_string (parts ! 1) of
             None \<Rightarrow> Inl (LiteralError (parts ! 1))
           | Some atomic_number \<Rightarrow>
               (case read_table lines of
                  Inl e \<Rightarrow> Inl e
                | Inr block_data \<Rightarrow>
                    Inr ((element atomic_number @ '' '' @ parts ! 3 @ '' '' @ parts ! 4
                            @ '' '' @ parts ! 5) # block_data)))
        else read_table lines)"

fun scan_tables :: "string list \<Rightarrow> error + string list list" where
  "scan_tables [] = Inr []"
| "scan_tables (line # lines) =
     (if contains line ''Standard orientation:'' then
        (case read_table (drop 4 lines) of
           Inl e \<Rightarrow> Inl e
         | Inr block_data \<Rightarrow>
             (case scan_tables lines of
                Inl e \<Rightarrow> Inl e
              | Inr all_blocks \<Rightarrow>
                  Inr (if block_data \<noteq> [] then block_data # all_blocks else all_blocks)))
      else scan_tables lines)"

text \<open>\<^verbatim>\<open>sep.join(parts)\<close>.\<close>

fun join :: "string \<Rightarrow> string list \<Rightarrow> string" where
  "join sep [] = []"
| "join sep [p] = p"
| "join sep (p # q # ps) = p @ sep @ join sep (q # ps)"

definition block_text :: "string list \<Rightarrow> string" where
  "block_text block_data =
     str_nat (length block_data) @ ''\<newline>\<newline>'' @ join ''\<newline>'' block_data"

text \<open>The text written to the trajectory file: every block, and a newline after it.\<close>

definition extract_data_from_log :: "string list \<Rightarrow> error + string" where
  "extract_data_from_log lines =
     (case scan_tables lines of
        Inl e \<Rightarrow> Inl e
      | Inr all_blocks \<Rightarrow> Inr (concat (map (\<lambda>block_data. block_text block_data @ ''\<newline>'') all_blocks)))"

subsection \<open>The energies\<close>

text \<open>
  \<^verbatim>\<open>hartree_to_eV = 27.211407953\<close>: the float nearest to the literal.
\<close>

definition hartree_to_eV :: pyfloat where
  "hartree_to_eV = round64 False 27211407953 1000000000"

text \<open>
  \<^verbatim>\<open>re.search(r"EUMP2\s*=\s*([-\d\.D]+[+-]\d+)", line)\<close>, giving group 1. The search
  tries every position from the left (\<open>re_search\<close>). At a position (\<open>match_here\<close>)
  the label, the whitespace, the equals sign and the whitespace leave no choice. For
  the group (\<open>match_number\<close>), the greedy \<^verbatim>\<open>[-\d\.D]+\<close> first takes the whole run of its
  characters and gives them back one by one until a sign and a digit follow
  (\<open>number_at\<close> with the number \<open>k\<close> of characters kept); \<^verbatim>\<open>\d+\<close> then takes all
  digits there are.
\<close>

fun first_some :: "('a \<Rightarrow> 'b option) \<Rightarrow> 'a list \<Rightarrow> 'b option" where
  "first_some f [] = None"
| "first_some f (x # xs) = (case f x of Some y \<Rightarrow> Some y | None \<Rightarrow> first_some f xs)"

definition in_class :: "char \<Rightarrow> bool" where
  "in_class c = (c = CHR ''-'' \<or> is_digit c \<or> c = CHR ''.'' \<or> c = CHR ''D'')"

definition number_at :: "string \<Rightarrow> nat \<Rightarrow> string option" where
  "number_at s k =
     (case drop k s of
        sg # d # r \<Rightarrow>
          if (sg = CHR ''+'' \<or> sg = CHR ''-'') \<and> is_digit d
          then Some (take k s @ [sg] @ takeWhile is_digit (d # r))
          else None
      | _ \<Rightarrow> None)"

definition match_number :: "string \<Rightarrow> string option" where
  "match_number s = first_some (number_at s) (rev [1 ..< Suc (length (takeWhile in_class s))])"

definition match_here :: "string \<Rightarrow> string option" where
  "match_here s =
     (if startswith s ''EUMP2'' then
        (case dropWhile is_space (drop 5 s) of
           c # r \<Rightarrow> if c = CHR ''='' then match_number (dropWhile is_space r) else None
         | [] \<Rightarrow> None)
      else None)"

fun re_search :: "string \<Rightarrow> string option" where
  "re_search [] = None"
| "re_search (c # cs) =
     (case match_here (c # cs) of Some g \<Rightarrow> Some g | None \<Rightarrow> re_search cs)"

text \<open>
  \<^verbatim>\<open>
  energies = []
  for line in lines:
      if "EUMP2" in line:
          match = re.search(r"EUMP2\s*=\s*([-\d\.D]+[+-]\d+)", line)
          if match:
              energy = match.group(1).replace('D', 'E')
              try:
                  energy_eV = float(energy) * hartree_to_eV
                  energies.append(energy_eV)
              except ValueError as e:
                  print(f"Error converting energy: {energy} - {e}")
  return energies
  \<close>
  The loop carries \<^verbatim>\<open>energies\<close> and what has been printed; \<open>extract_energies\<close>
  gives both.
\<close>

definition conversion_message :: "string \<Rightarrow> string" where
  "conversion_message energy =
     ''Error converting energy: '' @ energy @ '' - could not convert string to float: ''
       @ apostrophe @ energy @ apostrophe"

fun energy_loop :: "string list \<Rightarrow> pyfloat list \<times> string list \<Rightarrow> pyfloat list \<times> string list" where
  "energy_loop [] (energies, printed) = (energies, printed)"
| "energy_loop (line # lines) (energies, printed) =
     (if contains line ''EUMP2'' then
        (case re_search line of
           Some g \<Rightarrow>
             (let energy = replace_char CHR ''D'' ''E'' g in
              case float_of_string energy of
                Some x \<Rightarrow> energy_loop lines (energies @ [float_mul x hartree_to_eV], printed)
              | None \<Rightarrow> energy_loop lines (energies, printed @ [conversion_message energy]))
         | None \<Rightarrow> energy_loop lines (energies, printed))
      else energy_loop lines (energies, printed))"

definition extract_energies :: "string list \<Rightarrow> pyfloat list \<times> string list" where
  "extract_energies lines = energy_loop lines ([], [])"

text \<open>
  \<^verbatim>\<open>
  def write_energies_to_file(energies, minimum_dist, step_size, scan_step_number, output_file_path):
      distances = [minimum_dist + i * step_size for i in range(scan_step_number + 1)]
      with open(output_file_path, "w") as file:
          for distance, energy in zip(distances, energies):
              file.write(f"{distance} {energy}\n")
  \<close>
  \<^verbatim>\<open>range\<close> takes an \<^verbatim>\<open>int\<close> only, and the two globals it is called with are
  floats or still \<^verbatim>\<open>None\<close>, which no arithmetic takes. The result is the list of
  the texts written, one for each \<^verbatim>\<open>file.write\<close>.
\<close>

fun collect :: "(error + 'a) list \<Rightarrow> error + 'a list" where
  "collect [] = Inr []"
| "collect (Inl e # rs) = Inl e"
| "collect (Inr x # rs) = (case collect rs of Inl e \<Rightarrow> Inl e | Inr xs \<Rightarrow> Inr (x # xs))"

definition distance :: "pyfloat option \<Rightarrow> pyfloat option \<Rightarrow> nat \<Rightarrow> error + pyfloat" where
  "distance minimum_dist step_size i =
     (case step_size of
        None \<Rightarrow> Inl TypeError
      | Some sz \<Rightarrow>
          (case float_of_int (int i) of
             Inl e \<Rightarrow> Inl e
           | Inr x \<Rightarrow>
               (case minimum_dist of
                  None \<Rightarrow> Inl TypeError
                | Some mn \<Rightarrow> Inr (float_add mn (float_mul x sz)))))"

definition distances :: "pyfloat option \<Rightarrow> pyfloat option \<Rightarrow> pynum \<Rightarrow> error + pyfloat list" where
  "distances minimum_dist step_size scan_step_number =
     (case scan_step_number of
        PyFloat f \<Rightarrow> Inl TypeError
      | PyInt n \<Rightarrow> collect (map (distance minimum_dist step_size) [0 ..< nat (n + 1)]))"

definition energy_line :: "pyfloat \<times> pyfloat \<Rightarrow> string" where
  "energy_line p = float_repr (fst p) @ '' '' @ float_repr (snd p) @ ''\<newline>''"

definition write_energies_to_file ::
  "pyfloat list \<Rightarrow> pyfloat option \<Rightarrow> pyfloat option \<Rightarrow> pynum \<Rightarrow> error + string list" where
  "write_energies_to_file energies minimum_dist step_size scan_step_number =
     (case distances minimum_dist step_size scan_step_number of
        Inl e \<Rightarrow> Inl e
      | Inr ds \<Rightarrow> Inr (map energy_line (zip ds energies)))"

section \<open>A run of the notebook\<close>

text \<open>
  A file on disk is its text. \<^verbatim>\<open>readlines()\<close> cuts a text after every line end and
  gives every line end as a newline (text mode reads \<^verbatim>\<open>\r\n\<close> and \<^verbatim>\<open>\r\<close> as
  \<^verbatim>\<open>\n\<close>); writing a list of lines writes their concatenation.
\<close>

fun readlines_from :: "string \<Rightarrow> string \<Rightarrow> string list" where
  "readlines_from w [] = (if w = [] then [] else [rev w])"
| "readlines_from w [c] =
     (if c = CHR 0x0A \<or> c = CHR 0x0D then [rev (CHR 0x0A # w)] else [rev (c # w)])"
| "readlines_from w (c # d # cs) =
     (if c = CHR 0x0A then rev (CHR 0x0A # w) # readlines_from [] (d # cs)
      else if c = CHR 0x0D then
        (if d = CHR 0x0A then rev (CHR 0x0A # w) # readlines_from [] cs
         else rev (CHR 0x0A # w) # readlines_from [] (d # cs))
      else readlines_from (c # w) (d # cs))"

definition readlines :: "string \<Rightarrow> string list" where
  "readlines content = readlines_from [] content"

text \<open>
  The first cell of the notebook: the user's input. \<open>method_name\<close> is the variable
  \<^verbatim>\<open>method\<close>. The two bounds and the step count are numbers, of either kind.
\<close>

record config =
  molecule_name :: string
  memory :: int
  n_cpus :: int
  method_name :: string
  title_card :: string
  scan_bond :: string
  lower_bound :: pynum
  upper_bound :: pynum
  scan_step_number :: pynum

text \<open>
  The values the notebook ships with. \<^verbatim>\<open>lower_bound = 0.7\<close> and
  \<^verbatim>\<open>upper_bound = 1.75\<close> are the floats nearest to the literals, and
  \<^verbatim>\<open>scan_step_number = int((upper_bound - lower_bound) * 100)\<close> is \<open>105\<close>.
\<close>

definition user_input :: config where
  "user_input =
     \<lparr>molecule_name = ''h3f'', memory = 25, n_cpus = 6, method_name = ''ump2(full)'',
      title_card = ''Basis Set from basissetexchange.org:  Zr: cc-pVTZ-PP   F, H: cc-pVTZ'',
      scan_bond = ''B4'',
      lower_bound = PyFloat (round64 False 7 10),
      upper_bound = PyFloat (round64 False 175 100),
      scan_step_number = PyInt 105\<rparr>"

text \<open>
  What the notebook finds outside: the text of \<^verbatim>\<open>geom_file\<close> and of
  \<^verbatim>\<open>basisset_file\<close>, and the engine. The engine is opaque: for the text of a deck it
  leaves the text of a log, or no log at all. (The shell script that calls it ends with
  \<^verbatim>\<open>cd ..\<close>, so its exit status says nothing about the engine, and
  \<^verbatim>\<open>subprocess.run(..., check=True)\<close> does not raise for a failed engine.)
\<close>

record world =
  geom_file :: string
  basisset_file :: string
  engine :: "string \<Rightarrow> string option"

text \<open>
  The state between cells: what has been printed, the global variables that a later cell
  reads, the files written, and the decks the engine has been called on, in order. A
  file that has not been written, and a global that is still \<^verbatim>\<open>None\<close>, is \<open>None\<close>.
\<close>

record notebook =
  printed :: "string list"
  input_geometry :: "string list"
  basisset :: "string list"
  opt_gjf :: "string option"
  opt_log :: "string option"
  scan_gjf :: "string option"
  scan_log :: "string option"
  minimum_dist :: "pyfloat option"
  step_size :: "pyfloat option"
  engine_runs :: "string list"
  traj_xyz :: "string option"
  energy_dat :: "string option"

definition fresh :: notebook where
  "fresh = \<lparr>printed = [], input_geometry = [], basisset = [], opt_gjf = None, opt_log = None,
             scan_gjf = None, scan_log = None, minimum_dist = None, step_size = None,
             engine_runs = [], traj_xyz = None, energy_dat = None\<rparr>"

text \<open>
  A cell takes the state to the state it leaves, with the exception it raised if it
  raised one. Running all cells stops at the first exception.
\<close>

type_synonym cell = "notebook \<Rightarrow> error option \<times> notebook"

fun run_cells :: "cell list \<Rightarrow> notebook \<Rightarrow> error option \<times> notebook" where
  "run_cells [] s = (None, s)"
| "run_cells (c # cs) s =
     (case c s of
        (Some e, s') \<Rightarrow> (Some e, s')
      | (None, s') \<Rightarrow> run_cells cs s')"

definition cell_check_scan_bond :: "config \<Rightarrow> world \<Rightarrow> cell" where
  "cell_check_scan_bond cfg w s =
     (case check_scan_bond (scan_bond cfg) (readlines (geom_file w)) of
        Inl e \<Rightarrow> (Some e, s)
      | Inr u \<Rightarrow> (None, s))"

definition cell_validate :: "config \<Rightarrow> cell" where
  "cell_validate cfg s =
     (case validation_cell (lower_bound cfg) (upper_bound cfg) (scan_step_number cfg) of
        Inl e \<Rightarrow> (Some e, s)
      | Inr out \<Rightarrow> (None, s\<lparr>printed := printed s @ out\<rparr>))"

text \<open>
  \<^verbatim>\<open>
  input_geometry = read_geometry_block(geom_file)
  basisset = read_basis_set(basisset_file)
  output_content = header + input_geometry + basisset
  os.makedirs('opt', exist_ok=True)
  with open(os.path.join('opt', f"{molecule_name}.gjf"), "w") as file:
      for line in output_content:
          file.write(line)
  \<close>
\<close>

definition cell_opt_deck :: "config \<Rightarrow> world \<Rightarrow> cell" where
  "cell_opt_deck cfg w s =
     (let geometry = read_geometry_block (readlines (geom_file w));
          basis = read_basis_set (readlines (basisset_file w));
          output_content =
            opt_header (molecule_name cfg) (memory cfg) (n_cpus cfg) (method_name cfg) (title_card cfg)
              @ geometry @ basis
      in (None, s\<lparr>input_geometry := geometry, basisset := basis,
                    opt_gjf := Some (concat output_content)\<rparr>))"

text \<open>
  The two cells that run the engine. In a run of all cells the deck has been written by
  then; the case without a deck is there to make the cell total.
\<close>

definition cell_run_opt :: "world \<Rightarrow> cell" where
  "cell_run_opt w s =
     (case opt_gjf s of
        None \<Rightarrow> (Some FileNotFoundError, s)
      | Some deck \<Rightarrow> (None, s\<lparr>opt_log := engine w deck, engine_runs := engine_runs s @ [deck]\<rparr>))"

definition cell_check_opt :: cell where
  "cell_check_opt s =
     (case opt_log s of
        None \<Rightarrow> (Some FileNotFoundError, s)
      | Some log \<Rightarrow>
          (case check_opt_termination (readlines log) of
             Inl e \<Rightarrow> (Some e, s)
           | Inr out \<Rightarrow> (None, s\<lparr>printed := printed s @ [out]\<rparr>)))"

text \<open>
  \<^verbatim>\<open>
  optimized_structure = extract_optimized_structure(opt_log_file_path)
  optimized_structure.insert(0, input_geometry[0])
  output_content = header + optimized_structure + basisset
  os.makedirs('scan', exist_ok=True)
  with open(os.path.join('scan', f"{molecule_name}.gjf"), "w") as file:
      for line in output_content:
          file.write(line)
  \<close>
\<close>

definition cell_scan_deck :: "config \<Rightarrow> cell" where
  "cell_scan_deck cfg s =
     (case opt_log s of
        None \<Rightarrow> (Some FileNotFoundError, s)
      | Some log \<Rightarrow>
          (case extract_optimized_structure (readlines log) of
             Inl e \<Rightarrow> (Some e, s)
           | Inr optimized_structure \<Rightarrow>
               (case input_geometry s of
                  [] \<Rightarrow> (Some IndexError, s)
                | first # others \<Rightarrow>
                    (let output_content =
                           scan_header (molecule_name cfg) (memory cfg) (n_cpus cfg) (method_name cfg)
                             (title_card cfg)
                             @ (first # optimized_structure) @ basisset s
                     in (None, s\<lparr>scan_gjf := Some (concat output_content)\<rparr>)))))"

text \<open>
  \<^verbatim>\<open>
  minimum_dist = None
  step_size = None
  ...
  update_scan_bond(scan_file_path, scan_bond)
  \<close>
\<close>

definition cell_update_scan_bond :: "config \<Rightarrow> cell" where
  "cell_update_scan_bond cfg s =
     (case scan_gjf s of
        None \<Rightarrow> (Some FileNotFoundError, s\<lparr>minimum_dist := None, step_size := None\<rparr>)
      | Some deck \<Rightarrow>
          (case update_scan_bond (readlines deck) (scan_bond cfg) (lower_bound cfg) (upper_bound cfg)
                  (scan_step_number cfg) of
             (mn, sz, Inl e) \<Rightarrow> (Some e, s\<lparr>minimum_dist := mn, step_size := sz\<rparr>)
           | (mn, sz, Inr lines) \<Rightarrow>
               (None, s\<lparr>minimum_dist := mn, step_size := sz, scan_gjf := Some (concat lines)\<rparr>)))"

definition cell_run_scan :: "world \<Rightarrow> cell" where
  "cell_run_scan w s =
     (case scan_gjf s of
        None \<Rightarrow> (Some FileNotFoundError, s)
      | Some deck \<Rightarrow> (None, s\<lparr>scan_log := engine w deck, engine_runs := engine_runs s @ [deck]\<rparr>))"

definition cell_check_scan :: cell where
  "cell_check_scan s =
     (case scan_log s of
        None \<Rightarrow> (Some FileNotFoundError, s)
      | Some log \<Rightarrow>
          (case check_scan_termination (readlines log) of
             Inl e \<Rightarrow> (Some e, s)
           | Inr out \<Rightarrow> (None, s\<lparr>printed := printed s @ [out]\<rparr>)))"

definition cell_trajectory :: cell where
  "cell_trajectory s =
     (case scan_log s of
        None \<Rightarrow> (Some FileNotFoundError, s)
      | Some log \<Rightarrow>
          (case extract_data_from_log (readlines log) of
             Inl e \<Rightarrow> (Some e, s)
           | Inr content \<Rightarrow> (None, s\<lparr>traj_xyz := Some content\<rparr>)))"

text \<open>
  \<^verbatim>\<open>
  energies = extract_energies(scan_log_file_path)
  write_energies_to_file(energies, minimum_dist, step_size, scan_step_number, energy_output_file_path)
  \<close>
\<close>

definition cell_energies :: "config \<Rightarrow> cell" where
  "cell_energies cfg s =
     (case scan_log s of
        None \<Rightarrow> (Some FileNotFoundError, s)
      | Some log \<Rightarrow>
          (let (energies, out) = extract_energies (readlines log);
               s1 = s\<lparr>printed := printed s @ out\<rparr>
           in case write_energies_to_file energies (minimum_dist s) (step_size s)
                     (scan_step_number cfg) of
                Inl e \<Rightarrow> (Some e, s1)
              | Inr written \<Rightarrow> (None, s1\<lparr>energy_dat := Some (concat written)\<rparr>)))"

definition cells :: "config \<Rightarrow> world \<Rightarrow> cell list" where
  "cells cfg w =
     [cell_check_scan_bond cfg w, cell_validate cfg, cell_opt_deck cfg w, cell_run_opt w,
      cell_check_opt, cell_scan_deck cfg, cell_update_scan_bond cfg, cell_run_scan w,
      cell_check_scan, cell_trajectory, cell_energies cfg]"

definition run_all :: "config \<Rightarrow> world \<Rightarrow> error option \<times> notebook" where
  "run_all cfg w = run_cells (cells cfg w) fresh"

section \<open>Notions of the properties\<close>

text \<open>A blank line is one that \<^verbatim>\<open>strip()\<close> empties.\<close>

definition blank :: "string \<Rightarrow> bool" where
  "blank l = (strip l = [])"

text \<open>
  The content of a file between its first and its last non-blank line: what is left when
  the blank lines at both ends are taken away.
\<close>

definition trimmed :: "string list \<Rightarrow> string list" where
  "trimmed file = rev (dropWhile blank (rev (dropWhile blank file)))"

text \<open>The number of blank lines a file starts with, and the number it ends with.\<close>

definition leading_blanks :: "string list \<Rightarrow> nat" where
  "leading_blanks file = length (takeWhile blank file)"

definition trailing_blanks :: "string list \<Rightarrow> nat" where
  "trailing_blanks file = length (takeWhile blank (rev file))"

text \<open>The last line of a log that is not blank, if it has one.\<close>

definition last_nonblank :: "string list \<Rightarrow> string option" where
  "last_nonblank lines =
     (case rev (filter (\<lambda>l. \<not> blank l) lines) of [] \<Rightarrow> None | l # ls \<Rightarrow> Some l)"

text \<open>The two exceptions of the termination checks.\<close>

definition opt_failure :: error where
  "opt_failure = RuntimeError (''Error: Geometry optimization didn'' @ apostrophe @ ''t terminate properly.'')"

definition scan_failure :: error where
  "scan_failure = RuntimeError (''Error: Bond scan didn'' @ apostrophe @ ''t terminate properly.'')"

text \<open>
  The marker of the final structure, and what becomes of a line that is copied: a line
  that holds \<^verbatim>\<open>Variables:\<close> becomes a blank line, in any other line every comma and
  every equals sign becomes three blanks.
\<close>

definition has_marker :: "string \<Rightarrow> bool" where
  "has_marker line = contains line ''Final structure in terms of initial Z-matrix:''"

definition reformat :: "string \<Rightarrow> string" where
  "reformat line =
     (if contains line ''Variables:'' then ''\<newline>''
      else concat (map (\<lambda>c. if c = CHR '','' \<or> c = CHR ''='' then ''   '' else [c]) line))"

definition structure_not_found :: error where
  "structure_not_found = RuntimeError ''Error: Could not find the start of the geometry block.''"

text \<open>
  The parameters that fail validation: a bound that is not positive, an upper bound that
  does not exceed the lower bound, a step count that is not a positive \<^verbatim>\<open>int\<close>.
\<close>

definition invalid_parameters :: "pynum \<Rightarrow> pynum \<Rightarrow> pynum \<Rightarrow> bool" where
  "invalid_parameters lb ub n =
     (num_le lb (PyInt 0) \<or> num_le ub (PyInt 0) \<or> num_le ub lb
      \<or> \<not> isinstance_int n \<or> num_le n (PyInt 0))"

text \<open>The text of the optimisation deck that the third cell writes.\<close>

definition opt_deck :: "config \<Rightarrow> world \<Rightarrow> string" where
  "opt_deck cfg w =
     concat (opt_header (molecule_name cfg) (memory cfg) (n_cpus cfg) (method_name cfg) (title_card cfg)
               @ read_geometry_block (readlines (geom_file w))
               @ read_basis_set (readlines (basisset_file w)))"

text \<open>
  A cell that only adds to the list of engine runs, and a cell that only adds to what has
  been printed.
\<close>

definition keeps_runs :: "cell \<Rightarrow> bool" where
  "keeps_runs c = (\<forall>s. \<exists>ys. engine_runs (snd (c s)) = engine_runs s @ ys)"

definition keeps_printed :: "cell \<Rightarrow> bool" where
  "keeps_printed c = (\<forall>s. \<exists>ys. printed (snd (c s)) = printed s @ ys)"

text \<open>
  The lines of an orientation table: a separator line ends the table, a data line has six
  fields or more and gives one atom record.
\<close>

definition data_line :: "string \<Rightarrow> bool" where
  "data_line line = (6 \<le> length (split_ws line))"

definition separator_line :: "string \<Rightarrow> bool" where
  "separator_line line = startswith (strip line) ''-''"

definition atom_record :: "string \<Rightarrow> string" where
  "atom_record line =
     (let parts = split_ws line
      in element (case int_of_string (parts ! 1) of Some atomic_number \<Rightarrow> atomic_number | None \<Rightarrow> 0)
           @ '' '' @ parts ! 3 @ '' '' @ parts ! 4 @ '' '' @ parts ! 5)"

text \<open>
  What a line of the log gives: nothing, an energy in electronvolts, or a payload that
  \<^verbatim>\<open>float\<close> rejects. \<open>energies_of\<close> and \<open>messages_of\<close> are the energies and the
  messages of the lines of a log, in the order of the lines.
\<close>

datatype reading = NoEnergy | Energy pyfloat | Malformed string

definition read_energy :: "string \<Rightarrow> reading" where
  "read_energy line =
     (if contains line ''EUMP2'' then
        (case re_search line of
           None \<Rightarrow> NoEnergy
         | Some g \<Rightarrow>
             (case float_of_string (replace_char CHR ''D'' ''E'' g) of
                Some x \<Rightarrow> Energy (float_mul x hartree_to_eV)
              | None \<Rightarrow> Malformed (replace_char CHR ''D'' ''E'' g)))
      else NoEnergy)"

definition energies_of :: "string list \<Rightarrow> pyfloat list" where
  "energies_of lines =
     concat (map (\<lambda>line. case read_energy line of Energy v \<Rightarrow> [v] | _ \<Rightarrow> []) lines)"

definition messages_of :: "string list \<Rightarrow> string list" where
  "messages_of lines =
     concat (map (\<lambda>line. case read_energy line of Malformed t \<Rightarrow> [conversion_message t] | _ \<Rightarrow> [])
               lines)"

text \<open>
  The distance of index \<open>i\<close>: \<^verbatim>\<open>minimum_dist + i * step_size\<close> in float arithmetic, the
  index converted to a float first.
\<close>

definition distance_at :: "pyfloat \<Rightarrow> pyfloat \<Rightarrow> nat \<Rightarrow> pyfloat" where
  "distance_at mn sz i = float_add mn (float_mul (round64 False i 1) sz)"

text \<open>
  The test of the cell that checks the geometry file: the stripped line starts with the
  name of the coordinate and a space, and the line has two fields. The test of
  \<open>update_scan_bond\<close>: the stripped line starts with the name, and the line has two
  fields. In an unambiguous deck every line that passes the second passes the first. The
  bond is absent from lines of which none passes the first.
\<close>

definition names_bond :: "string \<Rightarrow> string \<Rightarrow> bool" where
  "names_bond b line = (startswith (strip line) (b @ '' '') \<and> length (split_ws line) = 2)"

definition starts_with_bond :: "string \<Rightarrow> string \<Rightarrow> bool" where
  "starts_with_bond b line = (startswith (strip line) b \<and> length (split_ws line) = 2)"

definition unambiguous :: "string \<Rightarrow> string list \<Rightarrow> bool" where
  "unambiguous b deck = list_all (\<lambda>line. starts_with_bond b line \<longrightarrow> names_bond b line) deck"

definition bond_absent :: "string \<Rightarrow> string list \<Rightarrow> bool" where
  "bond_absent b ls = list_all (\<lambda>line. \<not> names_bond b line) ls"

definition not_found_message :: "string \<Rightarrow> string" where
  "not_found_message b =
     ''Error: Could not find the line starting with '' @ apostrophe @ b @ apostrophe @ ''.''"

section \<open>Evaluation\<close>

text \<open>The equations that evaluate the text primitives on a given text.\<close>

lemmas text_eval = blank_def strip_def rstrip_def lstrip_def is_space_def leading_blanks_def trailing_blanks_def trimmed_def

text \<open>The equations that evaluate the arithmetic on given numbers.\<close>

lemma digit_length_0: "digit_length b 0 = 0"
  by (subst digit_length.simps) simp

lemma digit_length_1: "digit_length (numeral b) (Suc 0) = (if numeral b < (2::nat) then 0 else Suc 0)"
proof (cases "numeral b < (2::nat)")
  case True
  then show ?thesis
    by (subst digit_length.simps) simp
next
  case False
  then have "Suc 0 div numeral b = (0::nat)"
    by (intro div_less) linarith
  with False show ?thesis
    by (subst digit_length.simps) (simp add: digit_length_0)
qed

lemma digit_length_numeral:
  "digit_length (numeral b) (numeral n) =
     (if numeral b < (2::nat) then 0 else Suc (digit_length (numeral b) (numeral n div numeral b)))"
  by (subst digit_length.simps) simp

lemma Suc_Suc_0: "Suc (Suc 0) = 2"
  by simp

lemmas float_eval =
  round64_def ilog_def shift_ratio_def round_half_even_def dyadic_def round_dyadic_def
  digit_length_0 digit_length_1 digit_length_numeral signed_mantissa_def Suc_Suc_0

lemmas num_eval = num_le_def extended_of_def isinstance_int_def as_float_def float_of_int_def

text \<open>The equations that evaluate the text of a number.\<close>

lemma str_nat_0: "str_nat 0 = ''0''"
  by (subst str_nat.simps) (simp add: digit_char_def)

lemma str_nat_1: "str_nat (Suc 0) = ''1''"
  by (subst str_nat.simps) (simp add: digit_char_def)

lemma str_nat_numeral:
  "str_nat (numeral n) =
     (if numeral n < (10::nat) then [digit_char (numeral n)]
      else str_nat (numeral n div 10) @ [digit_char (numeral n)])"
  by (subst str_nat.simps) simp

lemma strip_zeros_0: "strip_zeros 0 x = (0, x)"
  by (subst strip_zeros.simps) simp

lemma strip_zeros_1: "strip_zeros (Suc 0) x = (Suc 0, x)"
  by (subst strip_zeros.simps) simp

lemma strip_zeros_numeral:
  "strip_zeros (numeral c) x =
     (if numeral c mod 10 = (0::nat) then strip_zeros (numeral c div 10) (x + 1) else (numeral c, x))"
  by (subst strip_zeros.simps) simp

lemmas str_eval =
  str_int_def zero_padded_def digit_char_def str_nat_0 str_nat_1 str_nat_numeral

lemmas repr_eval =
  digits_at_def digits_near_def choose_digits_def nearer_low_def scaled_def decimal_exponent_def
  reads_back_def round_decimal_def layout_repr_def strip_zeros_0 strip_zeros_1 strip_zeros_numeral
  str_eval

text \<open>The equations that evaluate the reading of a number and the search of the pattern.\<close>

lemmas int_eval =
  int_of_string_def split_sign_def nat_of_digits_def digit_val_def is_digit_def strip_number_def
  is_number_space_def

lemmas parse_eval =
  float_of_string_def decimal_of_string_def exponent_of_def split_sign_def to_lower_def
  nat_of_digits_def digit_val_def is_digit_def replace_char_def strip_number_def
  is_number_space_def text_eval

lemmas regex_eval = match_here_def match_number_def number_at_def in_class_def is_digit_def is_space_def

section \<open>Properties of the termination check\<close>

lemma last_nonblank_last:
  assumes "lines \<noteq> []" "\<not> blank (last lines)"
  shows "last_nonblank lines = Some (last lines)"
proof -
  from assms obtain ls l where ls: "lines = ls @ [l]" "\<not> blank l"
    by (metis append_butlast_last_id)
  then show ?thesis
    by (simp add: last_nonblank_def)
qed

text \<open>
  Claim C4, as amended. A run is judged successful if and only if the log has a line and
  its last line, blank or not, begins with \<^verbatim>\<open>Normal termination\<close> once it is
  stripped. In every other case, a log without lines and a log that ends in a blank line
  included, the check raises its \<^verbatim>\<open>RuntimeError\<close>, and the run of the cells stops there
  with the state unchanged. When the log does not end in a blank line, the verdict is
  that of the last non-blank line.
\<close>

theorem termination_check_last_line:
  "(check_opt_termination lines = Inr ''Geometry optimization completed successfully.''
      \<longleftrightarrow> lines \<noteq> [] \<and> startswith (strip (last lines)) ''Normal termination'') \<and>
   (check_scan_termination lines = Inr ''Bond scan completed successfully.''
      \<longleftrightarrow> lines \<noteq> [] \<and> startswith (strip (last lines)) ''Normal termination'') \<and>
   (\<not> (lines \<noteq> [] \<and> startswith (strip (last lines)) ''Normal termination'') \<longrightarrow>
      check_opt_termination lines = Inl opt_failure \<and>
      check_scan_termination lines = Inl scan_failure \<and>
      (\<forall>s log rest. opt_log s = Some log \<and> readlines log = lines \<longrightarrow>
         run_cells (cell_check_opt # rest) s = (Some opt_failure, s)) \<and>
      (\<forall>s log rest. scan_log s = Some log \<and> readlines log = lines \<longrightarrow>
         run_cells (cell_check_scan # rest) s = (Some scan_failure, s))) \<and>
   (lines \<noteq> [] \<and> \<not> blank (last lines) \<longrightarrow>
      (normal_termination lines
         \<longleftrightarrow> (\<exists>l. last_nonblank lines = Some l \<and> startswith (strip l) ''Normal termination'')))"
proof (intro conjI impI allI)
  show "check_opt_termination lines = Inr ''Geometry optimization completed successfully.''
      \<longleftrightarrow> lines \<noteq> [] \<and> startswith (strip (last lines)) ''Normal termination''"
    by (simp add: check_opt_termination_def normal_termination_def)
  show "check_scan_termination lines = Inr ''Bond scan completed successfully.''
      \<longleftrightarrow> lines \<noteq> [] \<and> startswith (strip (last lines)) ''Normal termination''"
    by (simp add: check_scan_termination_def normal_termination_def)
next
  assume n: "\<not> (lines \<noteq> [] \<and> startswith (strip (last lines)) ''Normal termination'')"
  then show o: "check_opt_termination lines = Inl opt_failure"
    by (simp add: check_opt_termination_def normal_termination_def opt_failure_def)
  from n show c: "check_scan_termination lines = Inl scan_failure"
    by (simp add: check_scan_termination_def normal_termination_def scan_failure_def)
  {
    fix s :: notebook and log rest
    assume "opt_log s = Some log \<and> readlines log = lines"
    with o show "run_cells (cell_check_opt # rest) s = (Some opt_failure, s)"
      by (simp add: cell_check_opt_def)
  }
  {
    fix s :: notebook and log rest
    assume "scan_log s = Some log \<and> readlines log = lines"
    with c show "run_cells (cell_check_scan # rest) s = (Some scan_failure, s)"
      by (simp add: cell_check_scan_def)
  }
next
  assume "lines \<noteq> [] \<and> \<not> blank (last lines)"
  then have "last_nonblank lines = Some (last lines)" "lines \<noteq> []"
    by (simp_all add: last_nonblank_last)
  then show "normal_termination lines
         \<longleftrightarrow> (\<exists>l. last_nonblank lines = Some l \<and> startswith (strip l) ''Normal termination'')"
    by (simp add: normal_termination_def)
qed


theorem termination_check_last_line_witness:
  "\<not> ([''Normal termination of Gaussian 16.\<newline>'', ''\<newline>''] \<noteq> [] \<and>
       startswith (strip (last [''Normal termination of Gaussian 16.\<newline>'', ''\<newline>'']))
         ''Normal termination'') \<and>
   check_opt_termination [''Normal termination of Gaussian 16.\<newline>'', ''\<newline>''] = Inl opt_failure \<and>
   check_scan_termination [''Normal termination of Gaussian 16.\<newline>'', ''\<newline>''] = Inl scan_failure \<and>
   run_cells [cell_check_opt, cell_check_scan]
       (fresh\<lparr>opt_log := Some ''Normal termination of Gaussian 16.\<newline>\<newline>''\<rparr>)
     = (Some opt_failure, fresh\<lparr>opt_log := Some ''Normal termination of Gaussian 16.\<newline>\<newline>''\<rparr>) \<and>
   run_cells [cell_check_scan, cell_trajectory]
       (fresh\<lparr>scan_log := Some ''Normal termination of Gaussian 16.\<newline>\<newline>''\<rparr>)
     = (Some scan_failure, fresh\<lparr>scan_log := Some ''Normal termination of Gaussian 16.\<newline>\<newline>''\<rparr>) \<and>
   [''SCF Done\<newline>'', '' Normal termination of Gaussian 16.\<newline>''] \<noteq> [] \<and>
   \<not> blank (last [''SCF Done\<newline>'', '' Normal termination of Gaussian 16.\<newline>'']) \<and>
   normal_termination [''SCF Done\<newline>'', '' Normal termination of Gaussian 16.\<newline>''] \<and>
   (\<exists>l. last_nonblank [''SCF Done\<newline>'', '' Normal termination of Gaussian 16.\<newline>''] = Some l \<and>
        startswith (strip l) ''Normal termination'')"
proof -
  let ?bad = "[''Normal termination of Gaussian 16.\<newline>'', ''\<newline>'']"
  let ?good = "[''SCF Done\<newline>'', '' Normal termination of Gaussian 16.\<newline>'']"
  have h: "\<not> (?bad \<noteq> [] \<and> startswith (strip (last ?bad)) ''Normal termination'')"
    by (simp add: text_eval)
  have rl: "readlines ''Normal termination of Gaussian 16.\<newline>\<newline>'' = ?bad"
    by (simp add: readlines_def)
  note t = termination_check_last_line [of ?bad]
  from t h have a: "check_opt_termination ?bad = Inl opt_failure"
    and b: "check_scan_termination ?bad = Inl scan_failure"
    and c: "\<forall>s log rest. opt_log s = Some log \<and> readlines log = ?bad \<longrightarrow>
         run_cells (cell_check_opt # rest) s = (Some opt_failure, s)"
    and d: "\<forall>s log rest. scan_log s = Some log \<and> readlines log = ?bad \<longrightarrow>
         run_cells (cell_check_scan # rest) s = (Some scan_failure, s)"
    by blast+
  from c rl have c': "run_cells [cell_check_opt, cell_check_scan]
       (fresh\<lparr>opt_log := Some ''Normal termination of Gaussian 16.\<newline>\<newline>''\<rparr>)
     = (Some opt_failure, fresh\<lparr>opt_log := Some ''Normal termination of Gaussian 16.\<newline>\<newline>''\<rparr>)"
    by simp
  from d rl have d': "run_cells [cell_check_scan, cell_trajectory]
       (fresh\<lparr>scan_log := Some ''Normal termination of Gaussian 16.\<newline>\<newline>''\<rparr>)
     = (Some scan_failure, fresh\<lparr>scan_log := Some ''Normal termination of Gaussian 16.\<newline>\<newline>''\<rparr>)"
    by simp
  have g: "?good \<noteq> [] \<and> \<not> blank (last ?good)"
    by (simp add: text_eval)
  have n: "normal_termination ?good"
    by (simp add: normal_termination_def text_eval)
  from termination_check_last_line [of ?good] g n
  have e: "\<exists>l. last_nonblank ?good = Some l \<and> startswith (strip l) ''Normal termination''"
    by blast
  from h a b c' d' g n e show ?thesis
    by blast
qed

text \<open>
  Claim C4 as stated fails for a log that ends in a blank line: its last non-blank line
  begins with the marker, and both checks raise.
\<close>

theorem termination_check_trailing_blank_counterexample:
  "last_nonblank [''Normal termination of Gaussian 16.\<newline>'', ''\<newline>'']
     = Some ''Normal termination of Gaussian 16.\<newline>'' \<and>
   startswith ''Normal termination of Gaussian 16.\<newline>'' ''Normal termination'' \<and>
   check_opt_termination [''Normal termination of Gaussian 16.\<newline>'', ''\<newline>''] = Inl opt_failure \<and>
   check_scan_termination [''Normal termination of Gaussian 16.\<newline>'', ''\<newline>''] = Inl scan_failure"
  by (simp add: last_nonblank_def check_opt_termination_def check_scan_termination_def
      normal_termination_def opt_failure_def scan_failure_def text_eval)


section \<open>Properties of the converged geometry\<close>

lemma after_marker_Cons:
  "after_marker (line # lines) = (if has_marker line then Some lines else after_marker lines)"
  by (simp add: has_marker_def)

lemma after_marker_None:
  "\<not> list_ex has_marker lines \<Longrightarrow> after_marker lines = None"
  by (induction lines) (simp_all add: after_marker_Cons del: after_marker.simps(2))

lemma after_marker_Some:
  "list_ex has_marker lines \<Longrightarrow>
     after_marker lines = Some (tl (dropWhile (\<lambda>l. \<not> has_marker l) lines))"
  by (induction lines) (auto simp add: after_marker_Cons simp del: after_marker.simps(2))

lemma modified_line_chars:
  "modified_line line = concat (map (\<lambda>c. if c = CHR '','' \<or> c = CHR ''='' then ''   '' else [c]) line)"
  by (induction line) (simp_all add: modified_line_def replace_char_def)

lemma copy_geometry_map:
  "copy_geometry lines = map reformat (takeWhile (\<lambda>l. \<not> starts_with_digit (strip l)) lines)"
  by (induction lines) (simp_all add: reformat_def modified_line_chars)

text \<open>
  Claim C5, as amended. For a log that holds the marker
  \<^verbatim>\<open>Final structure in terms of initial Z-matrix:\<close>, \<open>extract_optimized_structure\<close>
  copies the lines after the first line with the marker up to, and without, the first
  line whose stripped text begins with a digit (or up to the end). Every copied line
  that contains \<^verbatim>\<open>Variables:\<close>, with the colon, is replaced by one blank line; in every
  other copied line each comma and each equals sign is replaced by three blanks. For a
  log without the marker it raises its \<^verbatim>\<open>RuntimeError\<close>, and the cell that composes
  the scan deck stops there, the state unchanged: no scan deck is written.
\<close>

theorem extract_optimized_structure_block:
  "(\<not> list_ex has_marker lines \<longrightarrow>
      extract_optimized_structure lines = Inl structure_not_found \<and>
      (\<forall>cfg s log rest. opt_log s = Some log \<and> readlines log = lines \<longrightarrow>
         run_cells (cell_scan_deck cfg # rest) s = (Some structure_not_found, s))) \<and>
   (list_ex has_marker lines \<longrightarrow>
      extract_optimized_structure lines =
        Inr (map reformat (takeWhile (\<lambda>l. \<not> starts_with_digit (strip l))
               (tl (dropWhile (\<lambda>l. \<not> has_marker l) lines)))))"
proof (intro conjI impI allI)
  assume "\<not> list_ex has_marker lines"
  then show e: "extract_optimized_structure lines = Inl structure_not_found"
    by (simp add: extract_optimized_structure_def after_marker_None structure_not_found_def)
  fix cfg and s :: notebook and log rest
  assume "opt_log s = Some log \<and> readlines log = lines"
  with e show "run_cells (cell_scan_deck cfg # rest) s = (Some structure_not_found, s)"
    by (simp add: cell_scan_deck_def)
next
  assume "list_ex has_marker lines"
  then show "extract_optimized_structure lines =
        Inr (map reformat (takeWhile (\<lambda>l. \<not> starts_with_digit (strip l))
               (tl (dropWhile (\<lambda>l. \<not> has_marker l) lines))))"
    by (simp add: extract_optimized_structure_def after_marker_Some copy_geometry_map)
qed

lemmas log_eval = has_marker_def reformat_def starts_with_digit_def is_digit_def

theorem extract_optimized_structure_block_witness:
  "list_ex has_marker
     [''Optimization completed.\<newline>'', '' Final structure in terms of initial Z-matrix:\<newline>'',
      '' F\<newline>'', '' H,1,B1\<newline>'', ''      Variables:\<newline>'', '' B1=0.91\<newline>'',
      '' 1 2 3\<newline>'', '' B2=1.0\<newline>''] \<and>
   extract_optimized_structure
     [''Optimization completed.\<newline>'', '' Final structure in terms of initial Z-matrix:\<newline>'',
      '' F\<newline>'', '' H,1,B1\<newline>'', ''      Variables:\<newline>'', '' B1=0.91\<newline>'',
      '' 1 2 3\<newline>'', '' B2=1.0\<newline>'']
     = Inr ['' F\<newline>'', '' H   1   B1\<newline>'', ''\<newline>'', '' B1   0.91\<newline>''] \<and>
   \<not> list_ex has_marker [''Optimization stopped.\<newline>'', '' Error termination.\<newline>''] \<and>
   extract_optimized_structure [''Optimization stopped.\<newline>'', '' Error termination.\<newline>'']
     = Inl structure_not_found \<and>
   run_cells [cell_scan_deck user_input, cell_update_scan_bond user_input]
       (fresh\<lparr>opt_log := Some ''Optimization stopped.\<newline> Error termination.\<newline>''\<rparr>)
     = (Some structure_not_found,
        fresh\<lparr>opt_log := Some ''Optimization stopped.\<newline> Error termination.\<newline>''\<rparr>)"
proof -
  let ?log = "[''Optimization completed.\<newline>'', '' Final structure in terms of initial Z-matrix:\<newline>'',
      '' F\<newline>'', '' H,1,B1\<newline>'', ''      Variables:\<newline>'', '' B1=0.91\<newline>'',
      '' 1 2 3\<newline>'', '' B2=1.0\<newline>'']"
  let ?bad = "[''Optimization stopped.\<newline>'', '' Error termination.\<newline>'']"
  have m: "list_ex has_marker ?log"
    by (simp add: has_marker_def)
  have v: "map reformat (takeWhile (\<lambda>l. \<not> starts_with_digit (strip l))
               (tl (dropWhile (\<lambda>l. \<not> has_marker l) ?log)))
         = ['' F\<newline>'', '' H   1   B1\<newline>'', ''\<newline>'', '' B1   0.91\<newline>'']"
    by (simp add: log_eval text_eval)
  from extract_optimized_structure_block [of ?log] m
  have a: "extract_optimized_structure ?log =
        Inr (map reformat (takeWhile (\<lambda>l. \<not> starts_with_digit (strip l))
               (tl (dropWhile (\<lambda>l. \<not> has_marker l) ?log))))"
    by blast
  have n: "\<not> list_ex has_marker ?bad"
    by (simp add: has_marker_def)
  have rl: "readlines ''Optimization stopped.\<newline> Error termination.\<newline>'' = ?bad"
    by (simp add: readlines_def)
  from extract_optimized_structure_block [of ?bad] n
  have b: "extract_optimized_structure ?bad = Inl structure_not_found"
    and c: "\<forall>cfg s log rest. opt_log s = Some log \<and> readlines log = ?bad \<longrightarrow>
         run_cells (cell_scan_deck cfg # rest) s = (Some structure_not_found, s)"
    by blast+
  from c rl have c': "run_cells [cell_scan_deck user_input, cell_update_scan_bond user_input]
       (fresh\<lparr>opt_log := Some ''Optimization stopped.\<newline> Error termination.\<newline>''\<rparr>)
     = (Some structure_not_found,
        fresh\<lparr>opt_log := Some ''Optimization stopped.\<newline> Error termination.\<newline>''\<rparr>)"
    by simp
  from m a [unfolded v] n b c' show ?thesis
    by blast
qed

text \<open>
  Claim C5 as stated fails for a copied line that contains \<^verbatim>\<open>Variables\<close> without the
  colon: it is copied, not replaced by a blank line.
\<close>

theorem extract_optimized_structure_variables_counterexample:
  "contains '' Variables\<newline>'' ''Variables'' \<and>
   extract_optimized_structure
     ['' Final structure in terms of initial Z-matrix:\<newline>'', '' F\<newline>'', '' Variables\<newline>'']
     = Inr ['' F\<newline>'', '' Variables\<newline>'']"
  by (simp add: extract_optimized_structure_def modified_line_def replace_char_def
      starts_with_digit_def is_digit_def text_eval)

section \<open>The scan directive of the example\<close>

text \<open>
  The example of the specification, evaluated step by step: the bounds, the equilibrium
  distance read from the deck, the three computed distances, and their texts. The text
  of a float is found by trying one digit count after the other.
\<close>

lemma first_digits_skip:
  "digits_at m e e10 k = None \<Longrightarrow> first_digits m e e10 (k # ks) = first_digits m e e10 ks"
  by simp

lemma first_digits_take:
  "digits_at m e e10 k = Some r \<Longrightarrow> first_digits m e e10 (k # ks) = r"
  by simp

lemma example_bounds:
  "lower_bound user_input = PyFloat (Finite False 6305039478318694 (- 53))"
  "upper_bound user_input = PyFloat (Finite False 7881299347898368 (- 52))"
  "scan_step_number user_input = PyInt 105"
  by (simp_all add: user_input_def float_eval)

lemma example_equilibrium:
  "float_of_string ''1.40000000'' = Some (Finite False 6305039478318694 (- 52))"
  by (simp add: parse_eval float_eval)

lemma example_minimum:
  "float_mul_num (Finite False 6305039478318694 (- 52))
       (PyFloat (Finite False 6305039478318694 (- 53)))
     = Inr (Finite False 8827055269646171 (- 53))"
  by (simp add: float_mul_num_def num_eval float_eval)

lemma example_maximum:
  "float_mul_num (Finite False 6305039478318694 (- 52))
       (PyFloat (Finite False 7881299347898368 (- 52)))
     = Inr (Finite False 5516909543528857 (- 51))"
  by (simp add: float_mul_num_def num_eval float_eval)

lemma example_step:
  "float_truediv_num
       (float_sub (Finite False 5516909543528857 (- 51)) (Finite False 8827055269646171 (- 53)))
       (PyInt 105)
     = Inr (Finite False 8070450532247927 (- 59))"
  by (simp add: float_truediv_num_def float_sub_def float_neg_def num_eval float_eval)

lemma example_minimum_8f: "format_8f (Finite False 8827055269646171 (- 53)) = ''0.98000000''"
  by (simp add: format_8f_def str_eval float_eval)

lemma step_exponent: "decimal_exponent 8070450532247927 (- 59) = - 2"
  by (simp add: repr_eval float_eval)

lemma step_digits_1_4:
  "digits_at 8070450532247927 (- 59) (- 2) 1 = None"
  "digits_at 8070450532247927 (- 59) (- 2) 2 = None"
  "digits_at 8070450532247927 (- 59) (- 2) 3 = None"
  "digits_at 8070450532247927 (- 59) (- 2) 4 = None"
  by (simp_all add: repr_eval float_eval)

lemma step_digits_5_8:
  "digits_at 8070450532247927 (- 59) (- 2) 5 = None"
  "digits_at 8070450532247927 (- 59) (- 2) 6 = None"
  "digits_at 8070450532247927 (- 59) (- 2) 7 = None"
  "digits_at 8070450532247927 (- 59) (- 2) 8 = None"
  by (simp_all add: repr_eval float_eval)

lemma step_digits_9_12:
  "digits_at 8070450532247927 (- 59) (- 2) 9 = None"
  "digits_at 8070450532247927 (- 59) (- 2) 10 = None"
  "digits_at 8070450532247927 (- 59) (- 2) 11 = None"
  "digits_at 8070450532247927 (- 59) (- 2) 12 = None"
  by (simp_all add: repr_eval float_eval)

lemma step_digits_13_16:
  "digits_at 8070450532247927 (- 59) (- 2) 13 = None"
  "digits_at 8070450532247927 (- 59) (- 2) 14 = None"
  "digits_at 8070450532247927 (- 59) (- 2) 15 = None"
  "digits_at 8070450532247927 (- 59) (- 2) 16 = None"
  by (simp_all add: repr_eval float_eval)

lemma step_digits_17:
  "digits_at 8070450532247927 (- 59) (- 2) 17 = Some (13999999999999997, - 18)"
  by (simp add: repr_eval float_eval)

lemma step_shortest: "shortest_digits 8070450532247927 (- 59) = (13999999999999997, - 18)"
  unfolding shortest_digits_def step_exponent
  by (simp only: first_digits_skip step_digits_1_4 step_digits_5_8 step_digits_9_12 step_digits_13_16
      first_digits_take [OF step_digits_17])

lemma example_step_repr:
  "float_repr (Finite False 8070450532247927 (- 59)) = ''0.013999999999999997''"
  by (simp add: float_repr_def step_shortest layout_repr_def strip_zeros_numeral str_eval)

lemma minimum_exponent: "decimal_exponent 8827055269646171 (- 53) = - 1"
  by (simp add: repr_eval float_eval)

lemma minimum_digits_1_4:
  "digits_at 8827055269646171 (- 53) (- 1) 1 = None"
  "digits_at 8827055269646171 (- 53) (- 1) 2 = None"
  "digits_at 8827055269646171 (- 53) (- 1) 3 = None"
  "digits_at 8827055269646171 (- 53) (- 1) 4 = None"
  by (simp_all add: repr_eval float_eval)

lemma minimum_digits_5_8:
  "digits_at 8827055269646171 (- 53) (- 1) 5 = None"
  "digits_at 8827055269646171 (- 53) (- 1) 6 = None"
  "digits_at 8827055269646171 (- 53) (- 1) 7 = None"
  "digits_at 8827055269646171 (- 53) (- 1) 8 = None"
  by (simp_all add: repr_eval float_eval)

lemma minimum_digits_9_12:
  "digits_at 8827055269646171 (- 53) (- 1) 9 = None"
  "digits_at 8827055269646171 (- 53) (- 1) 10 = None"
  "digits_at 8827055269646171 (- 53) (- 1) 11 = None"
  "digits_at 8827055269646171 (- 53) (- 1) 12 = None"
  by (simp_all add: repr_eval float_eval)

lemma minimum_digits_13_15:
  "digits_at 8827055269646171 (- 53) (- 1) 13 = None"
  "digits_at 8827055269646171 (- 53) (- 1) 14 = None"
  "digits_at 8827055269646171 (- 53) (- 1) 15 = None"
  by (simp_all add: repr_eval float_eval)

lemma minimum_digits_16:
  "digits_at 8827055269646171 (- 53) (- 1) 16 = Some (9799999999999999, - 16)"
  by (simp add: repr_eval float_eval)

lemma minimum_shortest: "shortest_digits 8827055269646171 (- 53) = (9799999999999999, - 16)"
  unfolding shortest_digits_def minimum_exponent
  by (simp only: first_digits_skip minimum_digits_1_4 minimum_digits_5_8 minimum_digits_9_12 minimum_digits_13_15
      first_digits_take [OF minimum_digits_16])

lemma example_minimum_repr:
  "float_repr (Finite False 8827055269646171 (- 53)) = ''0.9799999999999999''"
  by (simp add: float_repr_def minimum_shortest layout_repr_def strip_zeros_numeral str_eval)

lemma maximum_exponent: "decimal_exponent 5516909543528857 (- 51) = 0"
  by (simp add: repr_eval float_eval)

lemma maximum_digits_1_4:
  "digits_at 5516909543528857 (- 51) (0) 1 = None"
  "digits_at 5516909543528857 (- 51) (0) 2 = None"
  "digits_at 5516909543528857 (- 51) (0) 3 = None"
  "digits_at 5516909543528857 (- 51) (0) 4 = None"
  by (simp_all add: repr_eval float_eval)

lemma maximum_digits_5_8:
  "digits_at 5516909543528857 (- 51) (0) 5 = None"
  "digits_at 5516909543528857 (- 51) (0) 6 = None"
  "digits_at 5516909543528857 (- 51) (0) 7 = None"
  "digits_at 5516909543528857 (- 51) (0) 8 = None"
  by (simp_all add: repr_eval float_eval)

lemma maximum_digits_9_12:
  "digits_at 5516909543528857 (- 51) (0) 9 = None"
  "digits_at 5516909543528857 (- 51) (0) 10 = None"
  "digits_at 5516909543528857 (- 51) (0) 11 = None"
  "digits_at 5516909543528857 (- 51) (0) 12 = None"
  by (simp_all add: repr_eval float_eval)

lemma maximum_digits_13_16:
  "digits_at 5516909543528857 (- 51) (0) 13 = None"
  "digits_at 5516909543528857 (- 51) (0) 14 = None"
  "digits_at 5516909543528857 (- 51) (0) 15 = None"
  "digits_at 5516909543528857 (- 51) (0) 16 = None"
  by (simp_all add: repr_eval float_eval)

lemma maximum_digits_17:
  "digits_at 5516909543528857 (- 51) (0) 17 = Some (24499999999999997, - 16)"
  by (simp add: repr_eval float_eval)

lemma maximum_shortest: "shortest_digits 5516909543528857 (- 51) = (24499999999999997, - 16)"
  unfolding shortest_digits_def maximum_exponent
  by (simp only: first_digits_skip maximum_digits_1_4 maximum_digits_5_8 maximum_digits_9_12 maximum_digits_13_16
      first_digits_take [OF maximum_digits_17])

lemma example_maximum_repr:
  "float_repr (Finite False 5516909543528857 (- 51)) = ''2.4499999999999997''"
  by (simp add: float_repr_def maximum_shortest layout_repr_def strip_zeros_numeral str_eval)

lemma example_update:
  "update_scan_bond ['' F\<newline>'', '' H   1   B4\<newline>'', ''\<newline>'', '' B4   1.40000000\<newline>''] ''B4''
       (lower_bound user_input) (upper_bound user_input) (scan_step_number user_input)
     = (Some (Finite False 8827055269646171 (- 53)), Some (Finite False 8070450532247927 (- 59)),
        Inr ['' F\<newline>'', '' H   1   B4\<newline>'', ''\<newline>'',
             '' B4   0.98000000   105   0.013999999999999997\<newline>''])"
proof -
  have f: "find_scan_line ''B4'' ['' F\<newline>'', '' H   1   B4\<newline>'', ''\<newline>'', '' B4   1.40000000\<newline>''] 0
      = Some (3, ''1.40000000'')"
    by (simp add: text_eval split_ws_def)
  have l: "scan_line ''B4'' (Finite False 8827055269646171 (- 53)) 105
        (Finite False 8070450532247927 (- 59))
      = '' B4   0.98000000   105   0.013999999999999997\<newline>''"
    by (simp add: scan_line_def example_minimum_8f example_step_repr str_eval)
  show ?thesis
    unfolding update_scan_bond_def example_bounds f
    by (simp add: example_equilibrium example_minimum example_maximum example_step l py_int_def)
qed

text \<open>
  Claim C6, as amended. For the equilibrium distance \<^verbatim>\<open>1.40000000\<close>, the lower bound
  \<^verbatim>\<open>0.7\<close>, the upper bound \<^verbatim>\<open>1.75\<close> and \<open>105\<close> steps, \<open>update_scan_bond\<close> computes
  in binary64 arithmetic the minimum distance \<^verbatim>\<open>0.9799999999999999\<close>, the maximum
  distance \<^verbatim>\<open>2.4499999999999997\<close> and the step size \<^verbatim>\<open>0.013999999999999997\<close>, and the
  rewritten line reads \<^verbatim>\<open> B4   0.98000000   105   0.013999999999999997\<close>.
\<close>

theorem scan_example:
  "update_scan_bond ['' F\<newline>'', '' H   1   B4\<newline>'', ''\<newline>'', '' B4   1.40000000\<newline>''] ''B4''
       (lower_bound user_input) (upper_bound user_input) (scan_step_number user_input)
     = (Some (Finite False 8827055269646171 (- 53)), Some (Finite False 8070450532247927 (- 59)),
        Inr ['' F\<newline>'', '' H   1   B4\<newline>'', ''\<newline>'',
             '' B4   0.98000000   105   0.013999999999999997\<newline>'']) \<and>
   float_of_string ''1.40000000'' = Some (Finite False 6305039478318694 (- 52)) \<and>
   float_mul_num (Finite False 6305039478318694 (- 52)) (lower_bound user_input)
     = Inr (Finite False 8827055269646171 (- 53)) \<and>
   float_mul_num (Finite False 6305039478318694 (- 52)) (upper_bound user_input)
     = Inr (Finite False 5516909543528857 (- 51)) \<and>
   float_truediv_num
       (float_sub (Finite False 5516909543528857 (- 51)) (Finite False 8827055269646171 (- 53)))
       (scan_step_number user_input)
     = Inr (Finite False 8070450532247927 (- 59)) \<and>
   float_repr (Finite False 8827055269646171 (- 53)) = ''0.9799999999999999'' \<and>
   float_repr (Finite False 5516909543528857 (- 51)) = ''2.4499999999999997'' \<and>
   float_repr (Finite False 8070450532247927 (- 59)) = ''0.013999999999999997'' \<and>
   format_8f (Finite False 8827055269646171 (- 53)) = ''0.98000000''"
  using example_update example_equilibrium example_minimum example_maximum example_step
    example_minimum_repr example_maximum_repr example_step_repr example_minimum_8f
  by (simp add: example_bounds)

text \<open>
  Claim C6 as stated fails: the minimum distance is not the float \<^verbatim>\<open>0.98\<close>, the step
  size is not the float \<^verbatim>\<open>0.014\<close>, and the rewritten line does not end in
  \<^verbatim>\<open>0.014\<close>.
\<close>

theorem scan_example_counterexample:
  "fst (update_scan_bond ['' F\<newline>'', '' H   1   B4\<newline>'', ''\<newline>'', '' B4   1.40000000\<newline>''] ''B4''
          (lower_bound user_input) (upper_bound user_input) (scan_step_number user_input))
     \<noteq> Some (round64 False 98 100) \<and>
   fst (snd (update_scan_bond ['' F\<newline>'', '' H   1   B4\<newline>'', ''\<newline>'', '' B4   1.40000000\<newline>'']
          ''B4'' (lower_bound user_input) (upper_bound user_input) (scan_step_number user_input)))
     \<noteq> Some (round64 False 14 1000) \<and>
   snd (snd (update_scan_bond ['' F\<newline>'', '' H   1   B4\<newline>'', ''\<newline>'', '' B4   1.40000000\<newline>'']
          ''B4'' (lower_bound user_input) (upper_bound user_input) (scan_step_number user_input)))
     \<noteq> Inr ['' F\<newline>'', '' H   1   B4\<newline>'', ''\<newline>'', '' B4   0.98000000   105   0.014\<newline>'']"
proof -
  have "round64 False 98 100 = Finite False 8827055269646172 (- 53)"
    "round64 False 14 1000 = Finite False 8070450532247929 (- 59)"
    by (simp_all add: float_eval)
  then show ?thesis
    unfolding example_update by simp
qed

section \<open>Properties of the basis-set reader\<close>

lemma blank_newline: "blank ''\<newline>''"
  by (simp add: blank_def strip_def rstrip_def lstrip_def is_space_def)

lemma pop_leading_blank_eq: "pop_leading_blank ls = dropWhile blank ls"
  by (induction ls) (simp_all add: blank_def)

lemma pop_trailing_blank_eq: "pop_trailing_blank ls = rev (dropWhile blank (rev ls))"
proof (induction ls rule: rev_induct)
  case Nil
  show ?case by (simp add: pop_trailing_blank.simps)
next
  case (snoc l ls)
  show ?case
  proof (cases "blank l")
    case True
    then have "pop_trailing_blank (ls @ [l]) = pop_trailing_blank ls"
      by (subst pop_trailing_blank.simps) (simp add: blank_def)
    with snoc True show ?thesis by simp
  next
    case False
    then have "pop_trailing_blank (ls @ [l]) = ls @ [l]"
      by (subst pop_trailing_blank.simps) (simp add: blank_def)
    with False show ?thesis by simp
  qed
qed

lemma read_basis_set_eq:
  "read_basis_set file = ''\<newline>'' # trimmed file @ [''\<newline>'']"
  by (simp add: read_basis_set_def trimmed_def pop_leading_blank_eq pop_trailing_blank_eq)

lemma trimmed_decomp:
  "dropWhile blank file = trimmed file @ rev (takeWhile blank (rev (dropWhile blank file)))"
  unfolding trimmed_def
  by (metis rev_append rev_rev_ident takeWhile_dropWhile_id)

lemma trimmed_nonempty:
  assumes "list_ex (\<lambda>l. \<not> blank l) file"
  shows "trimmed file \<noteq> []" "\<not> blank (hd (trimmed file))" "\<not> blank (last (trimmed file))"
proof -
  let ?d = "dropWhile blank file"
  from assms have d: "?d \<noteq> []"
    by (auto simp: list_ex_iff dropWhile_eq_Nil_conv)
  then have hd: "\<not> blank (hd ?d)"
    by (simp add: hd_dropWhile)
  from d hd have ex: "\<exists>l\<in>set (rev ?d). \<not> blank l"
    by (metis hd_in_set set_rev)
  then have r: "dropWhile blank (rev ?d) \<noteq> []"
    by (auto simp: dropWhile_eq_Nil_conv)
  then show t: "trimmed file \<noteq> []"
    by (simp add: trimmed_def)
  from r have "\<not> blank (hd (dropWhile blank (rev ?d)))"
    by (simp add: hd_dropWhile)
  with r show "\<not> blank (last (trimmed file))"
    by (simp add: trimmed_def last_rev)
  from t trimmed_decomp [of "file"] have "hd ?d = hd (trimmed file)"
    by (metis hd_append2)
  with hd show "\<not> blank (hd (trimmed file))"
    by simp
qed

lemma trimmed_frame:
  assumes "list_ex (\<lambda>l. \<not> blank l) file"
  shows "file = takeWhile blank file @ trimmed file @ rev (takeWhile blank (rev file))"
proof -
  let ?d = "dropWhile blank file"
  from assms have d: "?d \<noteq> []"
    by (auto simp: list_ex_iff dropWhile_eq_Nil_conv)
  then have "\<not> blank (hd ?d)"
    by (simp add: hd_dropWhile)
  with d have ex: "\<exists>l\<in>set (rev ?d). \<not> blank l"
    by (metis hd_in_set set_rev)
  have "rev file = rev ?d @ rev (takeWhile blank file)"
    by (metis rev_append takeWhile_dropWhile_id)
  moreover from ex obtain l where "l \<in> set (rev ?d)" "\<not> blank l"
    by blast
  ultimately have "takeWhile blank (rev file) = takeWhile blank (rev ?d)"
    by (simp add: takeWhile_append1)
  with trimmed_decomp [of "file"] have "?d = trimmed file @ rev (takeWhile blank (rev file))"
    by simp
  then show ?thesis
    by (metis takeWhile_dropWhile_id)
qed

lemma trimmed_all_blank:
  assumes "\<not> list_ex (\<lambda>l. \<not> blank l) file"
  shows "trimmed file = []"
proof -
  from assms have "\<forall>l\<in>set file. blank l"
    by (simp add: list_ex_iff)
  then have d: "dropWhile blank file = []"
    by simp
  show ?thesis unfolding trimmed_def d by simp
qed

text \<open>
  Claim C7, as amended. For every basis-set file with at least one non-blank line, the
  output of \<open>read_basis_set\<close> starts with exactly one blank line and ends with exactly
  one blank line, however many blank lines the input had at either end, and between the
  two it holds the input's lines from the first non-blank to the last non-blank one,
  unchanged. For a file without a non-blank line the output is two blank lines.
\<close>

theorem read_basis_set_blank_frame:
  "(list_ex (\<lambda>l. \<not> blank l) file \<longrightarrow>
      leading_blanks (read_basis_set file) = 1 \<and>
      trailing_blanks (read_basis_set file) = 1 \<and>
      read_basis_set file = ''\<newline>'' # trimmed file @ [''\<newline>''] \<and>
      file = takeWhile blank file @ trimmed file @ rev (takeWhile blank (rev file))) \<and>
   (\<not> list_ex (\<lambda>l. \<not> blank l) file \<longrightarrow>
      read_basis_set file = [''\<newline>'', ''\<newline>''])"
proof (intro conjI impI)
  assume ne: "list_ex (\<lambda>l. \<not> blank l) file"
  note t = trimmed_nonempty [OF ne]
  from t(1) obtain x xs where xs: "trimmed file = x # xs"
    by (cases "trimmed file") auto
  with t(2) have "\<not> blank x" by simp
  then show "leading_blanks (read_basis_set file) = 1"
    by (simp add: leading_blanks_def read_basis_set_eq xs blank_newline)
  from t(1) obtain ys y where ys: "trimmed file = ys @ [y]"
    by (metis rev_exhaust)
  with t(3) have "\<not> blank y" by simp
  then show "trailing_blanks (read_basis_set file) = 1"
    by (simp add: trailing_blanks_def read_basis_set_eq ys blank_newline)
  show "read_basis_set file = ''\<newline>'' # trimmed file @ [''\<newline>'']"
    by (rule read_basis_set_eq)
  show "file = takeWhile blank file @ trimmed file @ rev (takeWhile blank (rev file))"
    by (rule trimmed_frame [OF ne])
next
  assume "\<not> list_ex (\<lambda>l. \<not> blank l) file"
  then show "read_basis_set file = [''\<newline>'', ''\<newline>'']"
    by (simp add: read_basis_set_eq trimmed_all_blank)
qed

theorem read_basis_set_blank_frame_witness:
  "list_ex (\<lambda>l. \<not> blank l) [''\<newline>'', ''H 0\<newline>'', ''S 1\<newline>'', '' \<newline>'', ''\<newline>''] \<and>
   leading_blanks (read_basis_set [''\<newline>'', ''H 0\<newline>'', ''S 1\<newline>'', '' \<newline>'', ''\<newline>'']) = 1 \<and>
   trailing_blanks (read_basis_set [''\<newline>'', ''H 0\<newline>'', ''S 1\<newline>'', '' \<newline>'', ''\<newline>'']) = 1 \<and>
   read_basis_set [''\<newline>'', ''H 0\<newline>'', ''S 1\<newline>'', '' \<newline>'', ''\<newline>'']
     = [''\<newline>'', ''H 0\<newline>'', ''S 1\<newline>'', ''\<newline>''] \<and>
   \<not> list_ex (\<lambda>l. \<not> blank l) [[CHR 0xA0, CHR 0x0A], '' \<newline>''] \<and>
   read_basis_set [[CHR 0xA0, CHR 0x0A], '' \<newline>''] = [''\<newline>'', ''\<newline>'']"
proof -
  have a: "list_ex (\<lambda>l. \<not> blank l) [''\<newline>'', ''H 0\<newline>'', ''S 1\<newline>'', '' \<newline>'', ''\<newline>'']"
    by (simp add: text_eval)
  have b: "\<not> list_ex (\<lambda>l. \<not> blank l) [[CHR 0xA0, CHR 0x0A], '' \<newline>'']"
    by (simp add: text_eval)
  have c: "trimmed [''\<newline>'', ''H 0\<newline>'', ''S 1\<newline>'', '' \<newline>'', ''\<newline>''] = [''H 0\<newline>'', ''S 1\<newline>'']"
    by (simp add: text_eval)
  from a read_basis_set_blank_frame [of "[''\<newline>'', ''H 0\<newline>'', ''S 1\<newline>'', '' \<newline>'', ''\<newline>'']"]
  have d: "leading_blanks (read_basis_set [''\<newline>'', ''H 0\<newline>'', ''S 1\<newline>'', '' \<newline>'', ''\<newline>'']) = 1 \<and>
   trailing_blanks (read_basis_set [''\<newline>'', ''H 0\<newline>'', ''S 1\<newline>'', '' \<newline>'', ''\<newline>'']) = 1 \<and>
   read_basis_set [''\<newline>'', ''H 0\<newline>'', ''S 1\<newline>'', '' \<newline>'', ''\<newline>'']
     = ''\<newline>'' # trimmed [''\<newline>'', ''H 0\<newline>'', ''S 1\<newline>'', '' \<newline>'', ''\<newline>''] @ [''\<newline>'']"
    by blast
  from b read_basis_set_blank_frame [of "[[CHR 0xA0, CHR 0x0A], '' \<newline>'']"]
  have e: "read_basis_set [[CHR 0xA0, CHR 0x0A], '' \<newline>''] = [''\<newline>'', ''\<newline>'']"
    by blast
  have c': "''\<newline>'' # trimmed [''\<newline>'', ''H 0\<newline>'', ''S 1\<newline>'', '' \<newline>'', ''\<newline>''] @ [''\<newline>'']
      = [''\<newline>'', ''H 0\<newline>'', ''S 1\<newline>'', ''\<newline>'']"
    by (simp add: c)
  from a b d [unfolded c'] e show ?thesis
    by blast
qed

text \<open>
  Claim C7 as stated fails for the empty file (and for any file of blank lines only):
  the output is two blank lines, so it starts, and ends, with two blank lines, not one.
\<close>

theorem read_basis_set_empty_file_counterexample:
  "read_basis_set [] = [''\<newline>'', ''\<newline>''] \<and>
   leading_blanks (read_basis_set []) = 2 \<and> trailing_blanks (read_basis_set []) = 2"
  by (simp add: read_basis_set_eq text_eval)


section \<open>Properties of the energies\<close>

lemma energy_loop_Cons:
  "energy_loop (line # lines) (energies, out) =
     (case read_energy line of
        NoEnergy \<Rightarrow> energy_loop lines (energies, out)
      | Energy v \<Rightarrow> energy_loop lines (energies @ [v], out)
      | Malformed t \<Rightarrow> energy_loop lines (energies, out @ [conversion_message t]))"
  by (simp add: read_energy_def Let_def split: option.splits)

lemma energy_loop_acc:
  "energy_loop lines (energies, out) = (energies @ energies_of lines, out @ messages_of lines)"
proof (induction lines arbitrary: energies out)
  case Nil
  show ?case by (simp add: energies_of_def messages_of_def)
next
  case (Cons line lines)
  show ?case
    unfolding energy_loop_Cons
    by (cases "read_energy line") (simp_all add: Cons.IH energies_of_def messages_of_def)
qed

text \<open>
  Claim C8, as amended. \<open>extract_energies\<close> never raises: for every log it returns the
  energies of the lines whose payload parses, in the order of the log, and has printed
  one message for every line whose captured payload does not parse. The payload of a
  line with the label \<^verbatim>\<open>EUMP2\<close> is the text that the pattern captures. When the
  pattern captures a text that does not parse as a float, the line adds its message to
  what is printed and nothing to the energies; when the captured text parses, the line
  adds its energy and no message; when the line has no label, or the pattern does not
  match it, the line adds nothing to the energies and nothing to what is printed. In
  each case the loop goes on with the lines after it.
\<close>

theorem extract_energies_readings:
  "extract_energies lines = (energies_of lines, messages_of lines) \<and>
   (contains line ''EUMP2'' \<and> re_search line = Some g \<and>
    float_of_string (replace_char CHR ''D'' ''E'' g) = None \<longrightarrow>
      read_energy line = Malformed (replace_char CHR ''D'' ''E'' g) \<and>
      energy_loop (line # rest) (energies, out)
        = energy_loop rest (energies, out @ [conversion_message (replace_char CHR ''D'' ''E'' g)]) \<and>
      extract_energies (before @ line # rest)
        = (energies_of before @ energies_of rest,
           messages_of before @ conversion_message (replace_char CHR ''D'' ''E'' g) # messages_of rest)) \<and>
   (contains line ''EUMP2'' \<and> re_search line = Some g \<and>
    float_of_string (replace_char CHR ''D'' ''E'' g) = Some x \<longrightarrow>
      read_energy line = Energy (float_mul x hartree_to_eV) \<and>
      energy_loop (line # rest) (energies, out)
        = energy_loop rest (energies @ [float_mul x hartree_to_eV], out) \<and>
      extract_energies (before @ line # rest)
        = (energies_of before @ float_mul x hartree_to_eV # energies_of rest,
           messages_of before @ messages_of rest)) \<and>
   (\<not> contains line ''EUMP2'' \<or> re_search line = None \<longrightarrow>
      read_energy line = NoEnergy \<and>
      energy_loop (line # rest) (energies, out) = energy_loop rest (energies, out) \<and>
      extract_energies (before @ line # rest)
        = (energies_of before @ energies_of rest, messages_of before @ messages_of rest))"
proof (intro conjI impI)
  show all: "extract_energies lines = (energies_of lines, messages_of lines)" for lines
    by (simp add: extract_energies_def energy_loop_acc)
  {
    assume "contains line ''EUMP2'' \<and> re_search line = Some g \<and>
      float_of_string (replace_char CHR ''D'' ''E'' g) = None"
    then show m: "read_energy line = Malformed (replace_char CHR ''D'' ''E'' g)"
      by (simp add: read_energy_def)
    then show "energy_loop (line # rest) (energies, out)
          = energy_loop rest (energies, out @ [conversion_message (replace_char CHR ''D'' ''E'' g)])"
      by (simp add: energy_loop_Cons del: energy_loop.simps(2))
    from m show "extract_energies (before @ line # rest)
          = (energies_of before @ energies_of rest,
             messages_of before @ conversion_message (replace_char CHR ''D'' ''E'' g) # messages_of rest)"
      by (simp add: all energies_of_def messages_of_def)
  }
  {
    assume "contains line ''EUMP2'' \<and> re_search line = Some g \<and>
      float_of_string (replace_char CHR ''D'' ''E'' g) = Some x"
    then show m: "read_energy line = Energy (float_mul x hartree_to_eV)"
      by (simp add: read_energy_def)
    then show "energy_loop (line # rest) (energies, out)
          = energy_loop rest (energies @ [float_mul x hartree_to_eV], out)"
      by (simp add: energy_loop_Cons del: energy_loop.simps(2))
    from m show "extract_energies (before @ line # rest)
          = (energies_of before @ float_mul x hartree_to_eV # energies_of rest,
             messages_of before @ messages_of rest)"
      by (simp add: all energies_of_def messages_of_def)
  }
  {
    assume "\<not> contains line ''EUMP2'' \<or> re_search line = None"
    then show m: "read_energy line = NoEnergy"
      by (auto simp: read_energy_def)
    then show "energy_loop (line # rest) (energies, out) = energy_loop rest (energies, out)"
      by (simp add: energy_loop_Cons del: energy_loop.simps(2))
    from m show "extract_energies (before @ line # rest)
          = (energies_of before @ energies_of rest, messages_of before @ messages_of rest)"
      by (simp add: all energies_of_def messages_of_def)
  }
qed


text \<open>
  The theorem on a log of five lines: an energy, a captured payload \<^verbatim>\<open>1-2\<close> that does
  not parse, a payload of asterisks that the pattern does not match, a line without the
  label, and an energy.
\<close>

theorem extract_energies_readings_witness:
  "contains '' E2 = -0.1D+00 EUMP2 = 1-2\<newline>'' ''EUMP2'' \<and>
   re_search '' E2 = -0.1D+00 EUMP2 = 1-2\<newline>'' = Some ''1-2'' \<and>
   float_of_string (replace_char CHR ''D'' ''E'' ''1-2'') = None \<and>
   extract_energies
       ['' EUMP2 =    -0.5D+01\<newline>'', '' E2 = -0.1D+00 EUMP2 = 1-2\<newline>'',
        '' EUMP2 =    ****************\<newline>'', '' SCF Done\<newline>'',
        '' EUMP2 =    -0.10012345678901D+03\<newline>'']
     = ([Finite True 4787081512396771 (- 45), Finite True 5991239361899085 (- 41)],
        [''Error converting energy: 1-2 - could not convert string to float: '' @ apostrophe
           @ ''1-2'' @ apostrophe]) \<and>
   contains '' EUMP2 =    -0.5D+01\<newline>'' ''EUMP2'' \<and>
   re_search '' EUMP2 =    -0.5D+01\<newline>'' = Some ''-0.5D+01'' \<and>
   float_of_string (replace_char CHR ''D'' ''E'' ''-0.5D+01'')
     = Some (Finite True 5629499534213120 (- 50)) \<and>
   read_energy '' EUMP2 =    -0.5D+01\<newline>'' = Energy (Finite True 4787081512396771 (- 45)) \<and>
   re_search '' EUMP2 =    ****************\<newline>'' = None \<and>
   read_energy '' EUMP2 =    ****************\<newline>'' = NoEnergy"
proof -
  let ?good = "'' EUMP2 =    -0.5D+01\<newline>''"
  let ?bad = "'' E2 = -0.1D+00 EUMP2 = 1-2\<newline>''"
  let ?stars = "'' EUMP2 =    ****************\<newline>''"
  note t = extract_energies_readings
  have h: "contains ?bad ''EUMP2'' \<and> re_search ?bad = Some ''1-2'' \<and>
      float_of_string (replace_char CHR ''D'' ''E'' ''1-2'') = None"
    by (simp add: regex_eval parse_eval)
  have k: "contains ?good ''EUMP2'' \<and> re_search ?good = Some ''-0.5D+01'' \<and>
      float_of_string (replace_char CHR ''D'' ''E'' ''-0.5D+01'')
        = Some (Finite True 5629499534213120 (- 50))"
    by (simp add: regex_eval parse_eval float_eval)
  have n: "re_search ?stars = None"
    by (simp add: regex_eval)
  have v: "float_mul (Finite True 5629499534213120 (- 50)) hartree_to_eV
      = Finite True 4787081512396771 (- 45)"
    by (simp add: hartree_to_eV_def float_eval)
  from k t [of _ ?good "''-0.5D+01''" _ _ _ _ "Finite True 5629499534213120 (- 50)"]
  have r1: "read_energy ?good = Energy (Finite True 4787081512396771 (- 45))"
    unfolding v by blast
  from n t [of _ ?stars]
  have r2: "read_energy ?stars = NoEnergy"
    by blast
  have r3: "read_energy '' SCF Done\<newline>'' = NoEnergy"
    by (simp add: read_energy_def)
  have r4: "read_energy '' EUMP2 =    -0.10012345678901D+03\<newline>''
      = Energy (Finite True 5991239361899085 (- 41))"
    by (simp add: read_energy_def regex_eval parse_eval hartree_to_eV_def float_eval)
  have b: "energies_of [?good] = [Finite True 4787081512396771 (- 45)]"
    "messages_of [?good] = []"
    by (simp_all add: energies_of_def messages_of_def r1)
  have a: "energies_of [?stars, '' SCF Done\<newline>'', '' EUMP2 =    -0.10012345678901D+03\<newline>'']
      = [Finite True 5991239361899085 (- 41)]"
    "messages_of [?stars, '' SCF Done\<newline>'', '' EUMP2 =    -0.10012345678901D+03\<newline>''] = []"
    by (simp_all add: energies_of_def messages_of_def r2 r3 r4)
  from h t [of _ ?bad "''1-2''"
      "[?stars, '' SCF Done\<newline>'', '' EUMP2 =    -0.10012345678901D+03\<newline>'']" _ _ "[?good]"]
  have "extract_energies ([?good] @ ?bad
          # [?stars, '' SCF Done\<newline>'', '' EUMP2 =    -0.10012345678901D+03\<newline>''])
      = (energies_of [?good]
           @ energies_of [?stars, '' SCF Done\<newline>'', '' EUMP2 =    -0.10012345678901D+03\<newline>''],
         messages_of [?good]
           @ conversion_message (replace_char CHR ''D'' ''E'' ''1-2'')
           # messages_of [?stars, '' SCF Done\<newline>'', '' EUMP2 =    -0.10012345678901D+03\<newline>''])"
    by blast
  then have "extract_energies
       [?good, ?bad, ?stars, '' SCF Done\<newline>'', '' EUMP2 =    -0.10012345678901D+03\<newline>'']
     = ([Finite True 4787081512396771 (- 45), Finite True 5991239361899085 (- 41)],
        [''Error converting energy: 1-2 - could not convert string to float: '' @ apostrophe
           @ ''1-2'' @ apostrophe])"
    unfolding a b by (simp add: conversion_message_def replace_char_def)
  with h k n r1 r2 show ?thesis
    by blast
qed

text \<open>
  Claim C8 as stated fails: a line with the label whose payload does not parse as a
  float, but which the pattern does not match, is skipped and nothing is printed. An
  overflowed field of asterisks and the payload \<^verbatim>\<open>abc\<close> are such payloads.
\<close>

theorem extract_energies_unmatched_counterexample:
  "contains '' EUMP2 =    ****************\<newline>'' ''EUMP2'' \<and>
   float_of_string ''****************'' = None \<and>
   contains '' EUMP2 = abc\<newline>'' ''EUMP2'' \<and>
   float_of_string ''abc'' = None \<and>
   extract_energies ['' EUMP2 =    ****************\<newline>'', '' EUMP2 = abc\<newline>''] = ([], [])"
  by (simp add: extract_energies_def regex_eval parse_eval)

section \<open>Properties of the validation of the parameters\<close>

lemma run_cells_keeps_runs:
  "list_all keeps_runs cs \<Longrightarrow> \<exists>ys. engine_runs (snd (run_cells cs s)) = engine_runs s @ ys"
proof (induction cs arbitrary: s)
  case Nil
  then show ?case by simp
next
  case (Cons c cs)
  then have c: "keeps_runs c" and cs: "list_all keeps_runs cs"
    by simp_all
  obtain e s' where cs': "c s = (e, s')"
    by (cases "c s")
  from c obtain ys where ys: "engine_runs s' = engine_runs s @ ys"
    unfolding keeps_runs_def using cs' by (metis snd_conv)
  show ?case
  proof (cases e)
    case None
    from Cons.IH [OF cs, of s'] obtain zs
      where "engine_runs (snd (run_cells cs s')) = engine_runs s' @ zs" by blast
    with ys cs' None show ?thesis by simp
  next
    case (Some err)
    with ys cs' show ?thesis by simp
  qed
qed

lemma run_cells_keeps_printed:
  "list_all keeps_printed cs \<Longrightarrow> \<exists>ys. printed (snd (run_cells cs s)) = printed s @ ys"
proof (induction cs arbitrary: s)
  case Nil
  then show ?case by simp
next
  case (Cons c cs)
  then have c: "keeps_printed c" and cs: "list_all keeps_printed cs"
    by simp_all
  obtain e s' where cs': "c s = (e, s')"
    by (cases "c s")
  from c obtain ys where ys: "printed s' = printed s @ ys"
    unfolding keeps_printed_def using cs' by (metis snd_conv)
  show ?case
  proof (cases e)
    case None
    from Cons.IH [OF cs, of s'] obtain zs
      where "printed (snd (run_cells cs s')) = printed s' @ zs" by blast
    with ys cs' None show ?thesis by simp
  next
    case (Some err)
    with ys cs' show ?thesis by simp
  qed
qed

lemma keeps_runs_cells:
  "keeps_runs (cell_check_scan_bond cfg w)" "keeps_runs (cell_validate cfg)"
  "keeps_runs (cell_opt_deck cfg w)" "keeps_runs (cell_run_opt w)" "keeps_runs cell_check_opt"
  "keeps_runs (cell_scan_deck cfg)" "keeps_runs (cell_update_scan_bond cfg)"
  "keeps_runs (cell_run_scan w)" "keeps_runs cell_check_scan" "keeps_runs cell_trajectory"
  "keeps_runs (cell_energies cfg)"
  unfolding keeps_runs_def
  by (auto simp: cell_check_scan_bond_def cell_validate_def cell_opt_deck_def cell_run_opt_def
      cell_check_opt_def cell_scan_deck_def cell_update_scan_bond_def cell_run_scan_def
      cell_check_scan_def cell_trajectory_def cell_energies_def Let_def
      split: sum.splits option.splits list.splits prod.splits)

lemma keeps_printed_cells:
  "keeps_printed (cell_check_scan_bond cfg w)" "keeps_printed (cell_validate cfg)"
  "keeps_printed (cell_opt_deck cfg w)" "keeps_printed (cell_run_opt w)" "keeps_printed cell_check_opt"
  "keeps_printed (cell_scan_deck cfg)" "keeps_printed (cell_update_scan_bond cfg)"
  "keeps_printed (cell_run_scan w)" "keeps_printed cell_check_scan" "keeps_printed cell_trajectory"
  "keeps_printed (cell_energies cfg)"
  unfolding keeps_printed_def
  by (auto simp: cell_check_scan_bond_def cell_validate_def cell_opt_deck_def cell_run_opt_def
      cell_check_opt_def cell_scan_deck_def cell_update_scan_bond_def cell_run_scan_def
      cell_check_scan_def cell_trajectory_def cell_energies_def Let_def
      split: sum.splits option.splits list.splits prod.splits)


lemma validate_parameters_valid:
  "validate_parameters lb ub n = Inr () \<longleftrightarrow> \<not> invalid_parameters lb ub n"
  by (simp add: validate_parameters_def invalid_parameters_def)

lemma validate_parameters_invalid:
  "invalid_parameters lb ub n \<Longrightarrow> \<exists>msg. validate_parameters lb ub n = Inl (ValueError msg)"
  by (auto simp: validate_parameters_def invalid_parameters_def)

lemma first_four_cells:
  assumes v: "validation_cell (lower_bound cfg) (upper_bound cfg) (scan_step_number cfg) = Inr out"
    and b: "check_scan_bond (scan_bond cfg) (readlines (geom_file w)) = Inr ()"
  shows "\<exists>s. run_cells [cell_check_scan_bond cfg w, cell_validate cfg, cell_opt_deck cfg w,
                 cell_run_opt w] fresh = (None, s) \<and>
             printed s = out \<and> engine_runs s = [opt_deck cfg w]"
  using v b
  by (simp add: cell_check_scan_bond_def cell_validate_def cell_opt_deck_def cell_run_opt_def
      fresh_def opt_deck_def Let_def)

lemma run_cells_append:
  "run_cells (cs @ ds) s =
     (case run_cells cs s of (None, s') \<Rightarrow> run_cells ds s' | (Some e, s') \<Rightarrow> (Some e, s'))"
  by (induction cs arbitrary: s) (auto split: prod.splits option.splits)

lemma run_all_split:
  "run_all cfg w =
     run_cells ([cell_check_scan_bond cfg w, cell_validate cfg, cell_opt_deck cfg w, cell_run_opt w]
                @ [cell_check_opt, cell_scan_deck cfg, cell_update_scan_bond cfg, cell_run_scan w,
                   cell_check_scan, cell_trajectory, cell_energies cfg]) fresh"
  by (simp add: run_all_def cells_def)

lemma engine_is_run:
  assumes v: "validation_cell (lower_bound cfg) (upper_bound cfg) (scan_step_number cfg) = Inr out"
    and b: "check_scan_bond (scan_bond cfg) (readlines (geom_file w)) = Inr ()"
  shows "\<exists>e s ys zs. run_all cfg w = (e, s) \<and> printed s = out @ ys \<and>
           engine_runs s = opt_deck cfg w # zs"
proof -
  let ?rest = "[cell_check_opt, cell_scan_deck cfg, cell_update_scan_bond cfg, cell_run_scan w,
                   cell_check_scan, cell_trajectory, cell_energies cfg]"
  from first_four_cells [OF v b] obtain s4 where
    s4: "run_cells [cell_check_scan_bond cfg w, cell_validate cfg, cell_opt_deck cfg w,
                 cell_run_opt w] fresh = (None, s4)"
    "printed s4 = out" "engine_runs s4 = [opt_deck cfg w]"
    by blast
  have r: "run_all cfg w = run_cells ?rest s4"
    unfolding run_all_split run_cells_append s4(1) by simp
  have "list_all keeps_runs ?rest" "list_all keeps_printed ?rest"
    by (simp_all add: keeps_runs_cells keeps_printed_cells)
  then obtain zs ys where
    "engine_runs (snd (run_cells ?rest s4)) = engine_runs s4 @ zs"
    "printed (snd (run_cells ?rest s4)) = printed s4 @ ys"
    using run_cells_keeps_runs [of ?rest s4] run_cells_keeps_printed [of ?rest s4] by blast
  with s4 r show ?thesis
    by (cases "run_cells ?rest s4") auto
qed

text \<open>
  Claim C9. \<open>validate_parameters\<close> returns normally exactly for parameters that are not
  invalid. For invalid parameters it raises a \<^verbatim>\<open>ValueError\<close>; the cell that calls it
  catches it and prints \<^verbatim>\<open>Parameter validation error:\<close> with the message, raising
  nothing; and a run of all cells of a notebook with these parameters, once the scanned
  bond has been found in the geometry file, goes on to write the optimisation deck and
  to call the engine on it.
\<close>

theorem validation_error_is_only_printed:
  "(validate_parameters lb ub n = Inr () \<longleftrightarrow> \<not> invalid_parameters lb ub n) \<and>
   (invalid_parameters lb ub n \<longrightarrow>
      (\<exists>msg. validate_parameters lb ub n = Inl (ValueError msg) \<and>
             validation_cell lb ub n = Inr [''Parameter validation error: '' @ msg] \<and>
             (\<forall>cfg w. lower_bound cfg = lb \<and> upper_bound cfg = ub \<and> scan_step_number cfg = n \<and>
                  check_scan_bond (scan_bond cfg) (readlines (geom_file w)) = Inr () \<longrightarrow>
                  (\<exists>e s ys zs. run_all cfg w = (e, s) \<and>
                       printed s = (''Parameter validation error: '' @ msg) # ys \<and>
                       engine_runs s = opt_deck cfg w # zs))))"
proof (intro conjI impI)
  show "validate_parameters lb ub n = Inr () \<longleftrightarrow> \<not> invalid_parameters lb ub n"
    by (rule validate_parameters_valid)
next
  assume "invalid_parameters lb ub n"
  then obtain msg where msg: "validate_parameters lb ub n = Inl (ValueError msg)"
    using validate_parameters_invalid by blast
  then have c: "validation_cell lb ub n = Inr [''Parameter validation error: '' @ msg]"
    by (simp add: validation_cell_def)
  have "\<exists>e s ys zs. run_all cfg w = (e, s) \<and>
          printed s = (''Parameter validation error: '' @ msg) # ys \<and>
          engine_runs s = opt_deck cfg w # zs"
    if "lower_bound cfg = lb \<and> upper_bound cfg = ub \<and> scan_step_number cfg = n \<and>
        check_scan_bond (scan_bond cfg) (readlines (geom_file w)) = Inr ()" for cfg w
    using engine_is_run [of cfg "[''Parameter validation error: '' @ msg]" w] that c
    by auto
  with msg c show "\<exists>msg. validate_parameters lb ub n = Inl (ValueError msg) \<and>
             validation_cell lb ub n = Inr [''Parameter validation error: '' @ msg] \<and>
             (\<forall>cfg w. lower_bound cfg = lb \<and> upper_bound cfg = ub \<and> scan_step_number cfg = n \<and>
                  check_scan_bond (scan_bond cfg) (readlines (geom_file w)) = Inr () \<longrightarrow>
                  (\<exists>e s ys zs. run_all cfg w = (e, s) \<and>
                       printed s = (''Parameter validation error: '' @ msg) # ys \<and>
                       engine_runs s = opt_deck cfg w # zs))"
    by blast
qed


theorem validation_error_is_only_printed_witness:
  "invalid_parameters (PyFloat (round64 False 7 10)) (PyFloat (round64 False 1 2)) (PyInt 105) \<and>
   validate_parameters (PyFloat (round64 False 7 10)) (PyFloat (round64 False 1 2)) (PyInt 105)
     = Inl (ValueError ''upper_bound must be larger than lower_bound'') \<and>
   (\<exists>e s ys zs.
      run_all (user_input\<lparr>upper_bound := PyFloat (round64 False 1 2)\<rparr>)
        \<lparr>geom_file = ''# opt\<newline>\<newline>h3f\<newline>\<newline>0 1\<newline> F\<newline> H 1 B4\<newline>\<newline> B4 1.40000000\<newline>'',
         basisset_file = ''H 0\<newline>S 1 1.00\<newline>'', engine = (\<lambda>deck. None)\<rparr> = (e, s) \<and>
      printed s = ''Parameter validation error: upper_bound must be larger than lower_bound'' # ys \<and>
      engine_runs s =
        opt_deck (user_input\<lparr>upper_bound := PyFloat (round64 False 1 2)\<rparr>)
          \<lparr>geom_file = ''# opt\<newline>\<newline>h3f\<newline>\<newline>0 1\<newline> F\<newline> H 1 B4\<newline>\<newline> B4 1.40000000\<newline>'',
           basisset_file = ''H 0\<newline>S 1 1.00\<newline>'', engine = (\<lambda>deck. None)\<rparr> # zs)"
proof -
  let ?cfg = "user_input\<lparr>upper_bound := PyFloat (round64 False 1 2)\<rparr>"
  let ?w = "\<lparr>geom_file = ''# opt\<newline>\<newline>h3f\<newline>\<newline>0 1\<newline> F\<newline> H 1 B4\<newline>\<newline> B4 1.40000000\<newline>'',
         basisset_file = ''H 0\<newline>S 1 1.00\<newline>'', engine = (\<lambda>deck. None)\<rparr>"
  have inv: "invalid_parameters (PyFloat (round64 False 7 10)) (PyFloat (round64 False 1 2)) (PyInt 105)"
    by (simp add: invalid_parameters_def num_eval float_eval)
  have val: "validate_parameters (PyFloat (round64 False 7 10)) (PyFloat (round64 False 1 2)) (PyInt 105)
     = Inl (ValueError ''upper_bound must be larger than lower_bound'')"
    by (simp add: validate_parameters_def num_eval float_eval)
  have chk: "check_scan_bond (scan_bond ?cfg) (readlines (geom_file ?w)) = Inr ()"
    by (simp add: check_scan_bond_def user_input_def readlines_def text_eval split_ws_def)
  have par: "lower_bound ?cfg = PyFloat (round64 False 7 10) \<and>
      upper_bound ?cfg = PyFloat (round64 False 1 2) \<and> scan_step_number ?cfg = PyInt 105"
    by (simp add: user_input_def)
  from validation_error_is_only_printed
    [of "PyFloat (round64 False 7 10)" "PyFloat (round64 False 1 2)" "PyInt 105"] inv
  obtain msg where
    m: "validate_parameters (PyFloat (round64 False 7 10)) (PyFloat (round64 False 1 2)) (PyInt 105)
          = Inl (ValueError msg)"
    and r: "\<forall>cfg w. lower_bound cfg = PyFloat (round64 False 7 10) \<and>
                upper_bound cfg = PyFloat (round64 False 1 2) \<and> scan_step_number cfg = PyInt 105 \<and>
                check_scan_bond (scan_bond cfg) (readlines (geom_file w)) = Inr () \<longrightarrow>
                (\<exists>e s ys zs. run_all cfg w = (e, s) \<and>
                     printed s = (''Parameter validation error: '' @ msg) # ys \<and>
                     engine_runs s = opt_deck cfg w # zs)"
    by blast
  from m val have msg: "msg = ''upper_bound must be larger than lower_bound''"
    by simp
  from r par chk have "\<exists>e s ys zs. run_all ?cfg ?w = (e, s) \<and>
                     printed s = (''Parameter validation error: '' @ msg) # ys \<and>
                     engine_runs s = opt_deck ?cfg ?w # zs"
    by blast
  then have "\<exists>e s ys zs. run_all ?cfg ?w = (e, s) \<and>
      printed s = ''Parameter validation error: upper_bound must be larger than lower_bound'' # ys \<and>
      engine_runs s = opt_deck ?cfg ?w # zs"
    unfolding msg by simp
  with inv val show ?thesis
    by blast
qed

section \<open>Properties of the trajectory\<close>

lemma read_table_Cons:
  "read_table (line # lines) =
     (if separator_line line then Inr []
      else if data_line line then
        (case int_of_string (split_ws line ! 1) of
           None \<Rightarrow> Inl (LiteralError (split_ws line ! 1))
         | Some atomic_number \<Rightarrow>
             (case read_table lines of
                Inl e \<Rightarrow> Inl e
              | Inr block_data \<Rightarrow> Inr (atom_record line # block_data)))
      else read_table lines)"
  by (auto simp add: separator_line_def data_line_def atom_record_def Let_def
      split: option.splits sum.splits)

lemma read_table_records:
  "read_table lines = Inr records \<Longrightarrow>
     records = map atom_record (filter data_line (takeWhile (\<lambda>l. \<not> separator_line l) lines))"
proof (induction lines arbitrary: records)
  case Nil
  then show ?case by simp
next
  case (Cons line lines)
  then show ?case
    by (auto simp add: read_table_Cons simp del: read_table.simps(2)
        split: if_splits option.splits sum.splits)
qed

lemma str_nat_nonempty: "str_nat n \<noteq> []"
  by (subst str_nat.simps) simp

lemma digit_char_zero: "n < 10 \<Longrightarrow> digit_char n = CHR ''0'' \<Longrightarrow> n = 0"
  by (simp add: digit_char_def nth_Cons' split: if_splits)

lemma str_nat_zero: "str_nat n = ''0'' \<Longrightarrow> n = 0"
proof (cases "n < 10")
  case True
  assume "str_nat n = ''0''"
  with True have "digit_char n = CHR ''0''"
    by (subst (asm) str_nat.simps) simp
  with True show ?thesis
    by (rule digit_char_zero)
next
  case False
  assume z: "str_nat n = ''0''"
  from False have "str_nat n = str_nat (n div 10) @ [digit_char n]"
    by (subst str_nat.simps) simp
  with z have "str_nat (n div 10) = []"
    by simp
  with str_nat_nonempty show ?thesis
    by blast
qed

lemma scan_tables_blocks:
  "scan_tables lines = Inr blocks \<Longrightarrow> \<forall>b\<in>set blocks. b \<noteq> []"
proof (induction lines arbitrary: blocks)
  case Nil
  then show ?case by simp
next
  case (Cons line lines)
  then show ?case
    by (auto split: if_splits sum.splits)
qed

lemma startswith_append: "startswith (p @ s) p"
  by (induction p) simp_all

text \<open>
  Claim C10. In a table of the log, a line that is not the separator and has fewer than
  six fields is ignored; the records of a table are those of its lines with six fields or
  more, up to the separator. A table without a record adds no block. So every
  block of the trajectory output has a record, and its first line, the number of its
  records, is never \<^verbatim>\<open>0\<close>.
\<close>

theorem trajectory_blocks:
  "(\<not> separator_line line \<and> \<not> data_line line \<longrightarrow> read_table (line # rest) = read_table rest) \<and>
   (read_table rest = Inr records \<longrightarrow>
      records = map atom_record (filter data_line (takeWhile (\<lambda>l. \<not> separator_line l) rest))) \<and>
   (contains line ''Standard orientation:'' \<and> read_table (drop 4 rest) = Inr [] \<longrightarrow>
      scan_tables (line # rest) = scan_tables rest) \<and>
   (scan_tables lines = Inr blocks \<longrightarrow>
      extract_data_from_log lines = Inr (concat (map (\<lambda>b. block_text b @ ''\<newline>'') blocks)) \<and>
      (\<forall>b\<in>set blocks. b \<noteq> [] \<and> str_nat (length b) \<noteq> ''0'' \<and>
         block_text b = str_nat (length b) @ ''\<newline>\<newline>'' @ join ''\<newline>'' b))"
proof (intro conjI impI ballI)
  assume "\<not> separator_line line \<and> \<not> data_line line"
  then show "read_table (line # rest) = read_table rest"
    by (simp add: read_table_Cons del: read_table.simps(2))
next
  assume "read_table rest = Inr records"
  then show "records = map atom_record (filter data_line (takeWhile (\<lambda>l. \<not> separator_line l) rest))"
    by (rule read_table_records)
next
  assume "contains line ''Standard orientation:'' \<and> read_table (drop 4 rest) = Inr []"
  then show "scan_tables (line # rest) = scan_tables rest"
    by (simp split: sum.splits)
next
  assume s: "scan_tables lines = Inr blocks"
  then show "extract_data_from_log lines = Inr (concat (map (\<lambda>b. block_text b @ ''\<newline>'') blocks))"
    by (simp add: extract_data_from_log_def)
  fix b
  assume "b \<in> set blocks"
  with s show b: "b \<noteq> []"
    using scan_tables_blocks by blast
  then have "length b \<noteq> 0"
    by simp
  then show "str_nat (length b) \<noteq> ''0''"
    using str_nat_zero by blast
  show "block_text b = str_nat (length b) @ ''\<newline>\<newline>'' @ join ''\<newline>'' b"
    by (simp add: block_text_def)
qed

lemmas traj_eval =
  separator_line_def data_line_def atom_record_def element_def periodic_table_def split_ws_def
  Let_def int_eval text_eval

theorem trajectory_blocks_witness:
  "\<not> separator_line ''Rotational constants\<newline>'' \<and> \<not> data_line ''Rotational constants\<newline>'' \<and>
   read_table [''Rotational constants\<newline>'', ''  1   9   0   0.0   0.0   0.1\<newline>'', '' -----\<newline>'']
     = read_table [''  1   9   0   0.0   0.0   0.1\<newline>'', '' -----\<newline>''] \<and>
   read_table [''  1   9   0   0.0   0.0   0.1\<newline>'', '' -----\<newline>''] = Inr [''F 0.0 0.0 0.1''] \<and>
   [''F 0.0 0.0 0.1'']
     = map atom_record (filter data_line (takeWhile (\<lambda>l. \<not> separator_line l)
         [''  1   9   0   0.0   0.0   0.1\<newline>'', '' -----\<newline>''])) \<and>
   contains '' Standard orientation:\<newline>'' ''Standard orientation:'' \<and>
   read_table (drop 4 ['' ---\<newline>'', '' Center\<newline>'', '' Number\<newline>'', '' ---\<newline>'', '' ---\<newline>'']) = Inr [] \<and>
   scan_tables ['' Standard orientation:\<newline>'', '' ---\<newline>'', '' Center\<newline>'', '' Number\<newline>'',
                '' ---\<newline>'', '' ---\<newline>'']
     = scan_tables ['' ---\<newline>'', '' Center\<newline>'', '' Number\<newline>'', '' ---\<newline>'', '' ---\<newline>''] \<and>
   scan_tables ['' Standard orientation:\<newline>'', '' ---\<newline>'', '' Center\<newline>'', '' Number\<newline>'',
                '' ---\<newline>'', ''  1   9   0   0.0   0.0   0.1\<newline>'',
                ''  2   1   0   0.0   0.0   -0.9\<newline>'', '' -----\<newline>'']
     = Inr [[''F 0.0 0.0 0.1'', ''H 0.0 0.0 -0.9'']] \<and>
   extract_data_from_log
       ['' Standard orientation:\<newline>'', '' ---\<newline>'', '' Center\<newline>'', '' Number\<newline>'',
        '' ---\<newline>'', ''  1   9   0   0.0   0.0   0.1\<newline>'',
        ''  2   1   0   0.0   0.0   -0.9\<newline>'', '' -----\<newline>'']
     = Inr ''2\<newline>\<newline>F 0.0 0.0 0.1\<newline>H 0.0 0.0 -0.9\<newline>''"
proof -
  let ?short = "''Rotational constants\<newline>''"
  let ?tab = "[''  1   9   0   0.0   0.0   0.1\<newline>'', '' -----\<newline>'']"
  let ?empty = "['' ---\<newline>'', '' Center\<newline>'', '' Number\<newline>'', '' ---\<newline>'', '' ---\<newline>'']"
  let ?log = "['' Standard orientation:\<newline>'', '' ---\<newline>'', '' Center\<newline>'', '' Number\<newline>'',
        '' ---\<newline>'', ''  1   9   0   0.0   0.0   0.1\<newline>'',
        ''  2   1   0   0.0   0.0   -0.9\<newline>'', '' -----\<newline>'']"
  have a: "\<not> separator_line ?short \<and> \<not> data_line ?short"
    by (simp add: traj_eval)
  have b: "read_table ?tab = Inr [''F 0.0 0.0 0.1'']"
    by (simp add: traj_eval)
  have c: "contains '' Standard orientation:\<newline>'' ''Standard orientation:'' \<and> read_table (drop 4 ?empty) = Inr []"
    by (simp add: traj_eval)
  have d: "scan_tables ?log = Inr [[''F 0.0 0.0 0.1'', ''H 0.0 0.0 -0.9'']]"
    by (simp add: traj_eval)
  have e: "concat (map (\<lambda>b. block_text b @ ''\<newline>'') [[''F 0.0 0.0 0.1'', ''H 0.0 0.0 -0.9'']])
      = ''2\<newline>\<newline>F 0.0 0.0 0.1\<newline>H 0.0 0.0 -0.9\<newline>''"
    by (simp add: block_text_def str_nat.simps digit_char_def)
  from trajectory_blocks [of ?short ?tab] a
  have 1: "read_table (?short # ?tab) = read_table ?tab"
    by blast
  from trajectory_blocks [of _ ?tab "[''F 0.0 0.0 0.1'']"] b
  have 2: "[''F 0.0 0.0 0.1'']
     = map atom_record (filter data_line (takeWhile (\<lambda>l. \<not> separator_line l) ?tab))"
    by blast
  from trajectory_blocks [of "'' Standard orientation:\<newline>''" ?empty] c
  have 3: "scan_tables ('' Standard orientation:\<newline>'' # ?empty) = scan_tables ?empty"
    by blast
  from trajectory_blocks [of _ _ _ ?log "[[''F 0.0 0.0 0.1'', ''H 0.0 0.0 -0.9'']]"] d
  have 4: "extract_data_from_log ?log
      = Inr (concat (map (\<lambda>b. block_text b @ ''\<newline>'') [[''F 0.0 0.0 0.1'', ''H 0.0 0.0 -0.9'']]))"
    by blast
  from a 1 b 2 c 3 d 4 [unfolded e] show ?thesis
    by blast
qed

section \<open>The file of distances and energies\<close>

text \<open>
  An integer below \<open>2 ^ 1023\<close> converts to a float: no \<^verbatim>\<open>OverflowError\<close>.
\<close>

lemma digit_length_le: "n < b ^ k \<Longrightarrow> digit_length b n \<le> k"
proof (induction k arbitrary: n)
  case 0
  then have "n = 0" by simp
  then show ?case by (simp add: digit_length_0)
next
  case (Suc k)
  show ?case
  proof (cases "n = 0 \<or> b < 2")
    case True
    then show ?thesis
      by (subst digit_length.simps) simp
  next
    case False
    then have b: "0 < b" by simp
    from Suc.prems have "n < b ^ k * b" by (simp add: mult.commute)
    with b have "n div b < b ^ k"
      by (simp add: less_mult_imp_div_less)
    then have "digit_length b (n div b) \<le> k"
      by (rule Suc.IH)
    with False show ?thesis
      by (subst digit_length.simps) simp
  qed
qed

lemma digit_length_one: "digit_length 2 (Suc 0) = Suc 0"
  by (simp add: digit_length_1)

lemma ilog_le: "ilog b n d \<le> int (digit_length b n) - int (digit_length b d)"
  by (simp add: ilog_def Let_def split: prod.splits)

lemma round64_unfold:
  "round64 s n d =
     (if n = 0 then Finite s 0 (- 1074)
      else if 971 < (if round_half_even (fst (shift_ratio 2 n d (max (ilog 2 n d - 52) (- 1074))))
                          (snd (shift_ratio 2 n d (max (ilog 2 n d - 52) (- 1074)))) = 2 ^ 53
                     then max (ilog 2 n d - 52) (- 1074) + 1 else max (ilog 2 n d - 52) (- 1074))
      then Infinity s
      else Finite s
             (if round_half_even (fst (shift_ratio 2 n d (max (ilog 2 n d - 52) (- 1074))))
                   (snd (shift_ratio 2 n d (max (ilog 2 n d - 52) (- 1074)))) = 2 ^ 53
              then 2 ^ 52
              else round_half_even (fst (shift_ratio 2 n d (max (ilog 2 n d - 52) (- 1074))))
                     (snd (shift_ratio 2 n d (max (ilog 2 n d - 52) (- 1074)))))
             (if round_half_even (fst (shift_ratio 2 n d (max (ilog 2 n d - 52) (- 1074))))
                   (snd (shift_ratio 2 n d (max (ilog 2 n d - 52) (- 1074)))) = 2 ^ 53
              then max (ilog 2 n d - 52) (- 1074) + 1 else max (ilog 2 n d - 52) (- 1074)))"
  unfolding round64_def Let_def
  by (cases "shift_ratio 2 n d (max (ilog 2 n d - 52) (- 1074))") (auto simp: max_def)

lemma round64_in_range:
  assumes "n < 2 ^ 1023"
  shows "\<exists>m e. round64 s n 1 = Finite s m e"
proof -
  from assms have "digit_length 2 n \<le> 1023"
    by (rule digit_length_le)
  with ilog_le [of 2 n 1] have "ilog 2 n 1 \<le> 1022"
    by (simp add: digit_length_one)
  then have "max (ilog 2 n 1 - 52) (- 1074) \<le> 970"
    by simp
  then show ?thesis
    by (subst round64_unfold) auto
qed

lemma float_of_int_in_range:
  assumes "i < 2 ^ 1023"
  shows "float_of_int (int i) = Inr (round64 False i 1)"
proof -
  from round64_in_range [OF assms, of False] obtain m e where "round64 False i 1 = Finite False m e"
    by blast
  then show ?thesis
    by (simp add: float_of_int_def)
qed

lemma collect_map:
  "(\<And>x. x \<in> set xs \<Longrightarrow> f x = Inr (g x)) \<Longrightarrow> collect (map f xs) = Inr (map g xs)"
  by (induction xs) simp_all


lemma distance_in_range:
  "i < 2 ^ 1023 \<Longrightarrow> distance (Some mn) (Some sz) i = Inr (distance_at mn sz i)"
  by (simp add: distance_def distance_at_def float_of_int_in_range)

lemma distances_in_range:
  assumes "0 \<le> n" "n < 2 ^ 1023"
  shows "distances (Some mn) (Some sz) (PyInt n) = Inr (map (distance_at mn sz) [0 ..< nat n + 1])"
proof -
  from assms have "nat n < 2 ^ 1023"
    by (simp add: nat_less_iff)
  have "distance (Some mn) (Some sz) i = Inr (distance_at mn sz i)"
    if "i \<in> set [0 ..< nat n + 1]" for i
  proof (rule distance_in_range)
    from that have "i \<le> nat n"
      by auto
    then show "i < 2 ^ 1023"
      using \<open>nat n < 2 ^ 1023\<close> by (rule le_less_trans)
  qed
  then have "collect (map (distance (Some mn) (Some sz)) [0 ..< nat n + 1])
      = Inr (map (distance_at mn sz) [0 ..< nat n + 1])"
    by (rule collect_map)
  moreover from assms have "nat (n + 1) = nat n + 1"
    by simp
  ultimately show ?thesis
    by (simp add: distances_def)
qed

text \<open>
  Claim C2, as amended. For every energy sequence and every step count \<open>N\<close> from \<open>0\<close>
  up to the integers that convert to a float, the list of distances computed by
  \<open>write_energies_to_file\<close> has exactly \<open>N + 1\<close> entries, the distance of index \<open>i\<close>
  being \<^verbatim>\<open>minimum_dist + i * step_size\<close>; the file has one line for each pair of
  \<^verbatim>\<open>zip(distances, energies)\<close>: \<open>min (N + 1) (length energies)\<close> lines, line \<open>i\<close> holding
  the distance of index \<open>i\<close> and the energy of index \<open>i\<close>. For a negative step count the
  file is empty.
\<close>

theorem write_energies_zip:
  "(0 \<le> n \<and> n < 2 ^ 1023 \<longrightarrow>
      distances (Some mn) (Some sz) (PyInt n) = Inr (map (distance_at mn sz) [0 ..< nat n + 1]) \<and>
      length (map (distance_at mn sz) [0 ..< nat n + 1]) = nat n + 1 \<and>
      write_energies_to_file energies (Some mn) (Some sz) (PyInt n)
        = Inr (map energy_line (zip (map (distance_at mn sz) [0 ..< nat n + 1]) energies)) \<and>
      length (map energy_line (zip (map (distance_at mn sz) [0 ..< nat n + 1]) energies))
        = min (nat n + 1) (length energies) \<and>
      (\<forall>i < min (nat n + 1) (length energies).
         map energy_line (zip (map (distance_at mn sz) [0 ..< nat n + 1]) energies) ! i
           = float_repr (distance_at mn sz i) @ '' '' @ float_repr (energies ! i) @ ''\<newline>'')) \<and>
   (n < 0 \<longrightarrow> write_energies_to_file energies (Some mn) (Some sz) (PyInt n) = Inr [])"
proof (intro conjI impI allI)
  assume n: "0 \<le> n \<and> n < 2 ^ 1023"
  then show d: "distances (Some mn) (Some sz) (PyInt n)
      = Inr (map (distance_at mn sz) [0 ..< nat n + 1])"
    by (simp add: distances_in_range)
  show "length (map (distance_at mn sz) [0 ..< nat n + 1]) = nat n + 1"
    by simp
  from d show "write_energies_to_file energies (Some mn) (Some sz) (PyInt n)
        = Inr (map energy_line (zip (map (distance_at mn sz) [0 ..< nat n + 1]) energies))"
    by (simp add: write_energies_to_file_def)
  show "length (map energy_line (zip (map (distance_at mn sz) [0 ..< nat n + 1]) energies))
        = min (nat n + 1) (length energies)"
    by simp
  fix i
  assume "i < min (nat n + 1) (length energies)"
  then show "map energy_line (zip (map (distance_at mn sz) [0 ..< nat n + 1]) energies) ! i
           = float_repr (distance_at mn sz i) @ '' '' @ float_repr (energies ! i) @ ''\<newline>''"
    by (simp add: energy_line_def del: upt_Suc)
next
  assume "n < 0"
  then show "write_energies_to_file energies (Some mn) (Some sz) (PyInt n) = Inr []"
    by (simp add: write_energies_to_file_def distances_def)
qed


lemma grid_exponents:
  "decimal_exponent 4503599627370496 (- 52) = 0"
  "decimal_exponent 6755399441055744 (- 52) = 0"
  "decimal_exponent 4503599627370496 (- 51) = 0"
  "decimal_exponent 5629499534213120 (- 50) = 0"
  by (simp_all add: repr_eval float_eval)

lemma grid_digits:
  "digits_at 4503599627370496 (- 52) 0 1 = Some (1, 0)"
  "digits_at 6755399441055744 (- 52) 0 1 = None"
  "digits_at 6755399441055744 (- 52) 0 2 = Some (15, - 1)"
  "digits_at 4503599627370496 (- 51) 0 1 = Some (2, 0)"
  "digits_at 5629499534213120 (- 50) 0 1 = Some (5, 0)"
  by (simp_all add: repr_eval float_eval)

lemma grid_shortest:
  "shortest_digits 4503599627370496 (- 52) = (1, 0)"
  "shortest_digits 6755399441055744 (- 52) = (15, - 1)"
  "shortest_digits 4503599627370496 (- 51) = (2, 0)"
  "shortest_digits 5629499534213120 (- 50) = (5, 0)"
  unfolding shortest_digits_def grid_exponents
  by (simp_all only: first_digits_skip grid_digits first_digits_take [OF grid_digits(1)]
      first_digits_take [OF grid_digits(3)] first_digits_take [OF grid_digits(4)]
      first_digits_take [OF grid_digits(5)])

lemma grid_repr:
  "float_repr (Finite False 4503599627370496 (- 52)) = ''1.0''"
  "float_repr (Finite False 6755399441055744 (- 52)) = ''1.5''"
  "float_repr (Finite False 4503599627370496 (- 51)) = ''2.0''"
  "float_repr (Finite True 5629499534213120 (- 50)) = ''-5.0''"
  by (simp_all add: float_repr_def grid_shortest layout_repr_def strip_zeros_numeral
      strip_zeros_1 str_eval)

lemma grid_points:
  "distance_at (Finite False 4503599627370496 (- 52)) (Finite False 4503599627370496 (- 53)) 0
     = Finite False 4503599627370496 (- 52)"
  "distance_at (Finite False 4503599627370496 (- 52)) (Finite False 4503599627370496 (- 53)) 1
     = Finite False 6755399441055744 (- 52)"
  "distance_at (Finite False 4503599627370496 (- 52)) (Finite False 4503599627370496 (- 53)) 2
     = Finite False 4503599627370496 (- 51)"
  "distance_at (Finite False 4503599627370496 (- 52)) (Finite False 4503599627370496 (- 53)) (Suc 0)
     = Finite False 6755399441055744 (- 52)"
  by (simp_all add: distance_at_def float_eval)

lemma grid_indices: "[0 ..< nat 2 + 1] = [0, 1, 2]"
  by (simp add: upt_rec)

text \<open>
  The theorem at the step count \<open>2\<close>, the minimum \<^verbatim>\<open>1.0\<close>, the step size \<^verbatim>\<open>0.5\<close> and four
  energies, and at the step count \<open>-1\<close>.
\<close>

theorem write_energies_zip_witness:
  "(0::int) \<le> 2 \<and> (2::int) < 2 ^ 1023 \<and>
   distances (Some (Finite False 4503599627370496 (- 52)))
       (Some (Finite False 4503599627370496 (- 53))) (PyInt 2)
     = Inr [Finite False 4503599627370496 (- 52), Finite False 6755399441055744 (- 52),
            Finite False 4503599627370496 (- 51)] \<and>
   write_energies_to_file
       [Finite True 5629499534213120 (- 50), Finite True 5629499534213120 (- 50),
        Finite True 5629499534213120 (- 50), Finite True 5629499534213120 (- 50)]
       (Some (Finite False 4503599627370496 (- 52)))
       (Some (Finite False 4503599627370496 (- 53))) (PyInt 2)
     = Inr [''1.0 -5.0\<newline>'', ''1.5 -5.0\<newline>'', ''2.0 -5.0\<newline>''] \<and>
   (- 1::int) < 0 \<and>
   write_energies_to_file [Finite True 5629499534213120 (- 50)]
       (Some (Finite False 4503599627370496 (- 52)))
       (Some (Finite False 4503599627370496 (- 53))) (PyInt (- 1))
     = Inr []"
proof -
  have a: "(0::int) \<le> 2 \<and> (2::int) < 2 ^ 1023"
    by simp
  have b: "(- 1::int) < 0"
    by simp
  note t = write_energies_zip [of 2 "Finite False 4503599627370496 (- 52)"
      "Finite False 4503599627370496 (- 53)"
      "[Finite True 5629499534213120 (- 50), Finite True 5629499534213120 (- 50),
        Finite True 5629499534213120 (- 50), Finite True 5629499534213120 (- 50)]",
      unfolded grid_indices]
  from a t have c: "distances (Some (Finite False 4503599627370496 (- 52)))
       (Some (Finite False 4503599627370496 (- 53))) (PyInt 2)
     = Inr (map (distance_at (Finite False 4503599627370496 (- 52))
                   (Finite False 4503599627370496 (- 53))) [0, 1, 2])"
    by blast
  from a t have d: "write_energies_to_file
       [Finite True 5629499534213120 (- 50), Finite True 5629499534213120 (- 50),
        Finite True 5629499534213120 (- 50), Finite True 5629499534213120 (- 50)]
       (Some (Finite False 4503599627370496 (- 52)))
       (Some (Finite False 4503599627370496 (- 53))) (PyInt 2)
     = Inr (map energy_line
         (zip (map (distance_at (Finite False 4503599627370496 (- 52))
                     (Finite False 4503599627370496 (- 53))) [0, 1, 2])
            [Finite True 5629499534213120 (- 50), Finite True 5629499534213120 (- 50),
             Finite True 5629499534213120 (- 50), Finite True 5629499534213120 (- 50)]))"
    by blast
  from b write_energies_zip [of "- 1" "Finite False 4503599627370496 (- 52)"
      "Finite False 4503599627370496 (- 53)" "[Finite True 5629499534213120 (- 50)]"]
  have e: "write_energies_to_file [Finite True 5629499534213120 (- 50)]
       (Some (Finite False 4503599627370496 (- 52)))
       (Some (Finite False 4503599627370496 (- 53))) (PyInt (- 1))
     = Inr []"
    by blast
  show ?thesis
    unfolding c d e
    using a b by (simp add: grid_points energy_line_def grid_repr)
qed

text \<open>
  Claim C2 as stated fails: with the step count \<open>2\<close> and one energy the file has one
  line, and with no energy it has none, where the claim has three distances.
\<close>

theorem write_energies_fewer_energies_counterexample:
  "write_energies_to_file [Finite True 5629499534213120 (- 50)]
       (Some (Finite False 4503599627370496 (- 52)))
       (Some (Finite False 4503599627370496 (- 53))) (PyInt 2)
     = Inr [''1.0 -5.0\<newline>''] \<and>
   write_energies_to_file []
       (Some (Finite False 4503599627370496 (- 52)))
       (Some (Finite False 4503599627370496 (- 53))) (PyInt 2)
     = Inr []"
proof -
  have "distances (Some (Finite False 4503599627370496 (- 52)))
       (Some (Finite False 4503599627370496 (- 53))) (PyInt 2)
     = Inr [Finite False 4503599627370496 (- 52), Finite False 6755399441055744 (- 52),
            Finite False 4503599627370496 (- 51)]"
    using distances_in_range [of 2 "Finite False 4503599627370496 (- 52)"
      "Finite False 4503599627370496 (- 53)", unfolded grid_indices]
    by (simp add: grid_points)
  then show ?thesis
    by (simp add: write_energies_to_file_def energy_line_def grid_repr)
qed

section \<open>The distances of the scan and of the energy file\<close>

text \<open>What a cell that does not raise leaves, cell by cell.\<close>

lemma run_cells_Cons_ok:
  "run_cells (c # cs) s = (None, t) \<longleftrightarrow> (\<exists>s'. c s = (None, s') \<and> run_cells cs s' = (None, t))"
  by (cases "c s") (auto split: option.splits)







lemma cell_opt_deck_ok:
  "cell_opt_deck cfg w s = (None, t) \<Longrightarrow>
     \<exists>g b d. t = s\<lparr>input_geometry := g, basisset := b, opt_gjf := Some d\<rparr>"
  by (auto simp: cell_opt_deck_def Let_def)

lemma cell_run_opt_ok:
  "cell_run_opt w s = (None, t) \<Longrightarrow>
     \<exists>d. opt_gjf s = Some d \<and> t = s\<lparr>opt_log := engine w d, engine_runs := engine_runs s @ [d]\<rparr>"
  by (auto simp: cell_run_opt_def split: option.splits)

lemma cell_check_opt_ok:
  "cell_check_opt s = (None, t) \<Longrightarrow> \<exists>out. t = s\<lparr>printed := printed s @ [out]\<rparr>"
  by (auto simp: cell_check_opt_def split: option.splits sum.splits)

lemma cell_scan_deck_ok:
  "cell_scan_deck cfg s = (None, t) \<Longrightarrow> \<exists>d. t = s\<lparr>scan_gjf := Some d\<rparr>"
  by (auto simp: cell_scan_deck_def Let_def split: option.splits sum.splits list.splits)






















lemma example_geometry:
  "readlines ''#\<newline>\<newline>t\<newline>\<newline>0 1\<newline> F\<newline> H 1 B4\<newline>\<newline> B4 1.0\<newline>\<newline>''
     = [''#\<newline>'',
       ''\<newline>'',
       ''t\<newline>'',
       ''\<newline>'',
       ''0 1\<newline>'',
       '' F\<newline>'',
       '' H 1 B4\<newline>'',
       ''\<newline>'',
       '' B4 1.0\<newline>'',
       ''\<newline>'']"
  "check_scan_bond ''B4''
      [''#\<newline>'',
       ''\<newline>'',
       ''t\<newline>'',
       ''\<newline>'',
       ''0 1\<newline>'',
       '' F\<newline>'',
       '' H 1 B4\<newline>'',
       ''\<newline>'',
       '' B4 1.0\<newline>'',
       ''\<newline>''] = Inr ()"
  "read_geometry_block
      [''#\<newline>'',
       ''\<newline>'',
       ''t\<newline>'',
       ''\<newline>'',
       ''0 1\<newline>'',
       '' F\<newline>'',
       '' H 1 B4\<newline>'',
       ''\<newline>'',
       '' B4 1.0\<newline>'',
       ''\<newline>'']
     = [''0 1\<newline>'',
       '' F\<newline>'',
       '' H 1 B4\<newline>'',
       ''\<newline>'',
       '' B4 1.0\<newline>'']"
  "readlines ''b\<newline>'' = [''b\<newline>'']"
  "read_basis_set [''b\<newline>''] = [''\<newline>'',
       ''b\<newline>'',
       ''\<newline>'']"
  by (simp_all add: readlines_def check_scan_bond_def read_geometry_block_def pop_trailing_blank_eq
      read_basis_set_eq text_eval split_ws_def)










section \<open>The line of the scanned bond\<close>

lemma startswith_prefix: "startswith s (p @ q) \<Longrightarrow> startswith s p"
  by (induction s p rule: startswith.induct) auto

lemma names_bond_starts: "names_bond b line \<Longrightarrow> starts_with_bond b line"
  by (auto simp: names_bond_def starts_with_bond_def dest: startswith_prefix)

lemma unambiguous_iff:
  "unambiguous b deck \<Longrightarrow> line \<in> set deck \<Longrightarrow> starts_with_bond b line \<longleftrightarrow> names_bond b line"
  by (auto simp: unambiguous_def list_all_iff dest: names_bond_starts)

lemma find_scan_line_first:
  "i < length deck \<Longrightarrow> starts_with_bond b (deck ! i) \<Longrightarrow>
   (\<forall>j < i. \<not> starts_with_bond b (deck ! j)) \<Longrightarrow>
   find_scan_line b deck k = Some (k + i, split_ws (deck ! i) ! 1)"
proof (induction deck arbitrary: i k)
  case Nil
  then show ?case by simp
next
  case (Cons l deck)
  show ?case
  proof (cases i)
    case 0
    with Cons.prems show ?thesis
      by (simp add: starts_with_bond_def)
  next
    case (Suc i')
    with Cons.prems have l: "\<not> starts_with_bond b l"
      by auto
    from Suc Cons.prems have "i' < length deck" "starts_with_bond b (deck ! i')"
      "\<forall>j < i'. \<not> starts_with_bond b (deck ! j)"
      by auto
    from Cons.IH [OF this, of "Suc k"] l Suc show ?thesis
      by (auto simp: starts_with_bond_def)
  qed
qed

lemma find_scan_line_none:
  "(\<forall>line \<in> set deck. \<not> starts_with_bond b line) \<Longrightarrow> find_scan_line b deck k = None"
  by (induction deck arbitrary: k) (auto simp: starts_with_bond_def)

lemma bond_in_geometry_iff: "bond_in_geometry b ls \<longleftrightarrow> (\<exists>line \<in> set ls. names_bond b line)"
  by (induction ls) (auto simp: names_bond_def)


lemma find_scan_line_named:
  assumes u: "unambiguous b deck" and i: "i < length deck" and n: "names_bond b (deck ! i)"
    and f: "bond_absent b (take i deck)"
  shows "find_scan_line b deck 0 = Some (i, split_ws (deck ! i) ! 1)"
proof -
  from n have "starts_with_bond b (deck ! i)"
    by (rule names_bond_starts)
  moreover have "\<forall>j < i. \<not> starts_with_bond b (deck ! j)"
  proof (intro allI impI)
    fix j
    assume j: "j < i"
    with i have m: "deck ! j \<in> set deck"
      by simp
    from f i j have "\<not> names_bond b (deck ! j)"
      by (auto simp: bond_absent_def list_all_length)
    with unambiguous_iff [OF u m] show "\<not> starts_with_bond b (deck ! j)"
      by simp
  qed
  ultimately show ?thesis
    using find_scan_line_first [OF i, of b 0] by simp
qed

lemma find_scan_line_unnamed:
  assumes u: "unambiguous b deck" and f: "bond_absent b deck"
  shows "find_scan_line b deck 0 = None"
proof (rule find_scan_line_none, rule ballI)
  fix line
  assume m: "line \<in> set deck"
  with f have "\<not> names_bond b line"
    by (simp add: bond_absent_def list_all_iff)
  with unambiguous_iff [OF u m] show "\<not> starts_with_bond b line"
    by simp
qed

lemma check_stops_run:
  assumes "bond_absent (scan_bond cfg) (readlines (geom_file w))"
  shows "run_all cfg w
     = (Some (ValueError (''Error: Could not find the line starting with '' @ apostrophe
          @ scan_bond cfg @ apostrophe @ ''.\<newline> Please provide a valid bond to be scanned.'')),
        fresh)"
proof -
  from assms have "\<not> bond_in_geometry (scan_bond cfg) (readlines (geom_file w))"
    by (simp add: bond_in_geometry_iff bond_absent_def list_all_iff)
  then show ?thesis
    by (simp add: run_all_def cells_def cell_check_scan_bond_def check_scan_bond_def)
qed

lemma six_cells:
  "take 6 (cells cfg w)
     = [cell_check_scan_bond cfg w, cell_validate cfg, cell_opt_deck cfg w, cell_run_opt w,
        cell_check_opt, cell_scan_deck cfg]"
  "cells cfg w
     = take 6 (cells cfg w)
         @ [cell_update_scan_bond cfg, cell_run_scan w, cell_check_scan, cell_trajectory,
            cell_energies cfg]"
  by (simp_all add: cells_def)

lemma cell_check_scan_bond_ok: "cell_check_scan_bond cfg w s = (None, t) \<Longrightarrow> t = s"
  by (auto simp: cell_check_scan_bond_def split: sum.splits)

lemma cell_validate_ok: "cell_validate cfg s = (None, t) \<Longrightarrow> \<exists>out. t = s\<lparr>printed := printed s @ out\<rparr>"
  by (auto simp: cell_validate_def split: sum.splits)

lemma six_cells_runs:
  assumes "run_cells (take 6 (cells cfg w)) fresh = (None, s)"
  shows "engine_runs s = [opt_deck cfg w]"
proof -
  from assms obtain s1 s2 s3 s4 s5
    where c: "cell_check_scan_bond cfg w fresh = (None, s1)" "cell_validate cfg s1 = (None, s2)"
      "cell_opt_deck cfg w s2 = (None, s3)" "cell_run_opt w s3 = (None, s4)"
      "cell_check_opt s4 = (None, s5)" "cell_scan_deck cfg s5 = (None, s)"
    unfolding six_cells(1) run_cells_Cons_ok by auto
  from cell_check_scan_bond_ok [OF c(1)] have s1: "s1 = fresh" .
  from cell_validate_ok [OF c(2)] obtain out where s2: "s2 = s1\<lparr>printed := printed s1 @ out\<rparr>"
    by blast
  from c(3) have s3: "opt_gjf s3 = Some (opt_deck cfg w)" "engine_runs s3 = engine_runs s2"
    by (auto simp: cell_opt_deck_def opt_deck_def Let_def)
  from cell_run_opt_ok [OF c(4)] s3
  have s4: "engine_runs s4 = engine_runs s3 @ [opt_deck cfg w]"
    by auto
  from cell_check_opt_ok [OF c(5)] have s5: "engine_runs s5 = engine_runs s4"
    by auto
  from cell_scan_deck_ok [OF c(6)] have "engine_runs s = engine_runs s5"
    by auto
  with s5 s4 s3 s2 s1 show ?thesis
    by (simp add: fresh_def)
qed

lemma update_stops_run:
  assumes six: "run_cells (take 6 (cells cfg w)) fresh = (None, s)"
    and d: "scan_gjf s = Some d"
    and f: "find_scan_line (scan_bond cfg) (readlines d) 0 = None"
  shows "run_all cfg w
     = (Some (ValueError (not_found_message (scan_bond cfg))),
        s\<lparr>minimum_dist := None, step_size := None\<rparr>)"
proof -
  have "run_all cfg w
      = run_cells [cell_update_scan_bond cfg, cell_run_scan w, cell_check_scan, cell_trajectory,
            cell_energies cfg] s"
    unfolding run_all_def by (subst six_cells(2)) (simp add: run_cells_append six)
  also have "\<dots> = (Some (ValueError (not_found_message (scan_bond cfg))),
        s\<lparr>minimum_dist := None, step_size := None\<rparr>)"
    by (simp add: cell_update_scan_bond_def d update_scan_bond_def f not_found_message_def)
  finally show ?thesis .
qed

text \<open>
  Claim C3, as amended. In an unambiguous deck, one in which every two-field line whose
  stripped text starts with the name of the coordinate has a space after the name,
  \<open>update_scan_bond\<close> takes the first line whose stripped text starts with the name and a
  space and that has two fields, and reads the second field as the equilibrium distance.
  When the field is not a number the \<^verbatim>\<open>ValueError\<close> of \<^verbatim>\<open>float\<close> is raised and nothing
  is rewritten; when it is one, and the arithmetic succeeds, this line alone is replaced
  by the directive. When the deck has no such line, \<open>update_scan_bond\<close> raises the error
  that the line could not be found. In a run of the notebook this error comes after the
  engine has been run on the optimisation deck, and it ends the run; what is found before
  any run of the engine is that the geometry file has no such line: the first cell then
  ends the run, in the state before it.
\<close>

theorem update_scan_bond_named_line:
  "(unambiguous b deck \<and> i < length deck \<and> names_bond b (deck ! i) \<and>
    bond_absent b (take i deck) \<longrightarrow>
      find_scan_line b deck 0 = Some (i, split_ws (deck ! i) ! 1) \<and>
      (float_of_string (split_ws (deck ! i) ! 1) = None \<longrightarrow>
         update_scan_bond deck b lb ub sn
           = (None, None, Inl (LiteralError (split_ws (deck ! i) ! 1)))) \<and>
      (float_of_string (split_ws (deck ! i) ! 1) = Some eq \<and> float_mul_num eq lb = Inr mn \<and>
       float_mul_num eq ub = Inr mx \<and> float_truediv_num (float_sub mx mn) sn = Inr sz \<and>
       py_int sn = Inr n \<longrightarrow>
         update_scan_bond deck b lb ub sn
           = (Some mn, Some sz, Inr (deck[i := scan_line b mn n sz])))) \<and>
   (unambiguous b deck \<and> bond_absent b deck \<longrightarrow>
      update_scan_bond deck b lb ub sn = (None, None, Inl (ValueError (not_found_message b)))) \<and>
   (bond_absent (scan_bond cfg) (readlines (geom_file w)) \<longrightarrow>
      run_all cfg w
        = (Some (ValueError (''Error: Could not find the line starting with '' @ apostrophe
             @ scan_bond cfg @ apostrophe @ ''.\<newline> Please provide a valid bond to be scanned.'')),
           fresh) \<and>
      engine_runs fresh = []) \<and>
   (run_cells (take 6 (cells cfg w)) fresh = (None, s) \<and> scan_gjf s = Some d \<and>
    unambiguous (scan_bond cfg) (readlines d) \<and> bond_absent (scan_bond cfg) (readlines d) \<longrightarrow>
      run_all cfg w
        = (Some (ValueError (not_found_message (scan_bond cfg))),
           s\<lparr>minimum_dist := None, step_size := None\<rparr>) \<and>
      engine_runs s = [opt_deck cfg w])"
proof (intro conjI impI)
  {
    assume a: "unambiguous b deck \<and> i < length deck \<and> names_bond b (deck ! i) \<and>
      bond_absent b (take i deck)"
    then show f: "find_scan_line b deck 0 = Some (i, split_ws (deck ! i) ! 1)"
      by (intro find_scan_line_named) simp_all
    {
      assume "float_of_string (split_ws (deck ! i) ! 1) = None"
      with f show "update_scan_bond deck b lb ub sn
           = (None, None, Inl (LiteralError (split_ws (deck ! i) ! 1)))"
        by (simp add: update_scan_bond_def)
    }
    {
      assume "float_of_string (split_ws (deck ! i) ! 1) = Some eq \<and> float_mul_num eq lb = Inr mn \<and>
        float_mul_num eq ub = Inr mx \<and> float_truediv_num (float_sub mx mn) sn = Inr sz \<and>
        py_int sn = Inr n"
      with f show "update_scan_bond deck b lb ub sn
           = (Some mn, Some sz, Inr (deck[i := scan_line b mn n sz]))"
        by (simp add: update_scan_bond_def)
    }
  }
  {
    assume "unambiguous b deck \<and> bond_absent b deck"
    then have "find_scan_line b deck 0 = None"
      by (intro find_scan_line_unnamed) simp_all
    then show "update_scan_bond deck b lb ub sn = (None, None, Inl (ValueError (not_found_message b)))"
      by (simp add: update_scan_bond_def not_found_message_def)
  }
  {
    assume "bond_absent (scan_bond cfg) (readlines (geom_file w))"
    then show "run_all cfg w
        = (Some (ValueError (''Error: Could not find the line starting with '' @ apostrophe
             @ scan_bond cfg @ apostrophe @ ''.\<newline> Please provide a valid bond to be scanned.'')),
           fresh)"
      by (rule check_stops_run)
    show "engine_runs fresh = []"
      by (simp add: fresh_def)
  }
  {
    assume a: "run_cells (take 6 (cells cfg w)) fresh = (None, s) \<and> scan_gjf s = Some d \<and>
      unambiguous (scan_bond cfg) (readlines d) \<and> bond_absent (scan_bond cfg) (readlines d)"
    then have "find_scan_line (scan_bond cfg) (readlines d) 0 = None"
      by (intro find_scan_line_unnamed) simp_all
    with a show "run_all cfg w
        = (Some (ValueError (not_found_message (scan_bond cfg))),
           s\<lparr>minimum_dist := None, step_size := None\<rparr>)"
      by (intro update_stops_run) simp_all
    from a show "engine_runs s = [opt_deck cfg w]"
      by (intro six_cells_runs) simp
  }
qed


lemmas bond_eval = unambiguous_def bond_absent_def names_bond_def starts_with_bond_def text_eval split_ws_def

lemma example_directive:
  "scan_line ''B4'' (Finite False 8827055269646171 (- 53)) 105 (Finite False 8070450532247927 (- 59))
     = '' B4   0.98000000   105   0.013999999999999997\<newline>''"
  by (simp add: scan_line_def example_minimum_8f example_step_repr str_eval)

lemma unscanned_log:
  "readlines '' Final structure in terms of initial Z-matrix:\<newline> F\<newline> H,1,B4\<newline> Variables:\<newline> 1 1\<newline> Normal termination\<newline>''
     = ['' Final structure in terms of initial Z-matrix:\<newline>'',
       '' F\<newline>'',
       '' H,1,B4\<newline>'',
       '' Variables:\<newline>'',
       '' 1 1\<newline>'',
       '' Normal termination\<newline>'']"
  "check_opt_termination
      ['' Final structure in terms of initial Z-matrix:\<newline>'',
       '' F\<newline>'',
       '' H,1,B4\<newline>'',
       '' Variables:\<newline>'',
       '' 1 1\<newline>'',
       '' Normal termination\<newline>'']
     = Inr ''Geometry optimization completed successfully.''"
  "extract_optimized_structure
      ['' Final structure in terms of initial Z-matrix:\<newline>'',
       '' F\<newline>'',
       '' H,1,B4\<newline>'',
       '' Variables:\<newline>'',
       '' 1 1\<newline>'',
       '' Normal termination\<newline>'']
     = Inr ['' F\<newline>'',
       '' H   1   B4\<newline>'',
       ''\<newline>'']"
  by (simp_all add: readlines_def check_opt_termination_def normal_termination_def
      extract_optimized_structure_def modified_line_def replace_char_def starts_with_digit_def
      is_digit_def text_eval)

lemma unscanned_cells:
  "run_cells
      (take 6 (cells user_input
       \<lparr>geom_file = ''#\<newline>\<newline>t\<newline>\<newline>0 1\<newline> F\<newline> H 1 B4\<newline>\<newline> B4 1.0\<newline>\<newline>'',
        basisset_file = ''b\<newline>'',
        engine = map_of
          [(''%chk=h3f.chk\<newline>%mem=25GB\<newline>%nprocshared=6\<newline># ump2(full)/gen pseudo=read guess=mix scf=(maxcycle=500, yqc, tight) OPT(maxcycles=1000)\<newline>\<newline>Basis Set from basissetexchange.org:  Zr: cc-pVTZ-PP   F, H: cc-pVTZ\<newline>\<newline>0 1\<newline> F\<newline> H 1 B4\<newline>\<newline> B4 1.0\<newline>\<newline>b\<newline>\<newline>'',
            '' Final structure in terms of initial Z-matrix:\<newline> F\<newline> H,1,B4\<newline> Variables:\<newline> 1 1\<newline> Normal termination\<newline>'')]\<rparr>))
      fresh
     = (None,
       \<lparr>printed = [''Geometry optimization completed successfully.''],
        input_geometry = [''0 1\<newline>'',
          '' F\<newline>'',
          '' H 1 B4\<newline>'',
          ''\<newline>'',
          '' B4 1.0\<newline>''],
        basisset = [''\<newline>'',
       ''b\<newline>'',
       ''\<newline>''],
        opt_gjf = Some ''%chk=h3f.chk\<newline>%mem=25GB\<newline>%nprocshared=6\<newline># ump2(full)/gen pseudo=read guess=mix scf=(maxcycle=500, yqc, tight) OPT(maxcycles=1000)\<newline>\<newline>Basis Set from basissetexchange.org:  Zr: cc-pVTZ-PP   F, H: cc-pVTZ\<newline>\<newline>0 1\<newline> F\<newline> H 1 B4\<newline>\<newline> B4 1.0\<newline>\<newline>b\<newline>\<newline>'',
        opt_log = Some '' Final structure in terms of initial Z-matrix:\<newline> F\<newline> H,1,B4\<newline> Variables:\<newline> 1 1\<newline> Normal termination\<newline>'',
        scan_gjf = Some ''%chk=h3f.chk\<newline>%mem=25GB\<newline>%nprocshared=6\<newline># scan ump2(full)/gen pseudo=read guess=mix scf=(maxcycle=500, yqc, tight)\<newline>\<newline>Basis Set from basissetexchange.org:  Zr: cc-pVTZ-PP   F, H: cc-pVTZ\<newline>\<newline>0 1\<newline> F\<newline> H   1   B4\<newline>\<newline>\<newline>b\<newline>\<newline>'',
        scan_log = None, minimum_dist = None, step_size = None,
        engine_runs = [''%chk=h3f.chk\<newline>%mem=25GB\<newline>%nprocshared=6\<newline># ump2(full)/gen pseudo=read guess=mix scf=(maxcycle=500, yqc, tight) OPT(maxcycles=1000)\<newline>\<newline>Basis Set from basissetexchange.org:  Zr: cc-pVTZ-PP   F, H: cc-pVTZ\<newline>\<newline>0 1\<newline> F\<newline> H 1 B4\<newline>\<newline> B4 1.0\<newline>\<newline>b\<newline>\<newline>''],
        traj_xyz = None, energy_dat = None\<rparr>)"
  by (simp add: six_cells(1) fresh_def cell_check_scan_bond_def cell_validate_def
      cell_opt_deck_def cell_run_opt_def cell_check_opt_def cell_scan_deck_def user_input_def
      example_geometry unscanned_log validation_cell_def validate_parameters_def num_eval
      float_eval opt_header_def scan_header_def str_eval)

lemma unscanned_deck:
  "readlines ''%chk=h3f.chk\<newline>%mem=25GB\<newline>%nprocshared=6\<newline># scan ump2(full)/gen pseudo=read guess=mix scf=(maxcycle=500, yqc, tight)\<newline>\<newline>Basis Set from basissetexchange.org:  Zr: cc-pVTZ-PP   F, H: cc-pVTZ\<newline>\<newline>0 1\<newline> F\<newline> H   1   B4\<newline>\<newline>\<newline>b\<newline>\<newline>''
     = [''%chk=h3f.chk\<newline>'',
       ''%mem=25GB\<newline>'',
       ''%nprocshared=6\<newline>'',
       ''# scan ump2(full)/gen pseudo=read guess=mix scf=(maxcycle=500, yqc, tight)\<newline>'',
       ''\<newline>'',
       ''Basis Set from basissetexchange.org:  Zr: cc-pVTZ-PP   F, H: cc-pVTZ\<newline>'',
       ''\<newline>'',
       ''0 1\<newline>'',
       '' F\<newline>'',
       '' H   1   B4\<newline>'',
       ''\<newline>'',
       ''\<newline>'',
       ''b\<newline>'',
       ''\<newline>'']"
  "unambiguous ''B4''
      [''%chk=h3f.chk\<newline>'',
       ''%mem=25GB\<newline>'',
       ''%nprocshared=6\<newline>'',
       ''# scan ump2(full)/gen pseudo=read guess=mix scf=(maxcycle=500, yqc, tight)\<newline>'',
       ''\<newline>'',
       ''Basis Set from basissetexchange.org:  Zr: cc-pVTZ-PP   F, H: cc-pVTZ\<newline>'',
       ''\<newline>'',
       ''0 1\<newline>'',
       '' F\<newline>'',
       '' H   1   B4\<newline>'',
       ''\<newline>'',
       ''\<newline>'',
       ''b\<newline>'',
       ''\<newline>'']"
  "bond_absent ''B4''
      [''%chk=h3f.chk\<newline>'',
       ''%mem=25GB\<newline>'',
       ''%nprocshared=6\<newline>'',
       ''# scan ump2(full)/gen pseudo=read guess=mix scf=(maxcycle=500, yqc, tight)\<newline>'',
       ''\<newline>'',
       ''Basis Set from basissetexchange.org:  Zr: cc-pVTZ-PP   F, H: cc-pVTZ\<newline>'',
       ''\<newline>'',
       ''0 1\<newline>'',
       '' F\<newline>'',
       '' H   1   B4\<newline>'',
       ''\<newline>'',
       ''\<newline>'',
       ''b\<newline>'',
       ''\<newline>'']"
  by (simp_all add: readlines_def bond_eval)

text \<open>
  The theorem on four decks and two runs: a deck whose fourth line names the bond with the
  distance \<^verbatim>\<open>1.40000000\<close>; a deck whose line has the field \<^verbatim>\<open>abc\<close>; a deck without the
  bond; a geometry file without the bond; and a run in which the log of the optimisation
  has no line for the bond, so that the scan deck has none.
\<close>

theorem update_scan_bond_named_line_witness:
  "unambiguous ''B4'' ['' F\<newline>'',
     '' H   1   B4\<newline>'',
     ''\<newline>'',
     '' B4   1.40000000\<newline>''] \<and>
   names_bond ''B4'' (['' F\<newline>'',
     '' H   1   B4\<newline>'',
     ''\<newline>'',
     '' B4   1.40000000\<newline>''] ! 3) \<and>
   bond_absent ''B4'' (take 3 ['' F\<newline>'',
     '' H   1   B4\<newline>'',
     ''\<newline>'',
     '' B4   1.40000000\<newline>'']) \<and>
   update_scan_bond ['' F\<newline>'',
     '' H   1   B4\<newline>'',
     ''\<newline>'',
     '' B4   1.40000000\<newline>''] ''B4''
       (PyFloat (Finite False 6305039478318694 (- 53))) (PyFloat (Finite False 7881299347898368 (- 52))) (PyInt 105)
     = (Some (Finite False 8827055269646171 (- 53)), Some (Finite False 8070450532247927 (- 59)),
        Inr ['' F\<newline>'',
             '' H   1   B4\<newline>'',
             ''\<newline>'',
             '' B4   0.98000000   105   0.013999999999999997\<newline>'']) \<and>
   unambiguous ''B4'' ['' B4   abc\<newline>''] \<and> names_bond ''B4'' (['' B4   abc\<newline>''] ! 0) \<and>
   float_of_string (split_ws (['' B4   abc\<newline>''] ! 0) ! 1) = None \<and>
   update_scan_bond ['' B4   abc\<newline>''] ''B4'' (PyFloat (Finite False 6305039478318694 (- 53))) (PyFloat (Finite False 7881299347898368 (- 52))) (PyInt 105)
     = (None, None, Inl (LiteralError ''abc'')) \<and>
   unambiguous ''B4'' ['' F\<newline>'',
       '' H   1   B4\<newline>''] \<and> bond_absent ''B4'' ['' F\<newline>'',
       '' H   1   B4\<newline>''] \<and>
   update_scan_bond ['' F\<newline>'',
       '' H   1   B4\<newline>''] ''B4'' (PyFloat (Finite False 6305039478318694 (- 53))) (PyFloat (Finite False 7881299347898368 (- 52))) (PyInt 105)
     = (None, None, Inl (ValueError (''Error: Could not find the line starting with '' @ apostrophe @ ''B4'' @ apostrophe @ ''.''))) \<and>
   bond_absent ''B4'' (readlines ''#\<newline>\<newline>t\<newline>\<newline>0 1\<newline> F\<newline> H 1 B4\<newline>\<newline>'') \<and>
   run_all user_input
       \<lparr>geom_file = ''#\<newline>\<newline>t\<newline>\<newline>0 1\<newline> F\<newline> H 1 B4\<newline>\<newline>'', basisset_file = ''b\<newline>'',
        engine = (\<lambda>deck. None)\<rparr>
     = (Some (ValueError (''Error: Could not find the line starting with '' @ apostrophe @ ''B4'' @ apostrophe
          @ ''.\<newline> Please provide a valid bond to be scanned.'')), fresh) \<and>
   (\<exists>s d.
      run_cells
          (take 6 (cells user_input
           \<lparr>geom_file = ''#\<newline>\<newline>t\<newline>\<newline>0 1\<newline> F\<newline> H 1 B4\<newline>\<newline> B4 1.0\<newline>\<newline>'',
        basisset_file = ''b\<newline>'',
        engine = map_of
          [(''%chk=h3f.chk\<newline>%mem=25GB\<newline>%nprocshared=6\<newline># ump2(full)/gen pseudo=read guess=mix scf=(maxcycle=500, yqc, tight) OPT(maxcycles=1000)\<newline>\<newline>Basis Set from basissetexchange.org:  Zr: cc-pVTZ-PP   F, H: cc-pVTZ\<newline>\<newline>0 1\<newline> F\<newline> H 1 B4\<newline>\<newline> B4 1.0\<newline>\<newline>b\<newline>\<newline>'',
            '' Final structure in terms of initial Z-matrix:\<newline> F\<newline> H,1,B4\<newline> Variables:\<newline> 1 1\<newline> Normal termination\<newline>'')]\<rparr>))
          fresh
        = (None, s) \<and>
      scan_gjf s = Some d \<and> unambiguous ''B4'' (readlines d) \<and> bond_absent ''B4'' (readlines d) \<and>
      run_all user_input
          \<lparr>geom_file = ''#\<newline>\<newline>t\<newline>\<newline>0 1\<newline> F\<newline> H 1 B4\<newline>\<newline> B4 1.0\<newline>\<newline>'',
        basisset_file = ''b\<newline>'',
        engine = map_of
          [(''%chk=h3f.chk\<newline>%mem=25GB\<newline>%nprocshared=6\<newline># ump2(full)/gen pseudo=read guess=mix scf=(maxcycle=500, yqc, tight) OPT(maxcycles=1000)\<newline>\<newline>Basis Set from basissetexchange.org:  Zr: cc-pVTZ-PP   F, H: cc-pVTZ\<newline>\<newline>0 1\<newline> F\<newline> H 1 B4\<newline>\<newline> B4 1.0\<newline>\<newline>b\<newline>\<newline>'',
            '' Final structure in terms of initial Z-matrix:\<newline> F\<newline> H,1,B4\<newline> Variables:\<newline> 1 1\<newline> Normal termination\<newline>'')]\<rparr>
        = (Some (ValueError (''Error: Could not find the line starting with '' @ apostrophe @ ''B4'' @ apostrophe @ ''.'')), s\<lparr>minimum_dist := None, step_size := None\<rparr>) \<and>
      engine_runs s
        = [''%chk=h3f.chk\<newline>%mem=25GB\<newline>%nprocshared=6\<newline># ump2(full)/gen pseudo=read guess=mix scf=(maxcycle=500, yqc, tight) OPT(maxcycles=1000)\<newline>\<newline>Basis Set from basissetexchange.org:  Zr: cc-pVTZ-PP   F, H: cc-pVTZ\<newline>\<newline>0 1\<newline> F\<newline> H 1 B4\<newline>\<newline> B4 1.0\<newline>\<newline>b\<newline>\<newline>''])"
proof -
  let ?a = "['' F\<newline>'',
     '' H   1   B4\<newline>'',
     ''\<newline>'',
     '' B4   1.40000000\<newline>'']"
  let ?b = "['' B4   abc\<newline>'']"
  let ?c = "['' F\<newline>'',
       '' H   1   B4\<newline>'']"
  let ?lb = "PyFloat (Finite False 6305039478318694 (- 53))"
  let ?ub = "PyFloat (Finite False 7881299347898368 (- 52))"
  let ?wd = "\<lparr>geom_file = ''#\<newline>\<newline>t\<newline>\<newline>0 1\<newline> F\<newline> H 1 B4\<newline>\<newline>'', basisset_file = ''b\<newline>'',
        engine = (\<lambda>deck. None)\<rparr>"
  let ?w3 = "\<lparr>geom_file = ''#\<newline>\<newline>t\<newline>\<newline>0 1\<newline> F\<newline> H 1 B4\<newline>\<newline> B4 1.0\<newline>\<newline>'',
        basisset_file = ''b\<newline>'',
        engine = map_of
          [(''%chk=h3f.chk\<newline>%mem=25GB\<newline>%nprocshared=6\<newline># ump2(full)/gen pseudo=read guess=mix scf=(maxcycle=500, yqc, tight) OPT(maxcycles=1000)\<newline>\<newline>Basis Set from basissetexchange.org:  Zr: cc-pVTZ-PP   F, H: cc-pVTZ\<newline>\<newline>0 1\<newline> F\<newline> H 1 B4\<newline>\<newline> B4 1.0\<newline>\<newline>b\<newline>\<newline>'',
            '' Final structure in terms of initial Z-matrix:\<newline> F\<newline> H,1,B4\<newline> Variables:\<newline> 1 1\<newline> Normal termination\<newline>'')]\<rparr>"
  let ?s6 = "\<lparr>printed = [''Geometry optimization completed successfully.''],
        input_geometry = [''0 1\<newline>'',
          '' F\<newline>'',
          '' H 1 B4\<newline>'',
          ''\<newline>'',
          '' B4 1.0\<newline>''],
        basisset = [''\<newline>'',
       ''b\<newline>'',
       ''\<newline>''],
        opt_gjf = Some ''%chk=h3f.chk\<newline>%mem=25GB\<newline>%nprocshared=6\<newline># ump2(full)/gen pseudo=read guess=mix scf=(maxcycle=500, yqc, tight) OPT(maxcycles=1000)\<newline>\<newline>Basis Set from basissetexchange.org:  Zr: cc-pVTZ-PP   F, H: cc-pVTZ\<newline>\<newline>0 1\<newline> F\<newline> H 1 B4\<newline>\<newline> B4 1.0\<newline>\<newline>b\<newline>\<newline>'',
        opt_log = Some '' Final structure in terms of initial Z-matrix:\<newline> F\<newline> H,1,B4\<newline> Variables:\<newline> 1 1\<newline> Normal termination\<newline>'',
        scan_gjf = Some ''%chk=h3f.chk\<newline>%mem=25GB\<newline>%nprocshared=6\<newline># scan ump2(full)/gen pseudo=read guess=mix scf=(maxcycle=500, yqc, tight)\<newline>\<newline>Basis Set from basissetexchange.org:  Zr: cc-pVTZ-PP   F, H: cc-pVTZ\<newline>\<newline>0 1\<newline> F\<newline> H   1   B4\<newline>\<newline>\<newline>b\<newline>\<newline>'',
        scan_log = None, minimum_dist = None, step_size = None,
        engine_runs = [''%chk=h3f.chk\<newline>%mem=25GB\<newline>%nprocshared=6\<newline># ump2(full)/gen pseudo=read guess=mix scf=(maxcycle=500, yqc, tight) OPT(maxcycles=1000)\<newline>\<newline>Basis Set from basissetexchange.org:  Zr: cc-pVTZ-PP   F, H: cc-pVTZ\<newline>\<newline>0 1\<newline> F\<newline> H 1 B4\<newline>\<newline> B4 1.0\<newline>\<newline>b\<newline>\<newline>''],
        traj_xyz = None, energy_dat = None\<rparr>"
  note t = update_scan_bond_named_line
  have a: "unambiguous ''B4'' ?a" "names_bond ''B4'' (?a ! 3)" "bond_absent ''B4'' (take 3 ?a)"
    "3 < length ?a" "split_ws (?a ! 3) ! 1 = ''1.40000000''"
    by (simp_all add: bond_eval)
  have b: "unambiguous ''B4'' ?b" "names_bond ''B4'' (?b ! 0)" "bond_absent ''B4'' (take 0 ?b)"
    "0 < length ?b" "split_ws (?b ! 0) ! 1 = ''abc''"
    by (simp_all add: bond_eval)
  have bf: "float_of_string ''abc'' = None"
    by (simp add: parse_eval)
  have c: "unambiguous ''B4'' ?c" "bond_absent ''B4'' ?c"
    by (simp_all add: bond_eval)
  have d: "bond_absent ''B4'' (readlines (geom_file ?wd))"
    by (simp add: readlines_def bond_eval)
  have ra: "update_scan_bond ?a ''B4'' ?lb ?ub (PyInt 105)
      = (Some (Finite False 8827055269646171 (- 53)), Some (Finite False 8070450532247927 (- 59)),
         Inr (?a[3 := scan_line ''B4'' (Finite False 8827055269646171 (- 53)) 105 (Finite False 8070450532247927 (- 59))]))"
    using t [where b = "''B4''" and deck = ?a and i = 3 and lb = ?lb and ub = ?ub
        and sn = "PyInt 105" and eq = "Finite False 6305039478318694 (- 52)"
        and mn = "Finite False 8827055269646171 (- 53)" and mx = "Finite False 5516909543528857 (- 51)"
        and sz = "Finite False 8070450532247927 (- 59)" and n = 105]
      a example_equilibrium example_minimum example_maximum example_step
    by (simp add: py_int_def)
  have rb: "update_scan_bond ?b ''B4'' ?lb ?ub (PyInt 105) = (None, None, Inl (LiteralError ''abc''))"
    using t [where b = "''B4''" and deck = ?b and i = 0 and lb = ?lb and ub = ?ub
        and sn = "PyInt 105"] b bf
    by simp
  have rc: "update_scan_bond ?c ''B4'' ?lb ?ub (PyInt 105)
      = (None, None, Inl (ValueError (not_found_message ''B4'')))"
    using t [where b = "''B4''" and deck = ?c and lb = ?lb and ub = ?ub and sn = "PyInt 105"] c
    by simp
  have rd: "run_all user_input ?wd
      = (Some (ValueError (''Error: Could not find the line starting with '' @ apostrophe @ ''B4'' @ apostrophe
          @ ''.\<newline> Please provide a valid bond to be scanned.'')), fresh)"
    using t [where cfg = user_input and w = ?wd] d
    by (simp add: user_input_def)
  have e: "scan_gjf ?s6 = Some ''%chk=h3f.chk\<newline>%mem=25GB\<newline>%nprocshared=6\<newline># scan ump2(full)/gen pseudo=read guess=mix scf=(maxcycle=500, yqc, tight)\<newline>\<newline>Basis Set from basissetexchange.org:  Zr: cc-pVTZ-PP   F, H: cc-pVTZ\<newline>\<newline>0 1\<newline> F\<newline> H   1   B4\<newline>\<newline>\<newline>b\<newline>\<newline>''"
    by simp
  have re: "run_all user_input ?w3
        = (Some (ValueError (not_found_message ''B4'')), ?s6\<lparr>minimum_dist := None, step_size := None\<rparr>) \<and>
      engine_runs ?s6 = [opt_deck user_input ?w3]"
    using t [where cfg = user_input and w = ?w3 and s = ?s6
        and d = "''%chk=h3f.chk\<newline>%mem=25GB\<newline>%nprocshared=6\<newline># scan ump2(full)/gen pseudo=read guess=mix scf=(maxcycle=500, yqc, tight)\<newline>\<newline>Basis Set from basissetexchange.org:  Zr: cc-pVTZ-PP   F, H: cc-pVTZ\<newline>\<newline>0 1\<newline> F\<newline> H   1   B4\<newline>\<newline>\<newline>b\<newline>\<newline>''"]
      unscanned_cells e unscanned_deck
    by (simp add: user_input_def)
  have es: "engine_runs ?s6 = [''%chk=h3f.chk\<newline>%mem=25GB\<newline>%nprocshared=6\<newline># ump2(full)/gen pseudo=read guess=mix scf=(maxcycle=500, yqc, tight) OPT(maxcycles=1000)\<newline>\<newline>Basis Set from basissetexchange.org:  Zr: cc-pVTZ-PP   F, H: cc-pVTZ\<newline>\<newline>0 1\<newline> F\<newline> H 1 B4\<newline>\<newline> B4 1.0\<newline>\<newline>b\<newline>\<newline>'']"
    by simp
  from re es have re': "run_all user_input ?w3
        = (Some (ValueError (''Error: Could not find the line starting with '' @ apostrophe @ ''B4'' @ apostrophe @ ''.'')), ?s6\<lparr>minimum_dist := None, step_size := None\<rparr>)"
    by (simp add: not_found_message_def)
  have last: "\<exists>s d.
      run_cells (take 6 (cells user_input ?w3)) fresh = (None, s) \<and>
      scan_gjf s = Some d \<and> unambiguous ''B4'' (readlines d) \<and> bond_absent ''B4'' (readlines d) \<and>
      run_all user_input ?w3
        = (Some (ValueError (''Error: Could not find the line starting with '' @ apostrophe @ ''B4'' @ apostrophe @ ''.'')), s\<lparr>minimum_dist := None, step_size := None\<rparr>) \<and>
      engine_runs s = [''%chk=h3f.chk\<newline>%mem=25GB\<newline>%nprocshared=6\<newline># ump2(full)/gen pseudo=read guess=mix scf=(maxcycle=500, yqc, tight) OPT(maxcycles=1000)\<newline>\<newline>Basis Set from basissetexchange.org:  Zr: cc-pVTZ-PP   F, H: cc-pVTZ\<newline>\<newline>0 1\<newline> F\<newline> H 1 B4\<newline>\<newline> B4 1.0\<newline>\<newline>b\<newline>\<newline>'']"
    apply (rule exI [of _ ?s6])
    apply (rule exI [of _ "''%chk=h3f.chk\<newline>%mem=25GB\<newline>%nprocshared=6\<newline># scan ump2(full)/gen pseudo=read guess=mix scf=(maxcycle=500, yqc, tight)\<newline>\<newline>Basis Set from basissetexchange.org:  Zr: cc-pVTZ-PP   F, H: cc-pVTZ\<newline>\<newline>0 1\<newline> F\<newline> H   1   B4\<newline>\<newline>\<newline>b\<newline>\<newline>''"])
    apply (intro conjI)
         apply (rule unscanned_cells)
        apply (rule e)
       apply (simp add: unscanned_deck)
      apply (simp add: unscanned_deck)
     apply (rule re')
    apply (rule es)
    done
  have ra': "update_scan_bond ?a ''B4'' ?lb ?ub (PyInt 105)
      = (Some (Finite False 8827055269646171 (- 53)), Some (Finite False 8070450532247927 (- 59)),
         Inr ['' F\<newline>'',
             '' H   1   B4\<newline>'',
             ''\<newline>'',
             '' B4   0.98000000   105   0.013999999999999997\<newline>''])"
    unfolding ra by (simp add: example_directive)
  have rc': "update_scan_bond ?c ''B4'' ?lb ?ub (PyInt 105)
      = (None, None, Inl (ValueError (''Error: Could not find the line starting with '' @ apostrophe @ ''B4'' @ apostrophe @ ''.'')))"
    unfolding rc by (simp add: not_found_message_def)
  have bf': "float_of_string (split_ws (?b ! 0) ! 1) = None"
    unfolding b(5) by (rule bf)
  have d': "bond_absent ''B4'' (readlines ''#\<newline>\<newline>t\<newline>\<newline>0 1\<newline> F\<newline> H 1 B4\<newline>\<newline>'')"
    using d by simp
  from a(1-3) ra' b(1,2) bf' rb c rc' d' rd last show ?thesis
    by blast
qed

text \<open>
  Claim C3 as stated fails. A line that names the bond with a field that is not a number
  is taken, not passed over for the next line: \<^verbatim>\<open>float\<close> raises, and the line with the
  number is not rewritten. The line of \<^verbatim>\<open>B10\<close> is taken for the bond \<^verbatim>\<open>B1\<close> when it comes
  first. And in a run whose scan deck has no line for the bond, the error is raised when
  the engine has been run on the optimisation deck.
\<close>

theorem update_scan_bond_counterexample:
  "update_scan_bond ['' B4   abc\<newline>'', '' B4   1.40000000\<newline>''] ''B4''
       (PyFloat (Finite False 6305039478318694 (- 53))) (PyFloat (Finite False 7881299347898368 (- 52))) (PyInt 105)
     = (None, None, Inl (LiteralError ''abc'')) \<and>
   update_scan_bond ['' B10   1.40000000\<newline>'', '' B1   0.92000000\<newline>''] ''B1''
       (PyFloat (Finite False 6305039478318694 (- 53))) (PyFloat (Finite False 7881299347898368 (- 52))) (PyInt 105)
     = (Some (Finite False 8827055269646171 (- 53)), Some (Finite False 8070450532247927 (- 59)),
        Inr ['' B1   0.98000000   105   0.013999999999999997\<newline>'', '' B1   0.92000000\<newline>'']) \<and>
   fst (run_all user_input
       \<lparr>geom_file = ''#\<newline>\<newline>t\<newline>\<newline>0 1\<newline> F\<newline> H 1 B4\<newline>\<newline> B4 1.0\<newline>\<newline>'',
        basisset_file = ''b\<newline>'',
        engine = map_of
          [(''%chk=h3f.chk\<newline>%mem=25GB\<newline>%nprocshared=6\<newline># ump2(full)/gen pseudo=read guess=mix scf=(maxcycle=500, yqc, tight) OPT(maxcycles=1000)\<newline>\<newline>Basis Set from basissetexchange.org:  Zr: cc-pVTZ-PP   F, H: cc-pVTZ\<newline>\<newline>0 1\<newline> F\<newline> H 1 B4\<newline>\<newline> B4 1.0\<newline>\<newline>b\<newline>\<newline>'',
            '' Final structure in terms of initial Z-matrix:\<newline> F\<newline> H,1,B4\<newline> Variables:\<newline> 1 1\<newline> Normal termination\<newline>'')]\<rparr>)
     = Some (ValueError (''Error: Could not find the line starting with '' @ apostrophe @ ''B4'' @ apostrophe @ ''.'')) \<and>
   engine_runs (snd (run_all user_input
       \<lparr>geom_file = ''#\<newline>\<newline>t\<newline>\<newline>0 1\<newline> F\<newline> H 1 B4\<newline>\<newline> B4 1.0\<newline>\<newline>'',
        basisset_file = ''b\<newline>'',
        engine = map_of
          [(''%chk=h3f.chk\<newline>%mem=25GB\<newline>%nprocshared=6\<newline># ump2(full)/gen pseudo=read guess=mix scf=(maxcycle=500, yqc, tight) OPT(maxcycles=1000)\<newline>\<newline>Basis Set from basissetexchange.org:  Zr: cc-pVTZ-PP   F, H: cc-pVTZ\<newline>\<newline>0 1\<newline> F\<newline> H 1 B4\<newline>\<newline> B4 1.0\<newline>\<newline>b\<newline>\<newline>'',
            '' Final structure in terms of initial Z-matrix:\<newline> F\<newline> H,1,B4\<newline> Variables:\<newline> 1 1\<newline> Normal termination\<newline>'')]\<rparr>))
     = [''%chk=h3f.chk\<newline>%mem=25GB\<newline>%nprocshared=6\<newline># ump2(full)/gen pseudo=read guess=mix scf=(maxcycle=500, yqc, tight) OPT(maxcycles=1000)\<newline>\<newline>Basis Set from basissetexchange.org:  Zr: cc-pVTZ-PP   F, H: cc-pVTZ\<newline>\<newline>0 1\<newline> F\<newline> H 1 B4\<newline>\<newline> B4 1.0\<newline>\<newline>b\<newline>\<newline>'']"
proof -
  let ?w3 = "\<lparr>geom_file = ''#\<newline>\<newline>t\<newline>\<newline>0 1\<newline> F\<newline> H 1 B4\<newline>\<newline> B4 1.0\<newline>\<newline>'',
        basisset_file = ''b\<newline>'',
        engine = map_of
          [(''%chk=h3f.chk\<newline>%mem=25GB\<newline>%nprocshared=6\<newline># ump2(full)/gen pseudo=read guess=mix scf=(maxcycle=500, yqc, tight) OPT(maxcycles=1000)\<newline>\<newline>Basis Set from basissetexchange.org:  Zr: cc-pVTZ-PP   F, H: cc-pVTZ\<newline>\<newline>0 1\<newline> F\<newline> H 1 B4\<newline>\<newline> B4 1.0\<newline>\<newline>b\<newline>\<newline>'',
            '' Final structure in terms of initial Z-matrix:\<newline> F\<newline> H,1,B4\<newline> Variables:\<newline> 1 1\<newline> Normal termination\<newline>'')]\<rparr>"
  let ?s6 = "\<lparr>printed = [''Geometry optimization completed successfully.''],
        input_geometry = [''0 1\<newline>'',
          '' F\<newline>'',
          '' H 1 B4\<newline>'',
          ''\<newline>'',
          '' B4 1.0\<newline>''],
        basisset = [''\<newline>'',
       ''b\<newline>'',
       ''\<newline>''],
        opt_gjf = Some ''%chk=h3f.chk\<newline>%mem=25GB\<newline>%nprocshared=6\<newline># ump2(full)/gen pseudo=read guess=mix scf=(maxcycle=500, yqc, tight) OPT(maxcycles=1000)\<newline>\<newline>Basis Set from basissetexchange.org:  Zr: cc-pVTZ-PP   F, H: cc-pVTZ\<newline>\<newline>0 1\<newline> F\<newline> H 1 B4\<newline>\<newline> B4 1.0\<newline>\<newline>b\<newline>\<newline>'',
        opt_log = Some '' Final structure in terms of initial Z-matrix:\<newline> F\<newline> H,1,B4\<newline> Variables:\<newline> 1 1\<newline> Normal termination\<newline>'',
        scan_gjf = Some ''%chk=h3f.chk\<newline>%mem=25GB\<newline>%nprocshared=6\<newline># scan ump2(full)/gen pseudo=read guess=mix scf=(maxcycle=500, yqc, tight)\<newline>\<newline>Basis Set from basissetexchange.org:  Zr: cc-pVTZ-PP   F, H: cc-pVTZ\<newline>\<newline>0 1\<newline> F\<newline> H   1   B4\<newline>\<newline>\<newline>b\<newline>\<newline>'',
        scan_log = None, minimum_dist = None, step_size = None,
        engine_runs = [''%chk=h3f.chk\<newline>%mem=25GB\<newline>%nprocshared=6\<newline># ump2(full)/gen pseudo=read guess=mix scf=(maxcycle=500, yqc, tight) OPT(maxcycles=1000)\<newline>\<newline>Basis Set from basissetexchange.org:  Zr: cc-pVTZ-PP   F, H: cc-pVTZ\<newline>\<newline>0 1\<newline> F\<newline> H 1 B4\<newline>\<newline> B4 1.0\<newline>\<newline>b\<newline>\<newline>''],
        traj_xyz = None, energy_dat = None\<rparr>"
  have f1: "find_scan_line ''B4'' ['' B4   abc\<newline>'', '' B4   1.40000000\<newline>''] 0 = Some (0, ''abc'')"
    by (simp add: text_eval split_ws_def)
  have f2: "find_scan_line ''B1'' ['' B10   1.40000000\<newline>'', '' B1   0.92000000\<newline>''] 0
      = Some (0, ''1.40000000'')"
    by (simp add: text_eval split_ws_def)
  have l: "scan_line ''B1'' (Finite False 8827055269646171 (- 53)) 105 (Finite False 8070450532247927 (- 59))
      = '' B1   0.98000000   105   0.013999999999999997\<newline>''"
    by (simp add: scan_line_def example_minimum_8f example_step_repr str_eval)
  have u1: "update_scan_bond ['' B4   abc\<newline>'', '' B4   1.40000000\<newline>''] ''B4''
       (PyFloat (Finite False 6305039478318694 (- 53))) (PyFloat (Finite False 7881299347898368 (- 52))) (PyInt 105)
     = (None, None, Inl (LiteralError ''abc''))"
    unfolding update_scan_bond_def f1 by (simp add: parse_eval)
  have u2: "update_scan_bond ['' B10   1.40000000\<newline>'', '' B1   0.92000000\<newline>''] ''B1''
       (PyFloat (Finite False 6305039478318694 (- 53))) (PyFloat (Finite False 7881299347898368 (- 52))) (PyInt 105)
     = (Some (Finite False 8827055269646171 (- 53)), Some (Finite False 8070450532247927 (- 59)),
        Inr ['' B1   0.98000000   105   0.013999999999999997\<newline>'', '' B1   0.92000000\<newline>''])"
    unfolding update_scan_bond_def f2
    by (simp add: example_equilibrium example_minimum example_maximum example_step l py_int_def)
  have e: "scan_gjf ?s6 = Some ''%chk=h3f.chk\<newline>%mem=25GB\<newline>%nprocshared=6\<newline># scan ump2(full)/gen pseudo=read guess=mix scf=(maxcycle=500, yqc, tight)\<newline>\<newline>Basis Set from basissetexchange.org:  Zr: cc-pVTZ-PP   F, H: cc-pVTZ\<newline>\<newline>0 1\<newline> F\<newline> H   1   B4\<newline>\<newline>\<newline>b\<newline>\<newline>''"
    by simp
  have f3: "find_scan_line (scan_bond user_input)
      (readlines ''%chk=h3f.chk\<newline>%mem=25GB\<newline>%nprocshared=6\<newline># scan ump2(full)/gen pseudo=read guess=mix scf=(maxcycle=500, yqc, tight)\<newline>\<newline>Basis Set from basissetexchange.org:  Zr: cc-pVTZ-PP   F, H: cc-pVTZ\<newline>\<newline>0 1\<newline> F\<newline> H   1   B4\<newline>\<newline>\<newline>b\<newline>\<newline>'') 0 = None"
    unfolding unscanned_deck(1) by (simp add: user_input_def text_eval split_ws_def)
  from update_stops_run [OF unscanned_cells e f3]
  have r: "run_all user_input ?w3
      = (Some (ValueError (not_found_message (scan_bond user_input))),
         ?s6\<lparr>minimum_dist := None, step_size := None\<rparr>)" .
  have u3: "fst (run_all user_input ?w3) = Some (ValueError (''Error: Could not find the line starting with '' @ apostrophe @ ''B4'' @ apostrophe @ ''.''))"
    unfolding r by (simp add: not_found_message_def user_input_def)
  have u4: "engine_runs (snd (run_all user_input ?w3))
      = [''%chk=h3f.chk\<newline>%mem=25GB\<newline>%nprocshared=6\<newline># ump2(full)/gen pseudo=read guess=mix scf=(maxcycle=500, yqc, tight) OPT(maxcycles=1000)\<newline>\<newline>Basis Set from basissetexchange.org:  Zr: cc-pVTZ-PP   F, H: cc-pVTZ\<newline>\<newline>0 1\<newline> F\<newline> H 1 B4\<newline>\<newline> B4 1.0\<newline>\<newline>b\<newline>\<newline>'']"
    unfolding r by simp
  from u1 u2 u3 u4 show ?thesis
    by blast
qed

end
